theory Spec2Isabelle
  imports Main "HOL-Library.Sublist" "HOL-Library.AList"
begin

section \<open>Values, files and store rows\<close>

text \<open>
  The plugins of this repository reconcile a directory of JSON player files with the
  rows of a relational table. JSON documents are modelled as a datatype; numbers are the
  integers (the counters of the stats sub-document are integer fields), objects are
  association lists with distinct keys.
\<close>

datatype json =
    JNull
  | JBool bool
  | JNum int
  | JStr string
  | JArr "json list"
  | JObj "(string \<times> json) list"

text \<open>What an addition in the handlers can give: a number (an integer that is a double),
  an infinity (with its sign) or a string.\<close>

datatype jsval =
    JsNumber int
  | JsInfinite bool
  | JsString string

text \<open>
  \<^verbatim>\<open>JSON.parse\<close>, \<^verbatim>\<open>JSON.stringify(v)\<close>, \<^verbatim>\<open>JSON.stringify(v, null, 2)\<close> and the string
  conversion of a template literal or of a concatenation belong to the language
  runtime; what an integer column stores when it is handed a value, and whether the
  reference from \<^verbatim>\<open>KOTH_PlayerStats.player_id\<close> to \<^verbatim>\<open>KOTH_PlayerData\<close> is enforced, belong to
  the storage engine. Neither is code of the repository: they are parameters of the
  model. \<open>None\<close> from \<open>jsonParse\<close> is the \<^verbatim>\<open>SyntaxError\<close> that \<^verbatim>\<open>JSON.parse\<close> throws; \<open>None\<close>
  from \<open>columnInt\<close> is the engine refusing the statement.
\<close>

record runtime =
  jsonParse :: "string \<Rightarrow> json option"
  jsonStringify :: "json \<Rightarrow> string"
  jsonStringify2 :: "json \<Rightarrow> string"
  templateStr :: "json \<Rightarrow> string"
  columnInt :: "jsval \<Rightarrow> int option"
  enforcesReference :: bool

text \<open>A file of the KOTH folder: its text and the modification time the file system
  keeps for it (milliseconds, as \<^verbatim>\<open>Date\<close> compares them).\<close>

record disk_file =
  content :: string
  mtime :: int

text \<open>A row of \<^verbatim>\<open>KOTH_PlayerData\<close> and a row of \<^verbatim>\<open>KOTH_PlayerStats\<close>, each paired with its
  \<^verbatim>\<open>player_id\<close> in the table's list.\<close>

record pd_row =
  lastsave :: int
  serversave :: int
  playerdata :: json

record stats_row =
  playtime_seconds :: int
  kills :: int
  deaths :: int
  captures :: int
  last_updated :: int

text \<open>The state the handlers read and change: the KOTH folder (file names within it, in
  the order \<^verbatim>\<open>readdir\<close> lists them), the two tables, the process-local
  \<^verbatim>\<open>playerSessions\<close> object (login times) and the clock that \<^verbatim>\<open>new Date()\<close> reads. One
  run of a handler reads the same time throughout. A row of \<^verbatim>\<open>KOTH_PlayerData\<close> is found
  by its unique \<^verbatim>\<open>player_id\<close>; \<^verbatim>\<open>KOTH_PlayerStats\<close> has no unique key on \<^verbatim>\<open>player_id\<close>, so
  its list may hold several rows for one player: a find returns the first, an update or
  increment changes all of them.\<close>

record world =
  files :: "(string \<times> disk_file) list"
  playerData :: "(string \<times> pd_row) list"
  playerStats :: "(string \<times> stats_row) list"
  playerSessions :: "(string \<times> int) list"
  now :: int

text \<open>What a handler can throw: the \<^verbatim>\<open>SyntaxError\<close> of \<^verbatim>\<open>JSON.parse\<close> on the text of a file
  (with the file's name) or on a string payload of a row (with the row's key), the
  error of \<^verbatim>\<open>stat\<close> on a file that is not there, and the store's error for a stats row
  whose player has no row in \<^verbatim>\<open>KOTH_PlayerData\<close>.\<close>

datatype error =
    BadFile string
  | BadPayload string
  | ENOENT string
  | ForeignKey string

definition readdir :: "world \<Rightarrow> string list" where
  "readdir s = map fst (files s)"

text \<open>Writing a file replaces its text; the file system stamps it with the current time.\<close>

definition writeFile :: "string \<Rightarrow> string \<Rightarrow> world \<Rightarrow> world" where
  "writeFile name text s =
     s\<lparr>files := AList.update name \<lparr>content = text, mtime = now s\<rparr> (files s)\<rparr>"

text \<open>\<^verbatim>\<open>PlayerData.upsert({player_id, lastsave: new Date(), serversave: this.server.id,
  playerdata})\<close>.\<close>

definition upsertPlayerData :: "int \<Rightarrow> string \<Rightarrow> json \<Rightarrow> world \<Rightarrow> world" where
  "upsertPlayerData sid pid doc s =
     s\<lparr>playerData :=
         AList.update pid \<lparr>lastsave = now s, serversave = sid, playerdata = doc\<rparr> (playerData s)\<rparr>"

text \<open>\<^verbatim>\<open>typeof x === 'string' ? JSON.parse(x) : x\<close>: a payload that comes back from the
  store as a string is read as JSON text.\<close>

definition fromDb :: "runtime \<Rightarrow> json \<Rightarrow> json option" where
  "fromDb rt p = (case p of JStr t \<Rightarrow> jsonParse rt t | _ \<Rightarrow> Some p)"

section \<open>File names and identifiers\<close>

text \<open>\<^verbatim>\<open>playerfile.split('.json')[0]\<close>: the part of the name before the first occurrence
  of the separator (the whole name when the separator does not occur).\<close>

fun beforeFirst :: "string \<Rightarrow> string \<Rightarrow> string" where
  "beforeFirst sep [] = []"
| "beforeFirst sep (c # cs) = (if prefix sep (c # cs) then [] else c # beforeFirst sep cs)"

definition playerfileid :: "string \<Rightarrow> string" where
  "playerfileid playerfile = beforeFirst ''.json'' playerfile"

definition endsWith :: "string \<Rightarrow> string \<Rightarrow> bool" where
  "endsWith s suf = suffix suf s"

text \<open>\<^verbatim>\<open>toLowerCase\<close> on the letters A to Z; no other character lower-cases to a letter of
  \<^verbatim>\<open>serversettings\<close>.\<close>

definition lowerChar :: "char \<Rightarrow> char" where
  "lowerChar c =
     (case map_of (zip ''ABCDEFGHIJKLMNOPQRSTUVWXYZ'' ''abcdefghijklmnopqrstuvwxyz'') c of
        None \<Rightarrow> c
      | Some d \<Rightarrow> d)"

definition toLowerCase :: "string \<Rightarrow> string" where
  "toLowerCase s = map lowerChar s"

text \<open>\<^verbatim>\<open>/^\d{17}$/.test(steamID)\<close>.\<close>

definition isSteamID :: "string \<Rightarrow> bool" where
  "isSteamID steamID = (length steamID = 17 \<and> list_all (\<lambda>c. c \<in> set ''0123456789'') steamID)"

definition isSettingsFile :: "string \<Rightarrow> bool" where
  "isSettingsFile playerfile =
     (playerfile = ''ServerSettings.json'' \<or> toLowerCase playerfile = ''serversettings.json'')"

section \<open>The sweep of \<^verbatim>\<open>src/DBKoth.js\<close>\<close>

text \<open>The test of line 98, \<^verbatim>\<open>!dbdata || (lastfileedit > dbdata.lastsave)\<close>: the file is
  pushed when there is no row or the file is strictly newer than the row.\<close>

definition fileWins :: "disk_file \<Rightarrow> pd_row option \<Rightarrow> bool" where
  "fileWins fl dbdata = (case dbdata of None \<Rightarrow> True | Some row \<Rightarrow> mtime fl > lastsave row)"

text \<open>The body of the loop over the folder (lines 90 to 115). \<^verbatim>\<open>JSON.parse\<close> is not
  guarded: its exception leaves the loop and is caught by the handler around the whole
  sweep.\<close>

definition syncFile_v1 :: "runtime \<Rightarrow> int \<Rightarrow> string \<Rightarrow> world \<Rightarrow> error + world" where
  "syncFile_v1 rt sid playerfile s =
     (case map_of (files s) playerfile of
        None \<Rightarrow> Inl (ENOENT playerfile)
      | Some fl \<Rightarrow>
          (let dbdata = map_of (playerData s) (playerfileid playerfile)
           in if fileWins fl dbdata
              then (case jsonParse rt (content fl) of
                      None \<Rightarrow> Inl (BadFile playerfile)
                    | Some doc \<Rightarrow> Inr (upsertPlayerData sid (playerfileid playerfile) doc s))
              else (case dbdata of
                      None \<Rightarrow> Inr s
                    | Some row \<Rightarrow> Inr (writeFile playerfile (jsonStringify rt (playerdata row)) s))))"

text \<open>The loop returns the error that ended it (if any), the set \<^verbatim>\<open>processedSteamIDs\<close> and
  the state reached; what was written before an exception stays written.\<close>

fun fileLoop_v1 ::
  "runtime \<Rightarrow> int \<Rightarrow> string list \<Rightarrow> string set \<Rightarrow> world \<Rightarrow> error option \<times> string set \<times> world"
where
  "fileLoop_v1 rt sid [] processed s = (None, processed, s)"
| "fileLoop_v1 rt sid (playerfile # rest) processed s =
     (if \<not> endsWith playerfile ''.json'' then fileLoop_v1 rt sid rest processed s
      else (case syncFile_v1 rt sid playerfile s of
              Inl e \<Rightarrow> (Some e, insert (playerfileid playerfile) processed, s)
            | Inr s' \<Rightarrow> fileLoop_v1 rt sid rest (insert (playerfileid playerfile) processed) s'))"

text \<open>The second loop (lines 119 to 129): every row whose \<^verbatim>\<open>player_id\<close> was not seen in the
  first loop is written to \<^verbatim>\<open><player_id>.json\<close>.\<close>

fun catchup_v1 :: "runtime \<Rightarrow> (string \<times> pd_row) list \<Rightarrow> string set \<Rightarrow> world \<Rightarrow> world" where
  "catchup_v1 rt [] processed s = s"
| "catchup_v1 rt ((steamID, dbPlayer) # rest) processed s =
     (if steamID \<notin> processed
      then catchup_v1 rt rest processed
             (writeFile (steamID @ ''.json'') (jsonStringify rt (playerdata dbPlayer)) s)
      else catchup_v1 rt rest processed s)"

text \<open>\<^verbatim>\<open>syncKothFiles\<close>: the error component is what the handler around the sweep caught
  and logged (\<open>None\<close> when the sweep ran to its end).\<close>

definition syncKothFiles_v1 :: "runtime \<Rightarrow> int \<Rightarrow> world \<Rightarrow> error option \<times> world" where
  "syncKothFiles_v1 rt sid s =
     (case fileLoop_v1 rt sid (readdir s) {} s of
        (Some e, processed, s1) \<Rightarrow> (Some e, s1)
      | (None, processed, s1) \<Rightarrow> (None, catchup_v1 rt (playerData s1) processed s1))"

section \<open>The sweep of the guarded variant (\<^verbatim>\<open>src/unnamed/part_001\<close>, \<^verbatim>\<open>part_002\<close>)\<close>

text \<open>The loop body of lines 121 to 154 of \<^verbatim>\<open>part_001\<close> (134 to 167 of \<^verbatim>\<open>part_002\<close>):
  \<^verbatim>\<open>JSON.parse\<close> of the file is guarded and ends this file's turn only.\<close>

definition syncFile_v2 :: "runtime \<Rightarrow> int \<Rightarrow> string \<Rightarrow> world \<Rightarrow> error + world" where
  "syncFile_v2 rt sid playerfile s =
     (case map_of (files s) playerfile of
        None \<Rightarrow> Inl (ENOENT playerfile)
      | Some fl \<Rightarrow>
          (let dbdata = map_of (playerData s) (playerfileid playerfile)
           in if fileWins fl dbdata
              then (case jsonParse rt (content fl) of
                      None \<Rightarrow> Inr s
                    | Some doc \<Rightarrow> Inr (upsertPlayerData sid (playerfileid playerfile) doc s))
              else (case dbdata of
                      None \<Rightarrow> Inr s
                    | Some row \<Rightarrow>
                        (case fromDb rt (playerdata row) of
                           None \<Rightarrow> Inl (BadPayload (playerfileid playerfile))
                         | Some doc \<Rightarrow> Inr (writeFile playerfile (jsonStringify2 rt doc) s)))))"

fun fileLoop_v2 ::
  "runtime \<Rightarrow> int \<Rightarrow> string list \<Rightarrow> string set \<Rightarrow> world \<Rightarrow> error option \<times> string set \<times> world"
where
  "fileLoop_v2 rt sid [] processed s = (None, processed, s)"
| "fileLoop_v2 rt sid (playerfile # rest) processed s =
     (if \<not> endsWith playerfile ''.json'' \<or> isSettingsFile playerfile
      then fileLoop_v2 rt sid rest processed s
      else (case syncFile_v2 rt sid playerfile s of
              Inl e \<Rightarrow> (Some e, insert (playerfileid playerfile) processed, s)
            | Inr s' \<Rightarrow> fileLoop_v2 rt sid rest (insert (playerfileid playerfile) processed) s'))"

text \<open>The second loop (lines 161 to 174 of \<^verbatim>\<open>part_001\<close>): rows whose \<^verbatim>\<open>player_id\<close> is not
  seventeen digits, or is the settings sentinel, are passed over before anything else.\<close>

fun catchup_v2 ::
  "runtime \<Rightarrow> (string \<times> pd_row) list \<Rightarrow> string set \<Rightarrow> world \<Rightarrow> error option \<times> world"
where
  "catchup_v2 rt [] processed s = (None, s)"
| "catchup_v2 rt ((steamID, dbPlayer) # rest) processed s =
     (if \<not> isSteamID steamID \<or> toLowerCase steamID = ''serversettings''
      then catchup_v2 rt rest processed s
      else if steamID \<notin> processed
      then (case fromDb rt (playerdata dbPlayer) of
              None \<Rightarrow> (Some (BadPayload steamID), s)
            | Some doc \<Rightarrow>
                catchup_v2 rt rest processed
                  (writeFile (steamID @ ''.json'') (jsonStringify2 rt doc) s))
      else catchup_v2 rt rest processed s)"

definition syncKothFiles_v2 :: "runtime \<Rightarrow> int \<Rightarrow> world \<Rightarrow> error option \<times> world" where
  "syncKothFiles_v2 rt sid s =
     (case fileLoop_v2 rt sid (readdir s) {} s of
        (Some e, processed, s1) \<Rightarrow> (Some e, s1)
      | (None, processed, s1) \<Rightarrow> catchup_v2 rt (playerData s1) processed s1)"

text \<open>\<^verbatim>\<open>part_002\<close> (lines 108 to 193) pushes the settings row first and then runs the
  same two loops.\<close>

definition syncKothFiles_v3 :: "runtime \<Rightarrow> int \<Rightarrow> world \<Rightarrow> error option \<times> world" where
  "syncKothFiles_v3 rt sid s =
     (case map_of (playerData s) ''ServerSettings'' of
        None \<Rightarrow> syncKothFiles_v2 rt sid s
      | Some serverSettings \<Rightarrow>
          (case fromDb rt (playerdata serverSettings) of
             None \<Rightarrow> (Some (BadPayload ''ServerSettings''), s)
           | Some serverData \<Rightarrow>
               syncKothFiles_v2 rt sid
                 (writeFile ''ServerSettings.json'' (jsonStringify2 rt serverData) s)))"

text \<open>A table is readable when every payload in it can be read back: no payload is a
  string that is not JSON text.\<close>

definition readable :: "runtime \<Rightarrow> (string \<times> pd_row) list \<Rightarrow> bool" where
  "readable rt rows = list_all (\<lambda>(k, row). fromDb rt (playerdata row) \<noteq> None) rows"

section \<open>The telemetry variant (\<^verbatim>\<open>src/unnamed/part_000\<close>)\<close>

subsection \<open>JavaScript values\<close>

text \<open>Truthiness, a property read on a value that is not \<^verbatim>\<open>null\<close> (\<open>None\<close> is
  \<^verbatim>\<open>undefined\<close>; the properties read here are no array or string built-ins), and
  \<^verbatim>\<open>x || d\<close>.\<close>

fun truthy :: "json \<Rightarrow> bool" where
  "truthy JNull = False"
| "truthy (JBool b) = b"
| "truthy (JNum n) = (n \<noteq> 0)"
| "truthy (JStr t) = (t \<noteq> [])"
| "truthy (JArr xs) = True"
| "truthy (JObj kvs) = True"

fun getProp :: "json \<Rightarrow> string \<Rightarrow> json option" where
  "getProp (JObj kvs) k = map_of kvs k"
| "getProp v k = None"

definition orElse :: "json option \<Rightarrow> json \<Rightarrow> json" where
  "orElse x d = (case x of None \<Rightarrow> d | Some v \<Rightarrow> if truthy v then v else d)"

text \<open>The nearest double of an integer, ties to the even mantissa: below \<open>2^53\<close> the
  integer itself, above it a multiple of the power of two that leaves 53 bits.\<close>

fun bitlen :: "nat \<Rightarrow> nat" where
  "bitlen n = (if n = 0 then 0 else Suc (bitlen (n div 2)))"

definition roundDouble :: "int \<Rightarrow> int" where
  "roundDouble n =
     (let m = nat \<bar>n\<bar>
      in if m < 2 ^ 53 then n
         else (let u = 2 ^ (bitlen m - 53); q = m div u; r = m mod u
               in sgn n * int ((if 2 * r < u then q
                                else if u < 2 * r then q + 1
                                else if even q then q else q + 1) * u)))"

definition toDouble :: "int \<Rightarrow> jsval" where
  "toDouble n =
     (let v = roundDouble n in if 2 ^ 1024 \<le> \<bar>v\<bar> then JsInfinite (0 < n) else JsNumber v)"

text \<open>\<^verbatim>\<open>n + v\<close> for an integer column value \<open>n\<close>, read as a number: a number is added
  (both operands are doubles), \<^verbatim>\<open>true\<close>, \<^verbatim>\<open>false\<close> and \<^verbatim>\<open>null\<close> count as 1, 0 and 0, and the
  sum is rounded to a double. With a string, an array or an object the result is the
  concatenation of the two string conversions.\<close>

fun jsPlus :: "runtime \<Rightarrow> int \<Rightarrow> json \<Rightarrow> jsval" where
  "jsPlus rt n (JNum d) = toDouble (roundDouble n + roundDouble d)"
| "jsPlus rt n (JBool b) = toDouble (roundDouble n + (if b then 1 else 0))"
| "jsPlus rt n JNull = toDouble (roundDouble n)"
| "jsPlus rt n v = JsString (templateStr rt (JNum (roundDouble n)) @ templateStr rt v)"

text \<open>\<^verbatim>\<open>Model.update(values, {where: {player_id}})\<close> and \<^verbatim>\<open>Model.increment\<close> change every
  row of the player.\<close>

definition updateWhere ::
  "string \<Rightarrow> (stats_row \<Rightarrow> stats_row) \<Rightarrow> (string \<times> stats_row) list \<Rightarrow> (string \<times> stats_row) list"
where
  "updateWhere pid f rows = map (\<lambda>(k, row). if k = pid then (k, f row) else (k, row)) rows"

subsection \<open>The allow-list and the settings push\<close>

text \<open>\<^verbatim>\<open>readPlayerList\<close> (lines 114 to 142): a missing, empty or malformed file, a
  document without an array under \<^verbatim>\<open>players\<close>, and the \<^verbatim>\<open>TypeError\<close> of reading a
  property of \<^verbatim>\<open>null\<close> all give the empty list.\<close>

definition readPlayerList :: "runtime \<Rightarrow> world \<Rightarrow> json list" where
  "readPlayerList rt s =
     (case map_of (files s) ''PlayerList.json'' of
        None \<Rightarrow> []
      | Some fl \<Rightarrow>
          if content fl = [] then []
          else (case jsonParse rt (content fl) of
                  None \<Rightarrow> []
                | Some JNull \<Rightarrow> []
                | Some jsonData \<Rightarrow>
                    (case orElse (getProp jsonData ''players'') (JArr []) of
                       JArr steamIDs \<Rightarrow> steamIDs
                     | _ \<Rightarrow> [])))"

text \<open>\<^verbatim>\<open>syncServerSettings\<close> (lines 144 to 160); its own handler catches a payload that
  does not parse.\<close>

definition syncServerSettings :: "runtime \<Rightarrow> world \<Rightarrow> world" where
  "syncServerSettings rt s =
     (case map_of (playerData s) ''ServerSettings'' of
        None \<Rightarrow> s
      | Some serverSettings \<Rightarrow>
          (case fromDb rt (playerdata serverSettings) of
             None \<Rightarrow> s
           | Some serverData \<Rightarrow>
               writeFile ''ServerSettings.json'' (jsonStringify2 rt serverData) s))"

subsection \<open>The counter merge and the sweep\<close>

text \<open>The values of the update of lines 215 to 220, computed from the row that
  \<^verbatim>\<open>findOne\<close> returned: each counter is the stored one plus \<^verbatim>\<open>fileStats.<field> || 0\<close>, as
  the integer column stores it. \<open>None\<close> when the engine refuses one of the values.\<close>

definition mergeStats :: "runtime \<Rightarrow> int \<Rightarrow> stats_row \<Rightarrow> json \<Rightarrow> stats_row option" where
  "mergeStats rt t dbStats fileStats =
     (case columnInt rt (jsPlus rt (kills dbStats) (orElse (getProp fileStats ''kills'') (JNum 0))) of
        None \<Rightarrow> None
      | Some k \<Rightarrow>
          (case columnInt rt
                  (jsPlus rt (deaths dbStats) (orElse (getProp fileStats ''deaths'') (JNum 0))) of
             None \<Rightarrow> None
           | Some d \<Rightarrow>
               (case columnInt rt
                       (jsPlus rt (captures dbStats)
                          (orElse (getProp fileStats ''captures'') (JNum 0))) of
                  None \<Rightarrow> None
                | Some c \<Rightarrow>
                    Some (dbStats\<lparr>kills := k, deaths := d, captures := c, last_updated := t\<rparr>))))"

text \<open>In the words of the specification: the integer a stats sub-document gives for a
  field (zero when the field is absent, nothing when it holds anything but a number),
  and the sub-document with three given integers.\<close>

definition intField :: "(string \<times> json) list \<Rightarrow> string \<Rightarrow> int option" where
  "intField kvs field =
     (case map_of kvs field of None \<Rightarrow> Some 0 | Some (JNum d) \<Rightarrow> Some d | Some _ \<Rightarrow> None)"

definition statsDoc :: "int \<Rightarrow> int \<Rightarrow> int \<Rightarrow> json" where
  "statsDoc k d c = JObj [(''kills'', JNum k), (''deaths'', JNum d), (''captures'', JNum c)]"

text \<open>The body of the loop over the allow-list (lines 195 to 229). Every exception of the
  body is caught inside the loop: what was written before it stays written.\<close>

definition syncPlayer_v5 :: "runtime \<Rightarrow> int \<Rightarrow> json \<Rightarrow> world \<Rightarrow> world" where
  "syncPlayer_v5 rt sid steamID s =
     (case map_of (files s) (templateStr rt steamID @ ''.json'') of
        None \<Rightarrow> s
      | Some fl \<Rightarrow>
          (case jsonParse rt (content fl) of
             None \<Rightarrow> s
           | Some playerData' \<Rightarrow>
               (let s1 = upsertPlayerData sid (templateStr rt steamID) playerData' s in
                case playerData' of
                  JNull \<Rightarrow> s1
                | _ \<Rightarrow>
                    (case map_of (playerStats s1) (templateStr rt steamID) of
                       None \<Rightarrow> s1
                     | Some dbStats \<Rightarrow>
                         (case mergeStats rt (now s1) dbStats
                                 (orElse (getProp playerData' ''stats'') (JObj [])) of
                            None \<Rightarrow> s1
                          | Some new \<Rightarrow>
                              s1\<lparr>playerStats :=
                                   updateWhere (templateStr rt steamID)
                                     (\<lambda>row. row\<lparr>kills := kills new, deaths := deaths new,
                                                captures := captures new,
                                                last_updated := last_updated new\<rparr>)
                                     (playerStats s1)\<rparr>)))))"

fun playerLoop_v5 :: "runtime \<Rightarrow> int \<Rightarrow> json list \<Rightarrow> world \<Rightarrow> world" where
  "playerLoop_v5 rt sid [] s = s"
| "playerLoop_v5 rt sid (steamID # rest) s = playerLoop_v5 rt sid rest (syncPlayer_v5 rt sid steamID s)"

text \<open>\<^verbatim>\<open>syncKothFiles\<close> (lines 181 to 240); \<open>enabled\<close> is the option \<^verbatim>\<open>syncEnabled\<close>.\<close>

definition syncKothFiles_v5 :: "runtime \<Rightarrow> int \<Rightarrow> bool \<Rightarrow> world \<Rightarrow> world" where
  "syncKothFiles_v5 rt sid enabled s =
     (let connectedSteamIDs = readPlayerList rt s
      in playerLoop_v5 rt sid connectedSteamIDs
           (if length connectedSteamIDs \<ge> 50 \<and> enabled then syncServerSettings rt s else s))"

section \<open>Arrival and departure\<close>

text \<open>\<^verbatim>\<open>onPlayerConnected\<close> of \<^verbatim>\<open>src/DBKoth.js\<close> (lines 187 to 202).\<close>

definition onPlayerConnected_v1 :: "runtime \<Rightarrow> string \<Rightarrow> world \<Rightarrow> world" where
  "onPlayerConnected_v1 rt steamID s =
     (case map_of (playerData s) steamID of
        None \<Rightarrow> s
      | Some playerdb \<Rightarrow>
          writeFile (steamID @ ''.json'') (jsonStringify rt (playerdata playerdb)) s)"

text \<open>\<^verbatim>\<open>PlayerStats.upsert({player_id, last_updated: new Date()})\<close> (lines 325 to 328). The
  model of \<^verbatim>\<open>KOTH_PlayerStats\<close> (lines 84 to 102) has the generated \<^verbatim>\<open>id\<close> as its only key,
  so the statement never meets a row to update: it inserts a row with the column
  defaults. Where the engine enforces the reference of \<^verbatim>\<open>player_id\<close>, it refuses the row
  of a player without a row in \<^verbatim>\<open>KOTH_PlayerData\<close>.\<close>

definition upsertPlayerStats :: "runtime \<Rightarrow> string \<Rightarrow> world \<Rightarrow> error + world" where
  "upsertPlayerStats rt pid s =
     (if enforcesReference rt \<and> map_of (playerData s) pid = None then Inl (ForeignKey pid)
      else Inr (s\<lparr>playerStats :=
                   playerStats s
                   @ [(pid, \<lparr>playtime_seconds = 0, kills = 0, deaths = 0, captures = 0,
                             last_updated = now s\<rparr>)]\<rparr>))"

text \<open>\<^verbatim>\<open>onPlayerConnected\<close> of \<^verbatim>\<open>part_000\<close> (lines 306 to 331). Neither \<^verbatim>\<open>JSON.parse\<close> of a
  string payload nor the stats upsert is guarded: an exception ends the handler, and the
  result holds it together with the state reached.\<close>

definition onPlayerConnected_v5 :: "runtime \<Rightarrow> string \<Rightarrow> world \<Rightarrow> error option \<times> world" where
  "onPlayerConnected_v5 rt steamID s =
     (case (case map_of (playerData s) steamID of
              None \<Rightarrow> Inr s
            | Some playerdb \<Rightarrow>
                (case fromDb rt (playerdata playerdb) of
                   None \<Rightarrow> Inl (BadPayload steamID)
                 | Some doc \<Rightarrow> Inr (writeFile (steamID @ ''.json'') (jsonStringify2 rt doc) s))) of
        Inl e \<Rightarrow> (Some e, s)
      | Inr s1 \<Rightarrow>
          (case upsertPlayerStats rt steamID s1 of
             Inl e \<Rightarrow> (Some e, s1)
           | Inr s2 \<Rightarrow>
               (None, s2\<lparr>playerSessions := AList.update steamID (now s2) (playerSessions s2)\<rparr>)))"

text \<open>\<^verbatim>\<open>onPlayerDisconnected\<close> of \<^verbatim>\<open>src/DBKoth.js\<close> (lines 204 to 227): \<^verbatim>\<open>JSON.parse\<close> is
  not guarded.\<close>

definition onPlayerDisconnected_v1 :: "runtime \<Rightarrow> int \<Rightarrow> string \<Rightarrow> world \<Rightarrow> error + world" where
  "onPlayerDisconnected_v1 rt sid steamID s =
     (case map_of (files s) (steamID @ ''.json'') of
        None \<Rightarrow> Inr s
      | Some fl \<Rightarrow>
          (case jsonParse rt (content fl) of
             None \<Rightarrow> Inl (BadFile (steamID @ ''.json''))
           | Some doc \<Rightarrow> Inr (upsertPlayerData sid steamID doc s)))"

text \<open>\<^verbatim>\<open>onPlayerDisconnected\<close> of \<^verbatim>\<open>part_002\<close> (lines 263 to 293; \<^verbatim>\<open>part_001\<close> has the
  same body): a file that does not parse is logged and the handler returns.\<close>

definition onPlayerDisconnected_v3 :: "runtime \<Rightarrow> int \<Rightarrow> string \<Rightarrow> world \<Rightarrow> error + world" where
  "onPlayerDisconnected_v3 rt sid steamID s =
     (case map_of (files s) (steamID @ ''.json'') of
        None \<Rightarrow> Inr s
      | Some fl \<Rightarrow>
          (case jsonParse rt (content fl) of
             None \<Rightarrow> Inr s
           | Some doc \<Rightarrow> Inr (upsertPlayerData sid steamID doc s)))"

text \<open>The playtime step of \<^verbatim>\<open>part_000\<close> (lines 360 to 375): with an open session, the
  whole seconds since login are added to the playtime of the first stats row of the
  player (if there is one), the sum is written to all of the player's rows, and the
  session is deleted. Should the engine refuse the sum, the exception ends the handler
  before the session is deleted.\<close>

definition updatePlaytime :: "runtime \<Rightarrow> string \<Rightarrow> world \<Rightarrow> world" where
  "updatePlaytime rt pid s =
     (case map_of (playerSessions s) pid of
        None \<Rightarrow> s
      | Some loginTime \<Rightarrow>
          (case map_of (playerStats s) pid of
             None \<Rightarrow> s\<lparr>playerSessions := AList.delete pid (playerSessions s)\<rparr>
           | Some st \<Rightarrow>
               (case columnInt rt
                       (jsPlus rt (playtime_seconds st) (JNum ((now s - loginTime) div 1000))) of
                  None \<Rightarrow> s
                | Some seconds \<Rightarrow>
                    s\<lparr>playerStats :=
                        updateWhere pid
                          (\<lambda>row. row\<lparr>playtime_seconds := seconds, last_updated := now s\<rparr>)
                          (playerStats s),
                      playerSessions := AList.delete pid (playerSessions s)\<rparr>)))"

text \<open>\<^verbatim>\<open>onPlayerDisconnected\<close> of \<^verbatim>\<open>part_000\<close> (lines 333 to 376). The \<^verbatim>\<open>return\<close> in the
  handler of the parse error leaves the whole function.\<close>

definition onPlayerDisconnected_v5 :: "runtime \<Rightarrow> int \<Rightarrow> string \<Rightarrow> world \<Rightarrow> world" where
  "onPlayerDisconnected_v5 rt sid steamID s =
     (case map_of (files s) (steamID @ ''.json'') of
        None \<Rightarrow> updatePlaytime rt steamID s
      | Some fl \<Rightarrow>
          (case jsonParse rt (content fl) of
             None \<Rightarrow> s
           | Some doc \<Rightarrow> updatePlaytime rt steamID (upsertPlayerData sid steamID doc s)))"

section \<open>Telemetry events\<close>

text \<open>\<^verbatim>\<open>PlayerStats.increment(field, {where: {player_id}})\<close>: the engine adds one to the
  field in every row of the player, and changes nothing when the player has no row. The
  addition is the engine's, on integers; the upper end of the column's range is not
  modelled.\<close>

definition incrementKills :: "string \<Rightarrow> world \<Rightarrow> world" where
  "incrementKills pid s =
     s\<lparr>playerStats := updateWhere pid (\<lambda>st. st\<lparr>kills := kills st + 1\<rparr>) (playerStats s)\<rparr>"

definition incrementDeaths :: "string \<Rightarrow> world \<Rightarrow> world" where
  "incrementDeaths pid s =
     s\<lparr>playerStats := updateWhere pid (\<lambda>st. st\<lparr>deaths := deaths st + 1\<rparr>) (playerStats s)\<rparr>"

text \<open>\<^verbatim>\<open>onPlayerKilled\<close> (lines 378 to 390). An identifier is \<^verbatim>\<open>info.killer?.steamID\<close>:
  \<open>None\<close> when it is \<^verbatim>\<open>undefined\<close>; the empty string is falsy too.\<close>

definition onPlayerKilled :: "string option \<Rightarrow> string option \<Rightarrow> world \<Rightarrow> world" where
  "onPlayerKilled killerId victimId s =
     (let s1 = (case killerId of
                  None \<Rightarrow> s
                | Some k \<Rightarrow> if k \<noteq> [] then incrementKills k s else s)
      in case victimId of
           None \<Rightarrow> s1
         | Some v \<Rightarrow> if v \<noteq> [] then incrementDeaths v s1 else s1)"

section \<open>A runtime and states for examples\<close>

text \<open>Decimal digits of an integer, as both printers and the template conversion write a
  number below \<open>10^21\<close>, and the integer that a column reads from such a text.\<close>

fun digitsOf :: "nat \<Rightarrow> string" where
  "digitsOf n =
     (if n < 10 then [''0123456789'' ! n] else digitsOf (n div 10) @ [''0123456789'' ! (n mod 10)])"

definition showInt :: "int \<Rightarrow> string" where
  "showInt i = (if i < 0 then ''-'' @ digitsOf (nat (- i)) else digitsOf (nat i))"

fun readDigits :: "nat \<Rightarrow> string \<Rightarrow> nat option" where
  "readDigits acc [] = Some acc"
| "readDigits acc (c # cs) =
     (case map_of (zip ''0123456789'' [0 ..< 10]) c of
        None \<Rightarrow> None
      | Some d \<Rightarrow> readDigits (10 * acc + d) cs)"

definition readInt :: "string \<Rightarrow> int option" where
  "readInt text =
     (case text of
        [] \<Rightarrow> None
      | c # cs \<Rightarrow>
          if c = CHR ''-'' then (if cs = [] then None else map_option (\<lambda>n. - int n) (readDigits 0 cs))
          else map_option int (readDigits 0 text))"

text \<open>A fragment of \<^verbatim>\<open>JSON.parse\<close> and \<^verbatim>\<open>JSON.stringify\<close>, enough to run the handlers on
  concrete folders and tables. The parser knows the texts of \<open>sampleDocs\<close> and takes every
  other text as malformed. The two printers print \<^verbatim>\<open>null\<close>, the booleans, integers, strings
  without a character to escape, and the arrays and objects of \<open>sampleDocs\<close>, the first as
  \<^verbatim>\<open>JSON.stringify(v)\<close> and the second as \<^verbatim>\<open>JSON.stringify(v, null, 2)\<close> (a line per member,
  two spaces per level, a space after the colon); the examples use no other array or
  object. The column is a 64-bit integer column that also reads decimal text; the
  reference of the stats table is enforced.\<close>

definition fiftyPlayers :: string where
  \<open>fiftyPlayers = ''{"players":[7,7,7,7,7,7,7,7,7,7,7,7,7,7,7,7,7,7,7,7,7,7,7,7,7,7,7,7,7,7,7,7,7,7,7,7,7,7,7,7,7,7,7,7,7,7,7,7,7,7]}''\<close>

definition sampleDocs :: "(string \<times> json) list" where
  \<open>sampleDocs =
     [(''null'', JNull), (''true'', JBool True), (''7'', JNum 7), (''100'', JNum 100),
      (''{}'', JObj []), (''[]'', JArr []),
      (''{"hp":100}'', JObj [(''hp'', JNum 100)]),
      (''{"score":5}'', JObj [(''score'', JNum 5)]),
      (''{"players":[7]}'', JObj [(''players'', JArr [JNum 7])]),
      (''{"players":["76561198000000005"]}'',
         JObj [(''players'', JArr [JStr ''76561198000000005''])]),
      (''{"stats":{"kills":2,"captures":1}}'',
         JObj [(''stats'', JObj [(''kills'', JNum 2), (''captures'', JNum 1)])]),
      (fiftyPlayers, JObj [(''players'', JArr (replicate 50 (JNum 7)))])]\<close>

definition samplePretty :: "(json \<times> string) list" where
  \<open>samplePretty =
     [(JObj [(''hp'', JNum 100)], ''{'' @ [CHR 0x0A] @ ''  "hp": 100'' @ [CHR 0x0A] @ ''}''),
      (JObj [(''score'', JNum 5)], ''{'' @ [CHR 0x0A] @ ''  "score": 5'' @ [CHR 0x0A] @ ''}''),
      (JObj [(''players'', JArr [JNum 7])],
         ''{'' @ [CHR 0x0A] @ ''  "players": ['' @ [CHR 0x0A] @ ''    7'' @ [CHR 0x0A]
         @ ''  ]'' @ [CHR 0x0A] @ ''}''),
      (JObj [(''players'', JArr [JStr ''76561198000000005''])],
         ''{'' @ [CHR 0x0A] @ ''  "players": ['' @ [CHR 0x0A] @ ''    "76561198000000005"''
         @ [CHR 0x0A] @ ''  ]'' @ [CHR 0x0A] @ ''}''),
      (JObj [(''stats'', JObj [(''kills'', JNum 2), (''captures'', JNum 1)])],
         ''{'' @ [CHR 0x0A] @ ''  "stats": {'' @ [CHR 0x0A] @ ''    "kills": 2,'' @ [CHR 0x0A]
         @ ''    "captures": 1'' @ [CHR 0x0A] @ ''  }'' @ [CHR 0x0A] @ ''}''),
      (JObj [(''players'', JArr (replicate 50 (JNum 7)))],
         ''{'' @ [CHR 0x0A] @ ''  "players": ['' @ [CHR 0x0A]
         @ concat (replicate 49 (''    7,'' @ [CHR 0x0A])) @ ''    7'' @ [CHR 0x0A]
         @ ''  ]'' @ [CHR 0x0A] @ ''}'')]\<close>

definition sampleParse :: "string \<Rightarrow> json option" where
  "sampleParse text = map_of sampleDocs text"

definition sampleStringify :: "json \<Rightarrow> string" where
  \<open>sampleStringify doc =
     (case doc of
        JNull \<Rightarrow> ''null''
      | JBool b \<Rightarrow> (if b then ''true'' else ''false'')
      | JNum n \<Rightarrow> showInt n
      | JStr t \<Rightarrow> ''"'' @ t @ ''"''
      | JArr xs \<Rightarrow> (case map_of (map (\<lambda>(t, d). (d, t)) sampleDocs) doc of None \<Rightarrow> ''[]'' | Some t \<Rightarrow> t)
      | JObj kvs \<Rightarrow> (case map_of (map (\<lambda>(t, d). (d, t)) sampleDocs) doc of None \<Rightarrow> ''{}'' | Some t \<Rightarrow> t))\<close>

definition sampleStringify2 :: "json \<Rightarrow> string" where
  "sampleStringify2 doc =
     (case map_of samplePretty doc of None \<Rightarrow> sampleStringify doc | Some t \<Rightarrow> t)"

fun sampleTemplate :: "json \<Rightarrow> string" where
  "sampleTemplate (JStr t) = t"
| "sampleTemplate v = sampleStringify v"

definition sampleColumn :: "jsval \<Rightarrow> int option" where
  "sampleColumn v =
     (case (case v of JsNumber n \<Rightarrow> Some n | JsString t \<Rightarrow> readInt t | JsInfinite b \<Rightarrow> None) of
        None \<Rightarrow> None
      | Some n \<Rightarrow> if - (2 ^ 63) \<le> n \<and> n < 2 ^ 63 then Some n else None)"

definition sampleRuntime :: runtime where
  "sampleRuntime =
     \<lparr>jsonParse = sampleParse, jsonStringify = sampleStringify,
      jsonStringify2 = sampleStringify2, templateStr = sampleTemplate,
      columnInt = sampleColumn, enforcesReference = True\<rparr>"

definition emptyWorld :: world where
  "emptyWorld = \<lparr>files = [], playerData = [], playerStats = [], playerSessions = [], now = 1000\<rparr>"

section \<open>Evaluating the example runtime and the number conversions\<close>

declare bitlen.simps [simp del]
declare digitsOf.simps [simp del]

lemma showInt_examples [simp]:
  "showInt 5 = ''5''" "showInt 7 = ''7''" "showInt 10 = ''10''" "showInt 100 = ''100''"
  by (simp_all add: showInt_def digitsOf.simps)

lemma sampleParse_examples [simp]:
  \<open>sampleParse ''null'' = Some JNull\<close>
  \<open>sampleParse ''7'' = Some (JNum 7)\<close>
  \<open>sampleParse ''100'' = Some (JNum 100)\<close>
  \<open>sampleParse ''{"hp":100}'' = Some (JObj [(''hp'', JNum 100)])\<close>
  \<open>sampleParse ''{"score":5}'' = Some (JObj [(''score'', JNum 5)])\<close>
  \<open>sampleParse ''{"players":[7]}'' = Some (JObj [(''players'', JArr [JNum 7])])\<close>
  \<open>sampleParse ''{"players":["76561198000000005"]}''
     = Some (JObj [(''players'', JArr [JStr ''76561198000000005''])])\<close>
  \<open>sampleParse ''{"stats":{"kills":2,"captures":1}}''
     = Some (JObj [(''stats'', JObj [(''kills'', JNum 2), (''captures'', JNum 1)])])\<close>
  \<open>sampleParse fiftyPlayers = Some (JObj [(''players'', JArr (replicate 50 (JNum 7)))])\<close>
  \<open>sampleParse ''{"hp":'' = None\<close>
  by (simp_all add: sampleParse_def sampleDocs_def fiftyPlayers_def)

lemma sampleStringify_examples [simp]:
  \<open>sampleStringify JNull = ''null''\<close>
  \<open>sampleStringify (JNum n) = showInt n\<close>
  \<open>sampleStringify (JStr t) = ''"'' @ t @ ''"''\<close>
  \<open>sampleStringify (JObj [(''hp'', JNum 100)]) = ''{"hp":100}''\<close>
  \<open>sampleStringify (JObj [(''score'', JNum 5)]) = ''{"score":5}''\<close>
  by (simp_all add: sampleStringify_def sampleDocs_def)

lemma sampleStringify2_examples [simp]:
  \<open>sampleStringify2 (JNum n) = showInt n\<close>
  \<open>sampleStringify2 (JObj [(''hp'', JNum 100)]) = ''{'' @ [CHR 0x0A] @ ''  "hp": 100'' @ [CHR 0x0A] @ ''}''\<close>
  \<open>sampleStringify2 (JObj [(''score'', JNum 5)]) = ''{'' @ [CHR 0x0A] @ ''  "score": 5'' @ [CHR 0x0A] @ ''}''\<close>
  by (simp_all add: sampleStringify2_def samplePretty_def)

lemma sampleRuntime_fields [simp]:
  "jsonParse sampleRuntime = sampleParse" "jsonStringify sampleRuntime = sampleStringify"
  "jsonStringify2 sampleRuntime = sampleStringify2" "templateStr sampleRuntime = sampleTemplate"
  "columnInt sampleRuntime = sampleColumn" "enforcesReference sampleRuntime = True"
  by (simp_all add: sampleRuntime_def)

lemma bitlen_bounds: "0 < n \<Longrightarrow> 2 ^ (bitlen n - 1) \<le> n \<and> n < 2 ^ bitlen n"
proof (induction n rule: bitlen.induct)
  case (1 n)
  show ?case
  proof (cases "n div 2 = 0")
    case True
    with "1.prems" have "n = 1" by (simp add: div_eq_0_iff) 
    then show ?thesis by (simp add: bitlen.simps)
  next
    case False
    with "1.IH" "1.prems" have ih: "2 ^ (bitlen (n div 2) - 1) \<le> n div 2" "n div 2 < 2 ^ bitlen (n div 2)"
      by auto
    from False have pos: "0 < bitlen (n div 2)" by (simp add: bitlen.simps)
    from "1.prems" have b: "bitlen n = Suc (bitlen (n div 2))" by (simp add: bitlen.simps[of n])
    from ih(1) have "2 * 2 ^ (bitlen (n div 2) - 1) \<le> n" by linarith
    with pos have lo: "2 ^ (bitlen n - 1) \<le> n" by (simp add: b power_Suc[symmetric] del: power_Suc)
    from ih(2) have "n < 2 * 2 ^ bitlen (n div 2)" by linarith
    with lo b show ?thesis by simp
  qed
qed

lemma roundDouble_exact: "\<bar>n\<bar> < 2 ^ 53 \<Longrightarrow> roundDouble n = n"
  by (simp add: roundDouble_def Let_def nat_less_iff)

lemma toDouble_exact: "\<bar>n\<bar> < 2 ^ 53 \<Longrightarrow> toDouble n = JsNumber n"
proof -
  assume a: "\<bar>n\<bar> < 2 ^ 53"
  have "(2::int) ^ 53 < 2 ^ 1024" by simp
  with a have "\<not> 2 ^ 1024 \<le> \<bar>n\<bar>" by linarith
  with a show ?thesis by (simp add: toDouble_def roundDouble_exact Let_def)
qed

lemma jsPlus_exact:
  "\<bar>n\<bar> < 2 ^ 53 \<Longrightarrow> \<bar>d\<bar> < 2 ^ 53 \<Longrightarrow> \<bar>n + d\<bar> < 2 ^ 53 \<Longrightarrow> jsPlus rt n (JNum d) = JsNumber (n + d)"
  by (simp add: roundDouble_exact toDouble_exact)

lemma sampleColumn_number:
  "- (2 ^ 63) \<le> n \<Longrightarrow> n < 2 ^ 63 \<Longrightarrow> sampleColumn (JsNumber n) = Some n"
  by (simp add: sampleColumn_def)

section \<open>The identifier derived from a file name\<close>

lemma beforeFirst_split:
  "sep \<noteq> [] \<Longrightarrow> sublist sep s \<Longrightarrow> \<exists>rest. s = beforeFirst sep s @ sep @ rest"
proof (induction s)
  case Nil
  then show ?case by simp
next
  case (Cons c cs)
  show ?case
  proof (cases "prefix sep (c # cs)")
    case True
    then show ?thesis by (auto simp: prefix_def)
  next
    case False
    with Cons.prems have "sublist sep cs" by (simp add: sublist_Cons_right)
    with Cons.IH Cons.prems obtain rest where "cs = beforeFirst sep cs @ sep @ rest" by blast
    with False show ?thesis by auto
  qed
qed

lemma beforeFirst_first:
  "sep \<noteq> [] \<Longrightarrow> sublist sep s \<Longrightarrow> \<not> sublist sep (beforeFirst sep s @ butlast sep)"
proof (induction s)
  case Nil
  then show ?case by simp
next
  case (Cons c cs)
  have short: "\<not> sublist sep (butlast sep)"
  proof
    assume "sublist sep (butlast sep)"
    then obtain ps ss where "butlast sep = ps @ sep @ ss" by (auto simp: sublist_def)
    then have "length (butlast sep) = length ps + length sep + length ss" by (metis length_append add.assoc)
    then have "length sep \<le> length (butlast sep)" by simp
    moreover have "length (butlast sep) = length sep - 1" by simp
    moreover from Cons.prems(1) have "length sep > 0" by simp
    ultimately show False by linarith
  qed
  show ?case
  proof (cases "prefix sep (c # cs)")
    case True
    with short show ?thesis by simp
  next
    case False
    with Cons.prems have sub: "sublist sep cs" by (simp add: sublist_Cons_right)
    with Cons.prems obtain rest where cs: "cs = beforeFirst sep cs @ sep @ rest"
      using beforeFirst_split by blast
    have "\<not> prefix sep (c # beforeFirst sep cs @ butlast sep)"
    proof
      assume p: "prefix sep (c # beforeFirst sep cs @ butlast sep)"
      have "prefix (c # beforeFirst sep cs @ butlast sep) (c # beforeFirst sep cs @ sep @ rest)"
        by (simp add: prefix_def) (metis append_butlast_last_id Cons.prems(1) append_Cons append_Nil append_assoc)
      with p have "prefix sep (c # beforeFirst sep cs @ sep @ rest)"
        using prefix_order.trans by blast
      with cs False show False by simp
    qed
    with Cons.IH[OF Cons.prems(1) sub] False show ?thesis
      by (simp add: sublist_Cons_right)
  qed
qed

lemma beforeFirst_roundtrip:
  assumes "sep \<noteq> []" "suffix sep s"
  shows "beforeFirst sep s @ sep = s \<longleftrightarrow> \<not> sublist sep (butlast s)"
proof -
  from assms(2) obtain g where s: "s = g @ sep" by (auto simp: suffix_def)
  have sub: "sublist sep s" using s by (auto simp: sublist_def intro: exI[of _ g])
  from assms(1) s have bl: "butlast s = g @ butlast sep" by (simp add: butlast_append)
  show ?thesis
  proof
    assume "beforeFirst sep s @ sep = s"
    with s have "beforeFirst sep s = g" by simp
    with beforeFirst_first[OF assms(1) sub] bl show "\<not> sublist sep (butlast s)" by simp
  next
    assume ns: "\<not> sublist sep (butlast s)"
    from beforeFirst_split[OF assms(1) sub] obtain rest where r: "s = beforeFirst sep s @ sep @ rest" by blast
    have "rest = []"
    proof (rule ccontr)
      assume "rest \<noteq> []"
      then have "butlast s = beforeFirst sep s @ sep @ butlast rest"
        using r by (metis append_is_Nil_conv butlast_append)
      then have "sublist sep (butlast s)" by (auto simp: sublist_def)
      with ns show False by simp
    qed
    with r show "beforeFirst sep s @ sep = s" by simp
  qed
qed

lemma endsWith_sublist: "endsWith s suf \<Longrightarrow> sublist suf s"
  by (auto simp: endsWith_def suffix_def sublist_def intro: exI[of _ "[]"])

text \<open>
  Claim C10. For a file name that ends in \<^verbatim>\<open>.json\<close>, the identifier is the part of the name
  before the first occurrence of \<^verbatim>\<open>.json\<close>: the name is the identifier, \<^verbatim>\<open>.json\<close> and a
  rest, and \<^verbatim>\<open>.json\<close> does not occur earlier. So \<^verbatim>\<open>a.json.json\<close> and \<^verbatim>\<open>a.json.b.json\<close> both
  give \<^verbatim>\<open>a\<close>, and identifier plus \<^verbatim>\<open>.json\<close> gives the name back exactly when \<^verbatim>\<open>.json\<close> occurs
  nowhere but at the end. Both sweeps record the file under this identifier.
\<close>

theorem playerfileid_before_first_json:
  assumes "endsWith playerfile ''.json''"
  shows "(\<exists>rest. playerfile = playerfileid playerfile @ ''.json'' @ rest)
       \<and> \<not> sublist ''.json'' (playerfileid playerfile @ ''.jso'')
       \<and> (playerfileid playerfile @ ''.json'' = playerfile
            \<longleftrightarrow> \<not> sublist ''.json'' (butlast playerfile))
       \<and> playerfileid ''a.json.json'' = ''a''
       \<and> playerfileid ''a.json.b.json'' = ''a''
       \<and> fst (snd (fileLoop_v1 rt sid [playerfile] processed s))
           = insert (playerfileid playerfile) processed
       \<and> (\<not> isSettingsFile playerfile \<longrightarrow>
            fst (snd (fileLoop_v2 rt sid [playerfile] processed s))
              = insert (playerfileid playerfile) processed)"
proof -
  have ne: "''.json'' \<noteq> []" by simp
  from assms have sub: "sublist ''.json'' playerfile" by (rule endsWith_sublist)
  have 1: "\<exists>rest. playerfile = playerfileid playerfile @ ''.json'' @ rest"
    unfolding playerfileid_def by (rule beforeFirst_split[OF ne sub])
  have 2: "\<not> sublist ''.json'' (playerfileid playerfile @ ''.jso'')"
    using beforeFirst_first[OF ne sub] by (simp add: playerfileid_def)
  have 3: "playerfileid playerfile @ ''.json'' = playerfile
            \<longleftrightarrow> \<not> sublist ''.json'' (butlast playerfile)"
    unfolding playerfileid_def using assms
    by (intro beforeFirst_roundtrip[OF ne]) (simp add: endsWith_def)
  have 4: "playerfileid ''a.json.json'' = ''a''" "playerfileid ''a.json.b.json'' = ''a''"
    by (simp_all add: playerfileid_def)
  have 5: "fst (snd (fileLoop_v1 rt sid [playerfile] processed s))
           = insert (playerfileid playerfile) processed"
    using assms by (simp split: sum.splits)
  have 6: "\<not> isSettingsFile playerfile \<longrightarrow>
            fst (snd (fileLoop_v2 rt sid [playerfile] processed s))
              = insert (playerfileid playerfile) processed"
    using assms by (simp split: sum.splits)
  from 1 2 3 4 5 6 show ?thesis by blast
qed

theorem playerfileid_before_first_json_witness:
  "endsWith ''a.json.json'' ''.json''
   \<and> playerfileid ''a.json.json'' = ''a''
   \<and> playerfileid ''a.json.json'' @ ''.json'' \<noteq> ''a.json.json''
   \<and> sublist ''.json'' (butlast ''a.json.json'')
   \<and> fst (snd (fileLoop_v1 sampleRuntime 1 [''a.json.json''] {} emptyWorld)) = {''a''}"
proof -
  have h: "endsWith ''a.json.json'' ''.json''" by (simp add: endsWith_def suffix_def)
  from playerfileid_before_first_json[OF h, of sampleRuntime 1 "{}" emptyWorld]
  show ?thesis using h by (simp add: playerfileid_def)
qed

section \<open>The sweep over the allow-list\<close>

text \<open>What the sweep of \<^verbatim>\<open>part_000\<close> leaves alone: a turn of its loop writes no file and
  touches the stats rows of the listed player only; the settings push touches one file.\<close>

lemma map_of_updateWhere:
  "map_of (updateWhere pid f rows) k
     = (if k = pid then map_option f (map_of rows k) else map_of rows k)"
  by (induction rows) (auto simp: updateWhere_def)

lemma syncPlayer_v5_files: "files (syncPlayer_v5 rt sid x s) = files s"
  by (simp add: syncPlayer_v5_def upsertPlayerData_def Let_def split: option.splits json.splits)

lemma syncPlayer_v5_now: "now (syncPlayer_v5 rt sid x s) = now s"
  by (simp add: syncPlayer_v5_def upsertPlayerData_def Let_def split: option.splits json.splits)

lemma syncPlayer_v5_other:
  "templateStr rt x \<noteq> pid \<Longrightarrow>
     map_of (playerStats (syncPlayer_v5 rt sid x s)) pid = map_of (playerStats s) pid"
  by (simp add: syncPlayer_v5_def upsertPlayerData_def Let_def map_of_updateWhere
        split: option.splits json.splits)

lemma playerLoop_v5_files: "files (playerLoop_v5 rt sid xs s) = files s"
  by (induction xs arbitrary: s) (simp_all add: syncPlayer_v5_files)

lemma playerLoop_v5_now: "now (playerLoop_v5 rt sid xs s) = now s"
  by (induction xs arbitrary: s) (simp_all add: syncPlayer_v5_now)

lemma playerLoop_v5_other:
  "\<forall>x\<in>set xs. templateStr rt x \<noteq> pid \<Longrightarrow>
     map_of (playerStats (playerLoop_v5 rt sid xs s)) pid = map_of (playerStats s) pid"
  by (induction xs arbitrary: s) (simp_all add: syncPlayer_v5_other)

lemma playerLoop_v5_append:
  "playerLoop_v5 rt sid (xs @ ys) s = playerLoop_v5 rt sid ys (playerLoop_v5 rt sid xs s)"
  by (induction xs arbitrary: s) simp_all

lemma syncServerSettings_frame:
  "playerStats (syncServerSettings rt s) = playerStats s"
  "playerData (syncServerSettings rt s) = playerData s"
  "now (syncServerSettings rt s) = now s"
  "name \<noteq> ''ServerSettings.json'' \<Longrightarrow>
     map_of (files (syncServerSettings rt s)) name = map_of (files s) name"
  by (simp_all add: syncServerSettings_def writeFile_def update_conv' split: option.splits)

section \<open>Gating of the settings push\<close>

lemma syncKothFiles_v5_files:
  "files (syncKothFiles_v5 rt sid enabled s)
     = files (if 50 \<le> length (readPlayerList rt s) \<and> enabled then syncServerSettings rt s else s)"
  by (simp add: syncKothFiles_v5_def Let_def playerLoop_v5_files)

lemma readPlayerList_players:
  "map_of (files s) ''PlayerList.json'' = Some fl \<Longrightarrow> content fl \<noteq> [] \<Longrightarrow>
   jsonParse rt (content fl) = Some (JObj kvs) \<Longrightarrow> map_of kvs ''players'' = Some (JArr ids) \<Longrightarrow>
   readPlayerList rt s = ids"
  by (simp add: readPlayerList_def orElse_def)

lemma readPlayerList_none:
  "map_of (files s) ''PlayerList.json'' = None \<Longrightarrow> readPlayerList rt s = []"
  "map_of (files s) ''PlayerList.json'' = Some fl \<Longrightarrow>
     content fl = [] \<or> jsonParse rt (content fl) = None \<Longrightarrow> readPlayerList rt s = []"
  by (auto simp: readPlayerList_def)

text \<open>
  Claim C8. The sweep of the gated variant takes the count from \<^verbatim>\<open>PlayerList.json\<close>: the
  length of the array that the file's document holds under \<^verbatim>\<open>players\<close>. When the file is
  missing, empty or malformed, or its document has no \<^verbatim>\<open>players\<close>, the sweep writes no
  file. When the array has fewer than fifty entries (or the periodic sync is off) the
  folder is after the sweep what it was before: the settings push is skipped. With
  fifty entries or more, and the sync on, the folder is what \<^verbatim>\<open>syncServerSettings\<close> makes
  of it: given a settings row whose payload can be read, \<^verbatim>\<open>ServerSettings.json\<close> holds the
  printed payload, stamped with the time of the sweep.
\<close>

theorem settings_push_gated:
  "(map_of (files s) ''PlayerList.json'' = None
      \<longrightarrow> files (syncKothFiles_v5 rt sid enabled s) = files s)
   \<and> (map_of (files s) ''PlayerList.json'' = Some fl
        \<and> (content fl = [] \<or> jsonParse rt (content fl) = None)
      \<longrightarrow> files (syncKothFiles_v5 rt sid enabled s) = files s)
   \<and> (map_of (files s) ''PlayerList.json'' = Some fl
        \<and> jsonParse rt (content fl) = Some (JObj kvs) \<and> map_of kvs ''players'' = None
      \<longrightarrow> files (syncKothFiles_v5 rt sid enabled s) = files s)
   \<and> (map_of (files s) ''PlayerList.json'' = Some fl \<and> content fl \<noteq> []
        \<and> jsonParse rt (content fl) = Some (JObj kvs) \<and> map_of kvs ''players'' = Some (JArr ids)
      \<longrightarrow> (length ids < 50 \<or> \<not> enabled
             \<longrightarrow> files (syncKothFiles_v5 rt sid enabled s) = files s)
         \<and> (50 \<le> length ids \<and> enabled
             \<longrightarrow> files (syncKothFiles_v5 rt sid enabled s) = files (syncServerSettings rt s))
         \<and> (50 \<le> length ids \<and> enabled
              \<and> map_of (playerData s) ''ServerSettings'' = Some serverSettings
              \<and> fromDb rt (playerdata serverSettings) = Some serverData
             \<longrightarrow> files (syncKothFiles_v5 rt sid enabled s)
                   = AList.update ''ServerSettings.json''
                       \<lparr>content = jsonStringify2 rt serverData, mtime = now s\<rparr> (files s)))"
proof (intro conjI impI)
  assume "map_of (files s) ''PlayerList.json'' = None"
  then show "files (syncKothFiles_v5 rt sid enabled s) = files s"
    by (simp add: syncKothFiles_v5_files readPlayerList_none(1))
next
  assume "map_of (files s) ''PlayerList.json'' = Some fl
        \<and> (content fl = [] \<or> jsonParse rt (content fl) = None)"
  then have "readPlayerList rt s = []"
    using readPlayerList_none(2)[of s fl rt] by blast
  then show "files (syncKothFiles_v5 rt sid enabled s) = files s"
    by (simp add: syncKothFiles_v5_files)
next
  assume "map_of (files s) ''PlayerList.json'' = Some fl
        \<and> jsonParse rt (content fl) = Some (JObj kvs) \<and> map_of kvs ''players'' = None"
  then have "readPlayerList rt s = []"
    by (simp add: readPlayerList_def orElse_def)
  then show "files (syncKothFiles_v5 rt sid enabled s) = files s"
    by (simp add: syncKothFiles_v5_files)
next
  assume a: "map_of (files s) ''PlayerList.json'' = Some fl \<and> content fl \<noteq> []
        \<and> jsonParse rt (content fl) = Some (JObj kvs) \<and> map_of kvs ''players'' = Some (JArr ids)"
  then have l: "readPlayerList rt s = ids"
    using readPlayerList_players[of s fl rt kvs ids] by blast
  {
    assume "length ids < 50 \<or> \<not> enabled"
    then show "files (syncKothFiles_v5 rt sid enabled s) = files s"
      by (auto simp: syncKothFiles_v5_files l)
  }
  {
    assume "50 \<le> length ids \<and> enabled"
    then show "files (syncKothFiles_v5 rt sid enabled s) = files (syncServerSettings rt s)"
      by (simp add: syncKothFiles_v5_files l)
  }
  {
    assume "50 \<le> length ids \<and> enabled
              \<and> map_of (playerData s) ''ServerSettings'' = Some serverSettings
              \<and> fromDb rt (playerdata serverSettings) = Some serverData"
    then show "files (syncKothFiles_v5 rt sid enabled s)
                   = AList.update ''ServerSettings.json''
                       \<lparr>content = jsonStringify2 rt serverData, mtime = now s\<rparr> (files s)"
      by (simp add: syncKothFiles_v5_files l syncServerSettings_def writeFile_def)
  }
qed


theorem settings_push_gated_witness:
  \<open>files (syncKothFiles_v5 sampleRuntime 1 True
      (emptyWorld\<lparr>files := [(''PlayerList.json'', \<lparr>content = fiftyPlayers, mtime = 5\<rparr>)],
         playerData :=
           [(''ServerSettings'',
             \<lparr>lastsave = 0, serversave = 2, playerdata = JObj [(''hp'', JNum 100)]\<rparr>)]\<rparr>))
     = [(''PlayerList.json'', \<lparr>content = fiftyPlayers, mtime = 5\<rparr>),
        (''ServerSettings.json'',
         \<lparr>content = ''{'' @ [CHR 0x0A] @ ''  "hp": 100'' @ [CHR 0x0A] @ ''}'', mtime = 1000\<rparr>)]
   \<and> files (syncKothFiles_v5 sampleRuntime 1 True
      (emptyWorld\<lparr>files := [(''PlayerList.json'', \<lparr>content = ''{"players":[7]}'', mtime = 5\<rparr>)],
         playerData :=
           [(''ServerSettings'',
             \<lparr>lastsave = 0, serversave = 2, playerdata = JObj [(''hp'', JNum 100)]\<rparr>)]\<rparr>))
     = [(''PlayerList.json'', \<lparr>content = ''{"players":[7]}'', mtime = 5\<rparr>)]
   \<and> files (syncKothFiles_v5 sampleRuntime 1 True
      (emptyWorld\<lparr>files := [(''PlayerList.json'', \<lparr>content = ''{"hp":'', mtime = 5\<rparr>)],
         playerData :=
           [(''ServerSettings'',
             \<lparr>lastsave = 0, serversave = 2, playerdata = JObj [(''hp'', JNum 100)]\<rparr>)]\<rparr>))
     = [(''PlayerList.json'', \<lparr>content = ''{"hp":'', mtime = 5\<rparr>)]
   \<and> files (syncKothFiles_v5 sampleRuntime 1 True
      (emptyWorld\<lparr>playerData :=
           [(''ServerSettings'',
             \<lparr>lastsave = 0, serversave = 2, playerdata = JObj [(''hp'', JNum 100)]\<rparr>)]\<rparr>))
     = []\<close>
proof -
  let ?rows = "[(''ServerSettings'',
             \<lparr>lastsave = 0, serversave = 2, playerdata = JObj [(''hp'', JNum 100)]\<rparr>)]"
  have ne: "fiftyPlayers \<noteq> []" by (simp add: fiftyPlayers_def)
  note push = settings_push_gated[where rt = sampleRuntime and sid = 1 and enabled = True
      and s = "emptyWorld\<lparr>files := [(''PlayerList.json'', \<lparr>content = fiftyPlayers, mtime = 5\<rparr>)],
                 playerData := ?rows\<rparr>"
      and fl = "\<lparr>content = fiftyPlayers, mtime = 5\<rparr>"
      and kvs = "[(''players'', JArr (replicate 50 (JNum 7)))]"
      and ids = "replicate 50 (JNum 7)"
      and serverSettings = "\<lparr>lastsave = 0, serversave = 2,
                               playerdata = JObj [(''hp'', JNum 100)]\<rparr>"
      and serverData = "JObj [(''hp'', JNum 100)]",
      THEN conjunct2, THEN conjunct2, THEN conjunct2]
  note skip = settings_push_gated[where rt = sampleRuntime and sid = 1 and enabled = True
      and s = "emptyWorld\<lparr>files := [(''PlayerList.json'',
                                       \<lparr>content = ''{\"players\":[7]}'', mtime = 5\<rparr>)],
                 playerData := ?rows\<rparr>"
      and fl = "\<lparr>content = ''{\"players\":[7]}'', mtime = 5\<rparr>"
      and kvs = "[(''players'', JArr [JNum 7])]"
      and ids = "[JNum 7]",
      THEN conjunct2, THEN conjunct2, THEN conjunct2]
  note bad = settings_push_gated[where rt = sampleRuntime and sid = 1 and enabled = True
      and s = "emptyWorld\<lparr>files := [(''PlayerList.json'', \<lparr>content = ''{\"hp\":'', mtime = 5\<rparr>)],
                 playerData := ?rows\<rparr>"
      and fl = "\<lparr>content = ''{\"hp\":'', mtime = 5\<rparr>",
      THEN conjunct2, THEN conjunct1]
  note none = settings_push_gated[where rt = sampleRuntime and sid = 1 and enabled = True
      and s = "emptyWorld\<lparr>playerData := ?rows\<rparr>", THEN conjunct1]
  from push have c1: \<open>files (syncKothFiles_v5 sampleRuntime 1 True
      (emptyWorld\<lparr>files := [(''PlayerList.json'', \<lparr>content = fiftyPlayers, mtime = 5\<rparr>)],
         playerData := ?rows\<rparr>))
     = [(''PlayerList.json'', \<lparr>content = fiftyPlayers, mtime = 5\<rparr>),
        (''ServerSettings.json'',
         \<lparr>content = ''{'' @ [CHR 0x0A] @ ''  "hp": 100'' @ [CHR 0x0A] @ ''}'', mtime = 1000\<rparr>)]\<close>
    by (simp add: emptyWorld_def ne fromDb_def syncServerSettings_def writeFile_def)
  from skip have c2: \<open>files (syncKothFiles_v5 sampleRuntime 1 True
      (emptyWorld\<lparr>files := [(''PlayerList.json'', \<lparr>content = ''{"players":[7]}'', mtime = 5\<rparr>)],
         playerData := ?rows\<rparr>))
     = [(''PlayerList.json'', \<lparr>content = ''{"players":[7]}'', mtime = 5\<rparr>)]\<close>
    by (simp add: emptyWorld_def)
  from bad have c3: \<open>files (syncKothFiles_v5 sampleRuntime 1 True
      (emptyWorld\<lparr>files := [(''PlayerList.json'', \<lparr>content = ''{"hp":'', mtime = 5\<rparr>)],
         playerData := ?rows\<rparr>))
     = [(''PlayerList.json'', \<lparr>content = ''{"hp":'', mtime = 5\<rparr>)]\<close>
    by (simp add: emptyWorld_def)
  from none have c4: \<open>files (syncKothFiles_v5 sampleRuntime 1 True
      (emptyWorld\<lparr>playerData := ?rows\<rparr>)) = []\<close>
    by (simp add: emptyWorld_def)
  from c1 c2 c3 c4 show ?thesis by (intro conjI)
qed

section \<open>The counter merge\<close>

lemma intField_orElse:
  "intField kvs field = Some k \<Longrightarrow> orElse (map_of kvs field) (JNum 0) = JNum k"
  by (auto simp: intField_def orElse_def split: option.splits json.splits)

lemma merge_field:
  assumes "B < 2 ^ 53" and "\<forall>n. \<bar>n\<bar> \<le> B \<longrightarrow> columnInt rt (JsNumber n) = Some n"
    and "intField kvs field = Some k" and "\<bar>n\<bar> + \<bar>k\<bar> \<le> B"
  shows "columnInt rt (jsPlus rt n (orElse (getProp (JObj kvs) field) (JNum 0))) = Some (n + k)"
proof -
  from assms(1,4) have r: "\<bar>n\<bar> < 2 ^ 53" "\<bar>k\<bar> < 2 ^ 53" "\<bar>n + k\<bar> < 2 ^ 53" "\<bar>n + k\<bar> \<le> B"
    by linarith+
  from r(1-3) have j: "jsPlus rt n (JNum k) = JsNumber (n + k)" by (rule jsPlus_exact)
  from assms(3) have "orElse (getProp (JObj kvs) field) (JNum 0) = JNum k"
    by (simp add: intField_orElse)
  with j assms(2) r(4) show ?thesis by (simp del: jsPlus.simps)
qed

lemma mergeStats_exact:
  assumes B: "B < 2 ^ 53" and col: "\<forall>n. \<bar>n\<bar> \<le> B \<longrightarrow> columnInt rt (JsNumber n) = Some n"
    and k: "intField f ''kills'' = Some k" "\<bar>kills acc\<bar> + \<bar>k\<bar> \<le> B"
    and d: "intField f ''deaths'' = Some d" "\<bar>deaths acc\<bar> + \<bar>d\<bar> \<le> B"
    and c: "intField f ''captures'' = Some c" "\<bar>captures acc\<bar> + \<bar>c\<bar> \<le> B"
  shows "mergeStats rt t acc (JObj f)
           = Some (acc\<lparr>kills := kills acc + k, deaths := deaths acc + d,
                       captures := captures acc + c, last_updated := t\<rparr>)"
  by (simp add: mergeStats_def merge_field[OF B col k] merge_field[OF B col d]
        merge_field[OF B col c] del: jsPlus.simps getProp.simps)

lemma intField_statsDoc:
  "intField [(''kills'', JNum k), (''deaths'', JNum d), (''captures'', JNum c)] ''kills'' = Some k"
  "intField [(''kills'', JNum k), (''deaths'', JNum d), (''captures'', JNum c)] ''deaths'' = Some d"
  "intField [(''kills'', JNum k), (''deaths'', JNum d), (''captures'', JNum c)] ''captures'' = Some c"
  by (simp_all add: intField_def)

lemma syncPlayer_v5_merges:
  assumes B: "B < 2 ^ 53" and col: "\<forall>n. \<bar>n\<bar> \<le> B \<longrightarrow> columnInt rt (JsNumber n) = Some n"
    and k: "intField f ''kills'' = Some k" "\<bar>kills acc\<bar> + \<bar>k\<bar> \<le> B"
    and d: "intField f ''deaths'' = Some d" "\<bar>deaths acc\<bar> + \<bar>d\<bar> \<le> B"
    and c: "intField f ''captures'' = Some c" "\<bar>captures acc\<bar> + \<bar>c\<bar> \<le> B"
    and fl: "map_of (files s) (templateStr rt steamID @ ''.json'') = Some fl"
    and doc: "jsonParse rt (content fl) = Some (JObj doc)"
    and st: "orElse (map_of doc ''stats'') (JObj []) = JObj f"
    and row: "map_of (playerStats s) (templateStr rt steamID) = Some acc"
  shows "playerStats (syncPlayer_v5 rt sid steamID s)
           = updateWhere (templateStr rt steamID)
               (\<lambda>row. row\<lparr>kills := kills acc + k, deaths := deaths acc + d,
                          captures := captures acc + c, last_updated := now s\<rparr>)
               (playerStats s)"
  using fl doc st row
  by (simp add: syncPlayer_v5_def Let_def upsertPlayerData_def
        mergeStats_exact[OF B col k d c])


text \<open>
  Claim C7, as amended. Let the counters be integers that the number type holds exactly
  and the column stores as they are: \<open>B\<close> is below \<open>2^53\<close>, the column stores every integer
  up to \<open>B\<close> in absolute value unchanged, and for each field the absolute values of the
  stored counter and of the two deltas add up to at most \<open>B\<close>. The delta of a field is the
  number that the stats sub-document holds there, zero when the field is absent. Then
  \<^item> the merged row holds, for each field, the stored counter plus the delta, and the
    time of the merge;
  \<^item> merging \<open>d1\<close> and then \<open>d2\<close> gives the row that merging their field-wise sum gives in
    one step;
  \<^item> this is what the sweep writes: after the turn of a listed player whose file parses
    to an object with that stats sub-document, every stats row of the player holds the
    counters of the player's first row plus the deltas, and the first row holds them at
    the end of a sweep whose allow-list names the player once.
\<close>

theorem counter_merge_additive:
  assumes B: "B < 2 ^ 53"
    and col: "\<forall>n. \<bar>n\<bar> \<le> B \<longrightarrow> columnInt rt (JsNumber n) = Some n"
    and k: "intField f1 ''kills'' = Some k1" "intField f2 ''kills'' = Some k2"
           "\<bar>kills acc\<bar> + \<bar>k1\<bar> + \<bar>k2\<bar> \<le> B"
    and d: "intField f1 ''deaths'' = Some d1" "intField f2 ''deaths'' = Some d2"
           "\<bar>deaths acc\<bar> + \<bar>d1\<bar> + \<bar>d2\<bar> \<le> B"
    and c: "intField f1 ''captures'' = Some c1" "intField f2 ''captures'' = Some c2"
           "\<bar>captures acc\<bar> + \<bar>c1\<bar> + \<bar>c2\<bar> \<le> B"
  shows "mergeStats rt t acc (JObj f1)
           = Some (acc\<lparr>kills := kills acc + k1, deaths := deaths acc + d1,
                       captures := captures acc + c1, last_updated := t\<rparr>)
       \<and> Option.bind (mergeStats rt t acc (JObj f1)) (\<lambda>m. mergeStats rt t' m (JObj f2))
           = Some (acc\<lparr>kills := kills acc + k1 + k2, deaths := deaths acc + d1 + d2,
                       captures := captures acc + c1 + c2, last_updated := t'\<rparr>)
       \<and> mergeStats rt t' acc (statsDoc (k1 + k2) (d1 + d2) (c1 + c2))
           = Some (acc\<lparr>kills := kills acc + k1 + k2, deaths := deaths acc + d1 + d2,
                       captures := captures acc + c1 + c2, last_updated := t'\<rparr>)
       \<and> (map_of (files s) (templateStr rt steamID @ ''.json'') = Some fl
            \<and> jsonParse rt (content fl) = Some (JObj doc)
            \<and> orElse (map_of doc ''stats'') (JObj []) = JObj f1
            \<and> map_of (playerStats s) (templateStr rt steamID) = Some acc
          \<longrightarrow> playerStats (syncPlayer_v5 rt sid steamID s)
                = updateWhere (templateStr rt steamID)
                    (\<lambda>row. row\<lparr>kills := kills acc + k1, deaths := deaths acc + d1,
                               captures := captures acc + c1, last_updated := now s\<rparr>)
                    (playerStats s)
              \<and> (readPlayerList rt s = before @ steamID # after
                   \<and> (\<forall>x\<in>set (before @ after). templateStr rt x \<noteq> templateStr rt steamID)
                   \<and> templateStr rt steamID \<noteq> ''ServerSettings''
                 \<longrightarrow> map_of (playerStats (syncKothFiles_v5 rt sid enabled s)) (templateStr rt steamID)
                       = Some (acc\<lparr>kills := kills acc + k1, deaths := deaths acc + d1,
                                   captures := captures acc + c1, last_updated := now s\<rparr>)))"
proof -
  let ?pid = "templateStr rt steamID"
  let ?m1 = "acc\<lparr>kills := kills acc + k1, deaths := deaths acc + d1,
                  captures := captures acc + c1, last_updated := t\<rparr>"
  have r1:
    "\<bar>kills acc\<bar> + \<bar>k1\<bar> \<le> B" "\<bar>deaths acc\<bar> + \<bar>d1\<bar> \<le> B" "\<bar>captures acc\<bar> + \<bar>c1\<bar> \<le> B"
    using k(3) apply linarith
    using d(3) apply linarith
    using c(3) apply linarith
    done
  have one: "mergeStats rt u acc (JObj f1)
               = Some (acc\<lparr>kills := kills acc + k1, deaths := deaths acc + d1,
                           captures := captures acc + c1, last_updated := u\<rparr>)" for u
    by (rule mergeStats_exact[OF B col k(1) r1(1) d(1) r1(2) c(1) r1(3)])
  have r2:
    "\<bar>kills ?m1\<bar> + \<bar>k2\<bar> \<le> B" "\<bar>deaths ?m1\<bar> + \<bar>d2\<bar> \<le> B" "\<bar>captures ?m1\<bar> + \<bar>c2\<bar> \<le> B"
    subgoal using k(3) by simp
    subgoal using d(3) by simp
    subgoal using c(3) by simp
    done
  have "mergeStats rt t' ?m1 (JObj f2)
          = Some (?m1\<lparr>kills := kills ?m1 + k2, deaths := deaths ?m1 + d2,
                       captures := captures ?m1 + c2, last_updated := t'\<rparr>)"
    by (rule mergeStats_exact[OF B col k(2) r2(1) d(2) r2(2) c(2) r2(3)])
  then have two: "Option.bind (mergeStats rt t acc (JObj f1)) (\<lambda>m. mergeStats rt t' m (JObj f2))
           = Some (acc\<lparr>kills := kills acc + k1 + k2, deaths := deaths acc + d1 + d2,
                       captures := captures acc + c1 + c2, last_updated := t'\<rparr>)"
    by (simp add: one)
  have r3:
    "\<bar>kills acc\<bar> + \<bar>k1 + k2\<bar> \<le> B" "\<bar>deaths acc\<bar> + \<bar>d1 + d2\<bar> \<le> B"
    "\<bar>captures acc\<bar> + \<bar>c1 + c2\<bar> \<le> B"
    using k(3) apply linarith
    using d(3) apply linarith
    using c(3) apply linarith
    done
  have "mergeStats rt t' acc (JObj [(''kills'', JNum (k1 + k2)), (''deaths'', JNum (d1 + d2)),
                                   (''captures'', JNum (c1 + c2))])
          = Some (acc\<lparr>kills := kills acc + (k1 + k2), deaths := deaths acc + (d1 + d2),
                       captures := captures acc + (c1 + c2), last_updated := t'\<rparr>)"
    by (rule mergeStats_exact[OF B col intField_statsDoc(1) r3(1) intField_statsDoc(2) r3(2)
          intField_statsDoc(3) r3(3)])
  then have three: "mergeStats rt t' acc (statsDoc (k1 + k2) (d1 + d2) (c1 + c2))
           = Some (acc\<lparr>kills := kills acc + k1 + k2, deaths := deaths acc + d1 + d2,
                       captures := captures acc + c1 + c2, last_updated := t'\<rparr>)"
    by (simp add: statsDoc_def add.assoc)
  have four: "playerStats (syncPlayer_v5 rt sid steamID s')
                = updateWhere ?pid
                    (\<lambda>row. row\<lparr>kills := kills acc + k1, deaths := deaths acc + d1,
                               captures := captures acc + c1, last_updated := now s'\<rparr>)
                    (playerStats s')"
    if "map_of (files s') (?pid @ ''.json'') = Some fl"
      "jsonParse rt (content fl) = Some (JObj doc)"
      "orElse (map_of doc ''stats'') (JObj []) = JObj f1"
      "map_of (playerStats s') ?pid = Some acc" for s'
    by (rule syncPlayer_v5_merges[OF B col k(1) r1(1) d(1) r1(2) c(1) r1(3) that])
  have five: "map_of (playerStats (syncKothFiles_v5 rt sid enabled s)) ?pid
                = Some (acc\<lparr>kills := kills acc + k1, deaths := deaths acc + d1,
                            captures := captures acc + c1, last_updated := now s\<rparr>)"
    if h: "map_of (files s) (?pid @ ''.json'') = Some fl"
      "jsonParse rt (content fl) = Some (JObj doc)"
      "orElse (map_of doc ''stats'') (JObj []) = JObj f1"
      "map_of (playerStats s) ?pid = Some acc"
      and l: "readPlayerList rt s = before @ steamID # after"
      and o: "\<forall>x\<in>set (before @ after). templateStr rt x \<noteq> ?pid"
      and n: "?pid \<noteq> ''ServerSettings''"
  proof -
    define s0 where "s0 = (if length (before @ steamID # after) \<ge> 50 \<and> enabled
                            then syncServerSettings rt s else s)"
    define s1 where "s1 = playerLoop_v5 rt sid before s0"
    from n have "?pid @ ''.json'' \<noteq> ''ServerSettings.json''" by auto
    then have f0: "map_of (files s0) (?pid @ ''.json'') = Some fl"
      using h(1) by (simp add: s0_def syncServerSettings_frame)
    have p0: "playerStats s0 = playerStats s" "now s0 = now s"
      by (simp_all add: s0_def syncServerSettings_frame)
    from o have ob: "\<forall>x\<in>set before. templateStr rt x \<noteq> ?pid"
      and oa: "\<forall>x\<in>set after. templateStr rt x \<noteq> ?pid" by auto
    have f1: "map_of (files s1) (?pid @ ''.json'') = Some fl"
      using f0 by (simp add: s1_def playerLoop_v5_files)
    have r1: "map_of (playerStats s1) ?pid = Some acc"
      using h(4) p0 by (simp add: s1_def playerLoop_v5_other[OF ob])
    have n1: "now s1 = now s" by (simp add: s1_def playerLoop_v5_now p0)
    have "map_of (playerStats (syncPlayer_v5 rt sid steamID s1)) ?pid
            = Some (acc\<lparr>kills := kills acc + k1, deaths := deaths acc + d1,
                        captures := captures acc + c1, last_updated := now s\<rparr>)"
      by (simp add: four[OF f1 h(2) h(3) r1] map_of_updateWhere r1 n1)
    moreover have "syncKothFiles_v5 rt sid enabled s
                     = playerLoop_v5 rt sid after (syncPlayer_v5 rt sid steamID s1)"
      by (simp add: syncKothFiles_v5_def Let_def l playerLoop_v5_append s1_def s0_def)
    ultimately show ?thesis by (simp add: playerLoop_v5_other[OF oa])
  qed
  have six: "map_of (files s) (?pid @ ''.json'') = Some fl
            \<and> jsonParse rt (content fl) = Some (JObj doc)
            \<and> orElse (map_of doc ''stats'') (JObj []) = JObj f1
            \<and> map_of (playerStats s) ?pid = Some acc
          \<longrightarrow> playerStats (syncPlayer_v5 rt sid steamID s)
                = updateWhere ?pid
                    (\<lambda>row. row\<lparr>kills := kills acc + k1, deaths := deaths acc + d1,
                               captures := captures acc + c1, last_updated := now s\<rparr>)
                    (playerStats s)
              \<and> (readPlayerList rt s = before @ steamID # after
                   \<and> (\<forall>x\<in>set (before @ after). templateStr rt x \<noteq> ?pid)
                   \<and> ?pid \<noteq> ''ServerSettings''
                 \<longrightarrow> map_of (playerStats (syncKothFiles_v5 rt sid enabled s)) ?pid
                       = Some (acc\<lparr>kills := kills acc + k1, deaths := deaths acc + d1,
                                   captures := captures acc + c1, last_updated := now s\<rparr>))"
    (is "?A \<longrightarrow> ?P \<and> (?C \<longrightarrow> ?Q)")
  proof (intro impI conjI)
    assume a: ?A
    then show ?P by (intro four) simp_all
  next
    assume a: ?A and c: ?C
    from a have a': "map_of (files s) (?pid @ ''.json'') = Some fl"
      "jsonParse rt (content fl) = Some (JObj doc)"
      "orElse (map_of doc ''stats'') (JObj []) = JObj f1"
      "map_of (playerStats s) ?pid = Some acc" by simp_all
    from c have c': "readPlayerList rt s = before @ steamID # after"
      "\<forall>x\<in>set (before @ after). templateStr rt x \<noteq> ?pid"
      "?pid \<noteq> ''ServerSettings''" by simp_all
    show ?Q by (rule five[OF a' c'])
  qed
  show ?thesis
    apply (rule conjI)
     apply (rule one)
    apply (rule conjI)
     apply (rule two)
    apply (rule conjI)
     apply (rule three)
    apply (rule six)
    done
qed

text \<open>Beyond \<open>2^53\<close> the sum is a double and no longer the integer sum: a stored
  \<open>9007199254740992\<close> stays what it is when 1 is merged, any number of times, and becomes
  \<open>9007199254740994\<close> when 2 is merged once. A delta that is a string is concatenated:
  10 and \<^verbatim>\<open>"3"\<close> make the text \<^verbatim>\<open>103\<close>, which the column reads as the number 103.\<close>

theorem counter_merge_double_counterexample:
  "mergeStats sampleRuntime 0
      \<lparr>playtime_seconds = 0, kills = 9007199254740992, deaths = 0, captures = 0, last_updated = 0\<rparr>
      (JObj [(''kills'', JNum 1)])
     = Some \<lparr>playtime_seconds = 0, kills = 9007199254740992, deaths = 0, captures = 0,
             last_updated = 0\<rparr>
   \<and> mergeStats sampleRuntime 0
      \<lparr>playtime_seconds = 0, kills = 9007199254740992, deaths = 0, captures = 0, last_updated = 0\<rparr>
      (statsDoc 2 0 0)
     = Some \<lparr>playtime_seconds = 0, kills = 9007199254740994, deaths = 0, captures = 0,
             last_updated = 0\<rparr>
   \<and> mergeStats sampleRuntime 0
      \<lparr>playtime_seconds = 0, kills = 10, deaths = 0, captures = 0, last_updated = 0\<rparr>
      (JObj [(''kills'', JStr ''3'')])
     = Some \<lparr>playtime_seconds = 0, kills = 103, deaths = 0, captures = 0, last_updated = 0\<rparr>"
proof -
  have b: "bitlen 9007199254740993 = 54" "bitlen 9007199254740994 = 54"
    by (simp_all add: bitlen.simps)
  have r: "roundDouble 9007199254740992 = 9007199254740992"
    "roundDouble 9007199254740993 = 9007199254740992"
    "roundDouble 9007199254740994 = 9007199254740994"
    "roundDouble 0 = 0" "roundDouble 1 = 1" "roundDouble 2 = 2" "roundDouble 10 = 10"
    by (simp_all add: roundDouble_def Let_def b bitlen.simps)
  have t: "toDouble 9007199254740993 = JsNumber 9007199254740992"
    "toDouble 9007199254740994 = JsNumber 9007199254740994"
    "toDouble 0 = JsNumber 0"
    by (simp_all add: toDouble_def Let_def r)
  have z: "zip ''0123456789'' [0 ..< 10]
             = [(CHR ''0'', 0), (CHR ''1'', 1), (CHR ''2'', 2), (CHR ''3'', 3), (CHR ''4'', 4),
                (CHR ''5'', 5), (CHR ''6'', 6), (CHR ''7'', 7), (CHR ''8'', 8), (CHR ''9'', 9)]"
    by (simp add: upt_rec)
  have i: "readInt ''103'' = Some 103"
    by (simp add: readInt_def z)
  show ?thesis
    by (simp add: mergeStats_def statsDoc_def orElse_def r t sampleColumn_def i)
qed


theorem counter_merge_additive_witness:
  \<open>mergeStats sampleRuntime 50
      \<lparr>playtime_seconds = 0, kills = 5, deaths = 1, captures = 0, last_updated = 0\<rparr>
      (JObj [(''kills'', JNum 2), (''captures'', JNum 1)])
     = Some \<lparr>playtime_seconds = 0, kills = 7, deaths = 1, captures = 1, last_updated = 50\<rparr>
   \<and> Option.bind
        (mergeStats sampleRuntime 50
           \<lparr>playtime_seconds = 0, kills = 5, deaths = 1, captures = 0, last_updated = 0\<rparr>
           (JObj [(''kills'', JNum 2), (''captures'', JNum 1)]))
        (\<lambda>m. mergeStats sampleRuntime 60 m (JObj [(''deaths'', JNum 4)]))
     = Some \<lparr>playtime_seconds = 0, kills = 7, deaths = 5, captures = 1, last_updated = 60\<rparr>
   \<and> mergeStats sampleRuntime 60
        \<lparr>playtime_seconds = 0, kills = 5, deaths = 1, captures = 0, last_updated = 0\<rparr>
        (statsDoc 2 4 1)
     = Some \<lparr>playtime_seconds = 0, kills = 7, deaths = 5, captures = 1, last_updated = 60\<rparr>
   \<and> playerStats (syncPlayer_v5 sampleRuntime 1 (JStr ''76561198000000005'')
        (emptyWorld\<lparr>files :=
             [(''PlayerList.json'', \<lparr>content = ''{"players":["76561198000000005"]}'', mtime = 0\<rparr>),
              (''76561198000000005.json'', \<lparr>content = ''{"stats":{"kills":2,"captures":1}}'', mtime = 0\<rparr>)],
           playerStats :=
             [(''76561198000000005'', \<lparr>playtime_seconds = 0, kills = 5, deaths = 1, captures = 0,
                       last_updated = 0\<rparr>)]\<rparr>))
     = [(''76561198000000005'', \<lparr>playtime_seconds = 0, kills = 7, deaths = 1, captures = 1, last_updated = 1000\<rparr>)]
   \<and> map_of (playerStats (syncKothFiles_v5 sampleRuntime 1 True
        (emptyWorld\<lparr>files :=
             [(''PlayerList.json'', \<lparr>content = ''{"players":["76561198000000005"]}'', mtime = 0\<rparr>),
              (''76561198000000005.json'', \<lparr>content = ''{"stats":{"kills":2,"captures":1}}'', mtime = 0\<rparr>)],
           playerStats :=
             [(''76561198000000005'', \<lparr>playtime_seconds = 0, kills = 5, deaths = 1, captures = 0,
                       last_updated = 0\<rparr>)]\<rparr>))) ''76561198000000005''
     = Some \<lparr>playtime_seconds = 0, kills = 7, deaths = 1, captures = 1, last_updated = 1000\<rparr>\<close>
proof -
  let ?acc = "\<lparr>playtime_seconds = 0, kills = 5, deaths = 1, captures = 0, last_updated = 0\<rparr>"
  have b: "(2147483647::int) < 2 ^ 53" by simp
  have col: "\<forall>n. \<bar>n\<bar> \<le> 2147483647 \<longrightarrow> columnInt sampleRuntime (JsNumber n) = Some n"
  proof (intro allI impI)
    fix n :: int
    assume "\<bar>n\<bar> \<le> 2147483647"
    then have "- (2 ^ 63) \<le> n" "n < 2 ^ 63" by simp_all
    then show "columnInt sampleRuntime (JsNumber n) = Some n"
      by (simp add: sampleColumn_number)
  qed
  have k: "intField [(''kills'', JNum 2), (''captures'', JNum 1)] ''kills'' = Some 2"
    "intField [(''deaths'', JNum 4)] ''kills'' = Some 0"
    "\<bar>kills ?acc\<bar> + \<bar>2\<bar> + \<bar>0\<bar> \<le> (2147483647::int)"
    by (simp_all add: intField_def)
  have d: "intField [(''kills'', JNum 2), (''captures'', JNum 1)] ''deaths'' = Some 0"
    "intField [(''deaths'', JNum 4)] ''deaths'' = Some 4"
    "\<bar>deaths ?acc\<bar> + \<bar>0\<bar> + \<bar>4\<bar> \<le> (2147483647::int)"
    by (simp_all add: intField_def)
  have c: "intField [(''kills'', JNum 2), (''captures'', JNum 1)] ''captures'' = Some 1"
    "intField [(''deaths'', JNum 4)] ''captures'' = Some 0"
    "\<bar>captures ?acc\<bar> + \<bar>1\<bar> + \<bar>0\<bar> \<le> (2147483647::int)"
    by (simp_all add: intField_def)
  note th = counter_merge_additive[where rt = sampleRuntime and t = 50 and t' = 60
      and s = "emptyWorld\<lparr>files :=
             [(''PlayerList.json'', \<lparr>content = ''{\"players\":[\"76561198000000005\"]}'', mtime = 0\<rparr>),
              (''76561198000000005.json'', \<lparr>content = ''{\"stats\":{\"kills\":2,\"captures\":1}}'', mtime = 0\<rparr>)],
           playerStats :=
             [(''76561198000000005'', \<lparr>playtime_seconds = 0, kills = 5, deaths = 1, captures = 0,
                       last_updated = 0\<rparr>)]\<rparr>"
      and sid = 1 and steamID = "JStr ''76561198000000005''" and enabled = True and before = "[]" and after = "[]"
      and fl = "\<lparr>content = ''{\"stats\":{\"kills\":2,\"captures\":1}}'', mtime = 0\<rparr>"
      and doc = "[(''stats'', JObj [(''kills'', JNum 2), (''captures'', JNum 1)])]",
      OF b col k d c]
  from th[THEN conjunct1] have c1: \<open>mergeStats sampleRuntime 50
      \<lparr>playtime_seconds = 0, kills = 5, deaths = 1, captures = 0, last_updated = 0\<rparr>
      (JObj [(''kills'', JNum 2), (''captures'', JNum 1)])
     = Some \<lparr>playtime_seconds = 0, kills = 7, deaths = 1, captures = 1, last_updated = 50\<rparr>\<close>
    by simp
  from th[THEN conjunct2, THEN conjunct1] have c2: \<open>Option.bind
        (mergeStats sampleRuntime 50
           \<lparr>playtime_seconds = 0, kills = 5, deaths = 1, captures = 0, last_updated = 0\<rparr>
           (JObj [(''kills'', JNum 2), (''captures'', JNum 1)]))
        (\<lambda>m. mergeStats sampleRuntime 60 m (JObj [(''deaths'', JNum 4)]))
     = Some \<lparr>playtime_seconds = 0, kills = 7, deaths = 5, captures = 1, last_updated = 60\<rparr>\<close>
    by simp
  from th[THEN conjunct2, THEN conjunct2, THEN conjunct1] have c3: \<open>mergeStats sampleRuntime 60
        \<lparr>playtime_seconds = 0, kills = 5, deaths = 1, captures = 0, last_updated = 0\<rparr>
        (statsDoc 2 4 1)
     = Some \<lparr>playtime_seconds = 0, kills = 7, deaths = 5, captures = 1, last_updated = 60\<rparr>\<close>
    by simp
  from th[THEN conjunct2, THEN conjunct2, THEN conjunct2] have c4: \<open>playerStats (syncPlayer_v5 sampleRuntime 1 (JStr ''76561198000000005'')
        (emptyWorld\<lparr>files :=
             [(''PlayerList.json'', \<lparr>content = ''{"players":["76561198000000005"]}'', mtime = 0\<rparr>),
              (''76561198000000005.json'', \<lparr>content = ''{"stats":{"kills":2,"captures":1}}'', mtime = 0\<rparr>)],
           playerStats :=
             [(''76561198000000005'', \<lparr>playtime_seconds = 0, kills = 5, deaths = 1, captures = 0,
                       last_updated = 0\<rparr>)]\<rparr>))
     = [(''76561198000000005'', \<lparr>playtime_seconds = 0, kills = 7, deaths = 1, captures = 1, last_updated = 1000\<rparr>)]\<close>
    by (simp add: emptyWorld_def orElse_def updateWhere_def)
  from th[THEN conjunct2, THEN conjunct2, THEN conjunct2] have c5: \<open>map_of (playerStats (syncKothFiles_v5 sampleRuntime 1 True
        (emptyWorld\<lparr>files :=
             [(''PlayerList.json'', \<lparr>content = ''{"players":["76561198000000005"]}'', mtime = 0\<rparr>),
              (''76561198000000005.json'', \<lparr>content = ''{"stats":{"kills":2,"captures":1}}'', mtime = 0\<rparr>)],
           playerStats :=
             [(''76561198000000005'', \<lparr>playtime_seconds = 0, kills = 5, deaths = 1, captures = 0,
                       last_updated = 0\<rparr>)]\<rparr>))) ''76561198000000005''
     = Some \<lparr>playtime_seconds = 0, kills = 7, deaths = 1, captures = 1, last_updated = 1000\<rparr>\<close>
    by (simp add: emptyWorld_def readPlayerList_def orElse_def updateWhere_def)
  from c1 c2 c3 c4 c5 show ?thesis by (intro conjI)
qed

section \<open>Elimination events\<close>

lemma updateWhere_compose:
  "updateWhere b g (updateWhere a f rows)
     = map (\<lambda>(k, row). (k, (if k = b then g else id) ((if k = a then f else id) row))) rows"
  by (induction rows) (auto simp: updateWhere_def)

lemma updateWhere_as_map:
  "updateWhere a f rows = map (\<lambda>(k, row). (k, (if k = a then f else id) row)) rows"
  by (induction rows) (auto simp: updateWhere_def)

text \<open>
  Claim C9, as amended. The table of stats rows after an elimination event is the table
  before it, row by row, with \<open>kills\<close> raised by one in every row of the (present) killer
  and \<open>deaths\<close> raised by one in every row of the (present) victim, each on its own;
  playtime, captures and time stamps, the rows of every other player, the player data,
  the files and the sessions are as before. No row is added: for a killer or a victim
  without a stats row nothing is counted.
\<close>

theorem onPlayerKilled_increments:
  "playerStats (onPlayerKilled killerId victimId s)
     = map (\<lambda>(pid, st).
              (pid, st\<lparr>kills := kills st + (if killerId = Some pid \<and> pid \<noteq> [] then 1 else 0),
                        deaths := deaths st + (if victimId = Some pid \<and> pid \<noteq> [] then 1 else 0)\<rparr>))
         (playerStats s)
   \<and> playerData (onPlayerKilled killerId victimId s) = playerData s
   \<and> files (onPlayerKilled killerId victimId s) = files s
   \<and> playerSessions (onPlayerKilled killerId victimId s) = playerSessions s
   \<and> now (onPlayerKilled killerId victimId s) = now s"
proof -
  have e: "\<And>pid::string. ([] = pid \<and> pid \<noteq> []) = False"
    by auto
  have i: "\<And>(rows::(string \<times> stats_row) list). map (\<lambda>(pid, st). (pid, st)) rows = rows"
    by (simp add: case_prod_eta)
  have stats: "playerStats (onPlayerKilled killerId victimId s)
     = map (\<lambda>(pid, st).
              (pid, st\<lparr>kills := kills st + (if killerId = Some pid \<and> pid \<noteq> [] then 1 else 0),
                        deaths := deaths st + (if victimId = Some pid \<and> pid \<noteq> [] then 1 else 0)\<rparr>))
         (playerStats s)"
    by (cases killerId; cases victimId)
       (auto simp: onPlayerKilled_def Let_def incrementKills_def incrementDeaths_def
          updateWhere_compose updateWhere_as_map e i)
  have frame: "playerData (onPlayerKilled killerId victimId s) = playerData s"
    "files (onPlayerKilled killerId victimId s) = files s"
    "playerSessions (onPlayerKilled killerId victimId s) = playerSessions s"
    "now (onPlayerKilled killerId victimId s) = now s"
    by (simp_all add: onPlayerKilled_def Let_def incrementKills_def incrementDeaths_def
          split: option.splits)
  from stats frame show ?thesis by simp
qed

text \<open>As stated the claim fails: alice kills bob while the stats table holds no row for
  either. Both identities are present, the event changes nothing, and neither player has
  a counter afterwards.\<close>

theorem onPlayerKilled_no_rows_counterexample:
  "onPlayerKilled (Some ''alice'') (Some ''bob'') emptyWorld = emptyWorld
   \<and> map_of (playerStats (onPlayerKilled (Some ''alice'') (Some ''bob'') emptyWorld)) ''alice'' = None
   \<and> map_of (playerStats (onPlayerKilled (Some ''alice'') (Some ''bob'') emptyWorld)) ''bob'' = None"
  by (simp add: onPlayerKilled_def incrementKills_def incrementDeaths_def updateWhere_def
        emptyWorld_def)

theorem onPlayerKilled_increments_witness:
  "playerStats (onPlayerKilled (Some ''alice'') (Some ''bob'')
      (emptyWorld\<lparr>playerStats :=
         [(''alice'', \<lparr>playtime_seconds = 10, kills = 2, deaths = 3, captures = 4, last_updated = 5\<rparr>),
          (''bob'', \<lparr>playtime_seconds = 20, kills = 6, deaths = 7, captures = 8, last_updated = 9\<rparr>),
          (''carol'', \<lparr>playtime_seconds = 30, kills = 1, deaths = 1, captures = 1, last_updated = 1\<rparr>),
          (''alice'', \<lparr>playtime_seconds = 0, kills = 0, deaths = 0, captures = 0, last_updated = 6\<rparr>)]\<rparr>))
   = [(''alice'', \<lparr>playtime_seconds = 10, kills = 3, deaths = 3, captures = 4, last_updated = 5\<rparr>),
      (''bob'', \<lparr>playtime_seconds = 20, kills = 6, deaths = 8, captures = 8, last_updated = 9\<rparr>),
      (''carol'', \<lparr>playtime_seconds = 30, kills = 1, deaths = 1, captures = 1, last_updated = 1\<rparr>),
      (''alice'', \<lparr>playtime_seconds = 0, kills = 1, deaths = 0, captures = 0, last_updated = 6\<rparr>)]"
  using onPlayerKilled_increments[where killerId="Some ''alice''" and victimId="Some ''bob''"
      and s="emptyWorld\<lparr>playerStats :=
         [(''alice'', \<lparr>playtime_seconds = 10, kills = 2, deaths = 3, captures = 4, last_updated = 5\<rparr>),
          (''bob'', \<lparr>playtime_seconds = 20, kills = 6, deaths = 7, captures = 8, last_updated = 9\<rparr>),
          (''carol'', \<lparr>playtime_seconds = 30, kills = 1, deaths = 1, captures = 1, last_updated = 1\<rparr>),
          (''alice'', \<lparr>playtime_seconds = 0, kills = 0, deaths = 0, captures = 0, last_updated = 6\<rparr>)]\<rparr>"]
  by (simp add: emptyWorld_def)

section \<open>Departure\<close>

text \<open>
  Claim C6. When the player file exists and parses, the departure handlers of
  \<^verbatim>\<open>src/DBKoth.js\<close> and \<^verbatim>\<open>part_002\<close> both end without an error in a state whose row for the
  player holds the parsed document, the current time as \<open>lastsave\<close> and this server's
  id, whatever the row held before; the other rows and the files are untouched. When the file does not
  exist, both return the state as it was.
\<close>

theorem departure_overwrites_store:
  "(map_of (files s) (steamID @ ''.json'') = Some fl \<and> jsonParse rt (content fl) = Some doc \<longrightarrow>
      (\<exists>s'. onPlayerDisconnected_v1 rt sid steamID s = Inr s'
          \<and> onPlayerDisconnected_v3 rt sid steamID s = Inr s'
          \<and> map_of (playerData s') steamID
               = Some \<lparr>lastsave = now s, serversave = sid, playerdata = doc\<rparr>
          \<and> (\<forall>k. k \<noteq> steamID \<longrightarrow> map_of (playerData s') k = map_of (playerData s) k)
          \<and> files s' = files s))
   \<and> (map_of (files s) (steamID @ ''.json'') = None \<longrightarrow>
        onPlayerDisconnected_v1 rt sid steamID s = Inr s
      \<and> onPlayerDisconnected_v3 rt sid steamID s = Inr s)"
  by (simp add: onPlayerDisconnected_v1_def onPlayerDisconnected_v3_def upsertPlayerData_def
        update_conv')

theorem departure_overwrites_store_witness:
  \<open>onPlayerDisconnected_v1 sampleRuntime 1 ''alice''
      (emptyWorld\<lparr>files := [(''alice.json'', \<lparr>content = ''{"hp":100}'', mtime = 5\<rparr>)],
                  playerData := [(''alice'', \<lparr>lastsave = 900, serversave = 2, playerdata = JNum 7\<rparr>)]\<rparr>)
    = Inr (emptyWorld\<lparr>files := [(''alice.json'', \<lparr>content = ''{"hp":100}'', mtime = 5\<rparr>)],
                  playerData := [(''alice'', \<lparr>lastsave = 1000, serversave = 1,
                                              playerdata = JObj [(''hp'', JNum 100)]\<rparr>)]\<rparr>)
   \<and> onPlayerDisconnected_v3 sampleRuntime 1 ''bob'' emptyWorld = Inr emptyWorld\<close>
proof -
  let ?w = \<open>emptyWorld\<lparr>files := [(''alice.json'', \<lparr>content = ''{"hp":100}'', mtime = 5\<rparr>)],
                  playerData := [(''alice'', \<lparr>lastsave = 900, serversave = 2, playerdata = JNum 7\<rparr>)]\<rparr>\<close>
  have f: \<open>map_of (files ?w) (''alice'' @ ''.json'') = Some \<lparr>content = ''{"hp":100}'', mtime = 5\<rparr>\<close>
    by simp
  have p: \<open>jsonParse sampleRuntime (content \<lparr>content = ''{"hp":100}'', mtime = 5\<rparr>)
             = Some (JObj [(''hp'', JNum 100)])\<close>
    by (simp add: sampleRuntime_def sampleParse_def sampleDocs_def)
  have n: "map_of (files emptyWorld) (''bob'' @ ''.json'') = None"
    by (simp add: emptyWorld_def)
  from departure_overwrites_store[where s="?w" and steamID="''alice''" and rt=sampleRuntime and sid=1] f p
  obtain s' where s': "onPlayerDisconnected_v1 sampleRuntime 1 ''alice'' ?w = Inr s'"
    by blast
  from departure_overwrites_store[where s=emptyWorld and steamID="''bob''" and rt=sampleRuntime and sid=1] n
  have b: "onPlayerDisconnected_v3 sampleRuntime 1 ''bob'' emptyWorld = Inr emptyWorld"
    by simp
  have a: \<open>onPlayerDisconnected_v1 sampleRuntime 1 ''alice'' ?w
    = Inr (emptyWorld\<lparr>files := [(''alice.json'', \<lparr>content = ''{"hp":100}'', mtime = 5\<rparr>)],
                  playerData := [(''alice'', \<lparr>lastsave = 1000, serversave = 1,
                                              playerdata = JObj [(''hp'', JNum 100)]\<rparr>)]\<rparr>)\<close>
    using s' by (simp add: onPlayerDisconnected_v1_def sampleRuntime_def sampleParse_def sampleDocs_def
        upsertPlayerData_def emptyWorld_def)
  from a b show ?thesis by simp
qed

text \<open>In \<^verbatim>\<open>part_000\<close> a file that does not parse makes the handler return before the
  playtime step: the state is as before.\<close>

lemma departure_malformed_returns_early:
  "map_of (files s) (steamID @ ''.json'') = Some fl \<Longrightarrow> jsonParse rt (content fl) = None
     \<Longrightarrow> onPlayerDisconnected_v5 rt sid steamID s = s"
  by (simp add: onPlayerDisconnected_v5_def)

text \<open>
  Claim C4, evaluated. Alice logged in at time 0 and leaves at 61000 with a truncated
  file: her session is still open afterwards and her playtime is still 0. On the sibling
  path, where the file does not exist, the same departure closes the session and
  credits 61 seconds.
\<close>

theorem departure_malformed_session_stays_open:
  \<open>map_of (playerSessions (onPlayerDisconnected_v5 sampleRuntime 1 ''alice''
      (emptyWorld\<lparr>files := [(''alice.json'', \<lparr>content = ''{"hp":'', mtime = 5\<rparr>)],
                  playerStats := [(''alice'', \<lparr>playtime_seconds = 0, kills = 0, deaths = 0,
                                                captures = 0, last_updated = 0\<rparr>)],
                  playerSessions := [(''alice'', 0)], now := 61000\<rparr>))) ''alice'' = Some 0
   \<and> map_of (playerStats (onPlayerDisconnected_v5 sampleRuntime 1 ''alice''
      (emptyWorld\<lparr>files := [(''alice.json'', \<lparr>content = ''{"hp":'', mtime = 5\<rparr>)],
                  playerStats := [(''alice'', \<lparr>playtime_seconds = 0, kills = 0, deaths = 0,
                                                captures = 0, last_updated = 0\<rparr>)],
                  playerSessions := [(''alice'', 0)], now := 61000\<rparr>))) ''alice''
     = Some \<lparr>playtime_seconds = 0, kills = 0, deaths = 0, captures = 0, last_updated = 0\<rparr>
   \<and> map_of (playerSessions (onPlayerDisconnected_v5 sampleRuntime 1 ''alice''
      (emptyWorld\<lparr>playerStats := [(''alice'', \<lparr>playtime_seconds = 0, kills = 0, deaths = 0,
                                                captures = 0, last_updated = 0\<rparr>)],
                  playerSessions := [(''alice'', 0)], now := 61000\<rparr>))) ''alice'' = None
   \<and> map_of (playerStats (onPlayerDisconnected_v5 sampleRuntime 1 ''alice''
      (emptyWorld\<lparr>playerStats := [(''alice'', \<lparr>playtime_seconds = 0, kills = 0, deaths = 0,
                                                captures = 0, last_updated = 0\<rparr>)],
                  playerSessions := [(''alice'', 0)], now := 61000\<rparr>))) ''alice''
     = Some \<lparr>playtime_seconds = 61, kills = 0, deaths = 0, captures = 0, last_updated = 61000\<rparr>\<close>
  by (simp add: onPlayerDisconnected_v5_def updatePlaytime_def updateWhere_def emptyWorld_def
        roundDouble_exact toDouble_exact sampleColumn_number)

section \<open>Arrival\<close>

text \<open>
  Claim C5, as amended. With a row for the player, \<^verbatim>\<open>src/DBKoth.js\<close> overwrites the file
  with the printed payload, stamped with the current time, whatever the file held and
  however new it was; \<^verbatim>\<open>part_000\<close> does the same with the payload as read from the store
  (a string payload parsed as JSON text), provided that reading succeeds, and goes on
  without an error. Without a row both handlers leave every file as it is; the handler
  of \<^verbatim>\<open>part_000\<close> then ends with the store's error where the reference of the stats table
  to the player table is enforced.
\<close>

theorem arrival_overwrites_file:
  "(map_of (playerData s) steamID = Some row \<longrightarrow>
      map_of (files (onPlayerConnected_v1 rt steamID s)) (steamID @ ''.json'')
        = Some \<lparr>content = jsonStringify rt (playerdata row), mtime = now s\<rparr>)
   \<and> (map_of (playerData s) steamID = Some row \<and> fromDb rt (playerdata row) = Some doc \<longrightarrow>
        fst (onPlayerConnected_v5 rt steamID s) = None
      \<and> files (snd (onPlayerConnected_v5 rt steamID s))
          = AList.update (steamID @ ''.json'')
              \<lparr>content = jsonStringify2 rt doc, mtime = now s\<rparr> (files s)
      \<and> map_of (files (snd (onPlayerConnected_v5 rt steamID s))) (steamID @ ''.json'')
          = Some \<lparr>content = jsonStringify2 rt doc, mtime = now s\<rparr>)
   \<and> (map_of (playerData s) steamID = None \<longrightarrow>
        onPlayerConnected_v1 rt steamID s = s
      \<and> files (snd (onPlayerConnected_v5 rt steamID s)) = files s
      \<and> fst (onPlayerConnected_v5 rt steamID s)
          = (if enforcesReference rt then Some (ForeignKey steamID) else None))"
  by (simp add: onPlayerConnected_v1_def onPlayerConnected_v5_def writeFile_def update_conv'
        upsertPlayerStats_def)

text \<open>The claim as stated fails in \<^verbatim>\<open>part_000\<close>: a row exists, its payload is a string
  that is no JSON text, and the handler ends with the \<^verbatim>\<open>SyntaxError\<close> before it writes;
  the file keeps its text and its time.\<close>

theorem arrival_unparsed_payload_counterexample:
  \<open>map_of (playerData
      (emptyWorld\<lparr>files := [(''alice.json'', \<lparr>content = ''{"hp":100}'', mtime = 5\<rparr>)],
                  playerData := [(''alice'', \<lparr>lastsave = 900, serversave = 2,
                                              playerdata = JStr ''hp=100''\<rparr>)]\<rparr>)) ''alice''
     = Some \<lparr>lastsave = 900, serversave = 2, playerdata = JStr ''hp=100''\<rparr>
   \<and> onPlayerConnected_v5 sampleRuntime ''alice''
      (emptyWorld\<lparr>files := [(''alice.json'', \<lparr>content = ''{"hp":100}'', mtime = 5\<rparr>)],
                  playerData := [(''alice'', \<lparr>lastsave = 900, serversave = 2,
                                              playerdata = JStr ''hp=100''\<rparr>)]\<rparr>)
     = (Some (BadPayload ''alice''),
        emptyWorld\<lparr>files := [(''alice.json'', \<lparr>content = ''{"hp":100}'', mtime = 5\<rparr>)],
                  playerData := [(''alice'', \<lparr>lastsave = 900, serversave = 2,
                                              playerdata = JStr ''hp=100''\<rparr>)]\<rparr>)\<close>
  by (simp add: onPlayerConnected_v5_def fromDb_def sampleParse_def sampleDocs_def
        fiftyPlayers_def emptyWorld_def)

theorem arrival_overwrites_file_witness:
  \<open>map_of (files (onPlayerConnected_v1 sampleRuntime ''bob''
      (emptyWorld\<lparr>files := [(''bob.json'', \<lparr>content = ''{"hp":100}'', mtime = 5000\<rparr>)],
                  playerData := [(''bob'', \<lparr>lastsave = 900, serversave = 2,
                                            playerdata = JObj [(''score'', JNum 5)]\<rparr>)]\<rparr>))) ''bob.json''
     = Some \<lparr>content = ''{"score":5}'', mtime = 1000\<rparr>
   \<and> onPlayerConnected_v1 sampleRuntime ''alice''
      (emptyWorld\<lparr>files := [(''alice.json'', \<lparr>content = ''{"hp":100}'', mtime = 5000\<rparr>)]\<rparr>)
     = emptyWorld\<lparr>files := [(''alice.json'', \<lparr>content = ''{"hp":100}'', mtime = 5000\<rparr>)]\<rparr>
   \<and> fst (onPlayerConnected_v5 sampleRuntime ''bob''
      (emptyWorld\<lparr>files := [(''bob.json'', \<lparr>content = ''{"hp":100}'', mtime = 5000\<rparr>)],
                  playerData := [(''bob'', \<lparr>lastsave = 900, serversave = 2,
                                            playerdata = JObj [(''score'', JNum 5)]\<rparr>)]\<rparr>))
     = None
   \<and> files (snd (onPlayerConnected_v5 sampleRuntime ''bob''
      (emptyWorld\<lparr>files := [(''bob.json'', \<lparr>content = ''{"hp":100}'', mtime = 5000\<rparr>)],
                  playerData := [(''bob'', \<lparr>lastsave = 900, serversave = 2,
                                            playerdata = JObj [(''score'', JNum 5)]\<rparr>)]\<rparr>)))
     = [(''bob.json'',
         \<lparr>content = ''{'' @ [CHR 0x0A] @ ''  "score": 5'' @ [CHR 0x0A] @ ''}'', mtime = 1000\<rparr>)]
   \<and> files (snd (onPlayerConnected_v5 sampleRuntime ''alice''
      (emptyWorld\<lparr>files := [(''alice.json'', \<lparr>content = ''{"hp":100}'', mtime = 5000\<rparr>)]\<rparr>)))
     = [(''alice.json'', \<lparr>content = ''{"hp":100}'', mtime = 5000\<rparr>)]
   \<and> fst (onPlayerConnected_v5 sampleRuntime ''alice''
      (emptyWorld\<lparr>files := [(''alice.json'', \<lparr>content = ''{"hp":100}'', mtime = 5000\<rparr>)]\<rparr>))
     = Some (ForeignKey ''alice'')\<close>
proof -
  let ?w = \<open>emptyWorld\<lparr>files := [(''bob.json'', \<lparr>content = ''{"hp":100}'', mtime = 5000\<rparr>)],
                  playerData := [(''bob'', \<lparr>lastsave = 900, serversave = 2,
                                            playerdata = JObj [(''score'', JNum 5)]\<rparr>)]\<rparr>\<close>
  let ?v = \<open>emptyWorld\<lparr>files := [(''alice.json'', \<lparr>content = ''{"hp":100}'', mtime = 5000\<rparr>)]\<rparr>\<close>
  note w = arrival_overwrites_file[where s="?w" and steamID="''bob''" and rt=sampleRuntime
      and row = "\<lparr>lastsave = 900, serversave = 2, playerdata = JObj [(''score'', JNum 5)]\<rparr>"
      and doc = "JObj [(''score'', JNum 5)]"]
  note v = arrival_overwrites_file[where s="?v" and steamID="''alice''" and rt=sampleRuntime]
  from w[THEN conjunct1]
  have 1: \<open>map_of (files (onPlayerConnected_v1 sampleRuntime ''bob'' ?w)) ''bob.json''
     = Some \<lparr>content = ''{"score":5}'', mtime = 1000\<rparr>\<close>
    by (simp add: emptyWorld_def)
  from v[THEN conjunct2, THEN conjunct2]
  have 2: "onPlayerConnected_v1 sampleRuntime ''alice'' ?v = ?v"
    by (simp add: emptyWorld_def)
  from w[THEN conjunct2, THEN conjunct1]
  have 3: \<open>fst (onPlayerConnected_v5 sampleRuntime ''bob'' ?w) = None\<close>
    by (simp add: emptyWorld_def fromDb_def)
  from w[THEN conjunct2, THEN conjunct1]
  have 4: \<open>files (snd (onPlayerConnected_v5 sampleRuntime ''bob'' ?w))
     = [(''bob.json'',
         \<lparr>content = ''{'' @ [CHR 0x0A] @ ''  "score": 5'' @ [CHR 0x0A] @ ''}'', mtime = 1000\<rparr>)]\<close>
    by (simp add: emptyWorld_def fromDb_def)
  from v[THEN conjunct2, THEN conjunct2]
  have 5: \<open>files (snd (onPlayerConnected_v5 sampleRuntime ''alice'' ?v))
     = [(''alice.json'', \<lparr>content = ''{"hp":100}'', mtime = 5000\<rparr>)]\<close>
    by (simp add: emptyWorld_def)
  from v[THEN conjunct2, THEN conjunct2]
  have 6: \<open>fst (onPlayerConnected_v5 sampleRuntime ''alice'' ?v) = Some (ForeignKey ''alice'')\<close>
    by (simp add: emptyWorld_def)
  from 1 2 3 4 5 6 show ?thesis by (intro conjI)
qed

section \<open>Reconciliation by the sweep of \<^verbatim>\<open>src/DBKoth.js\<close>\<close>

text \<open>What the two writes change.\<close>

lemma writeFile_simps:
  "map_of (files (writeFile n t s)) = (map_of (files s))(n \<mapsto> \<lparr>content = t, mtime = now s\<rparr>)"
  "playerData (writeFile n t s) = playerData s"
  "now (writeFile n t s) = now s"
  by (simp_all add: writeFile_def update_conv')

lemma upsertPlayerData_simps:
  "map_of (playerData (upsertPlayerData sid k doc s))
     = (map_of (playerData s))(k \<mapsto> \<lparr>lastsave = now s, serversave = sid, playerdata = doc\<rparr>)"
  "files (upsertPlayerData sid k doc s) = files s"
  "now (upsertPlayerData sid k doc s) = now s"
  by (simp_all add: upsertPlayerData_def update_conv')

lemma json_name_inj: "a @ ''.json'' = b @ ''.json'' \<Longrightarrow> a = b"
  by simp

text \<open>One turn of the loop changes the file it looks at or the row of its identifier, and
  nothing else.\<close>

lemma syncFile_v1_frame:
  assumes "syncFile_v1 rt sid f s = Inr s'"
  shows "now s' = now s"
    and "g \<noteq> f \<Longrightarrow> map_of (files s') g = map_of (files s) g"
    and "k \<noteq> playerfileid f \<Longrightarrow> map_of (playerData s') k = map_of (playerData s) k"
  using assms
  by (auto simp: syncFile_v1_def Let_def writeFile_simps upsertPlayerData_simps
      split: option.splits if_splits)

lemma syncFile_v1_result:
  assumes "syncFile_v1 rt sid f s = Inr s'" "map_of (files s) f = Some fl"
  shows "if fileWins fl (map_of (playerData s) (playerfileid f))
         then \<exists>doc. jsonParse rt (content fl) = Some doc
                \<and> map_of (playerData s') (playerfileid f)
                    = Some \<lparr>lastsave = now s, serversave = sid, playerdata = doc\<rparr>
                \<and> map_of (files s') f = Some fl
         else \<exists>row. map_of (playerData s) (playerfileid f) = Some row
                \<and> map_of (playerData s') (playerfileid f) = Some row
                \<and> map_of (files s') f
                    = Some \<lparr>content = jsonStringify rt (playerdata row), mtime = now s\<rparr>"
  using assms
  by (auto simp: syncFile_v1_def Let_def writeFile_simps upsertPlayerData_simps fileWins_def
      split: option.splits if_splits)

lemma syncFile_v1_ok:
  assumes "map_of (files s) f = Some fl"
    and "fileWins fl (map_of (playerData s) (playerfileid f)) \<longrightarrow> jsonParse rt (content fl) \<noteq> None"
  shows "\<exists>s'. syncFile_v1 rt sid f s = Inr s'"
  using assms by (auto simp: syncFile_v1_def Let_def fileWins_def split: option.splits)

text \<open>The loop: what it leaves alone, what it marks as processed, and when it reaches the
  end of the folder.\<close>

lemma fileLoop_v1_now:
  "fileLoop_v1 rt sid L P s = (e, P', s') \<Longrightarrow> now s' = now s"
proof (induction L arbitrary: P s)
  case Nil
  then show ?case by simp
next
  case (Cons f L)
  then show ?case
    by (auto split: if_splits sum.splits dest: syncFile_v1_frame(1))
qed

lemma fileLoop_v1_files:
  "fileLoop_v1 rt sid L P s = (e, P', s') \<Longrightarrow> g \<notin> set L
     \<Longrightarrow> map_of (files s') g = map_of (files s) g"
proof (induction L arbitrary: P s)
  case Nil
  then show ?case by simp
next
  case (Cons f L)
  show ?case
  proof (cases "endsWith f ''.json''")
    case False
    with Cons show ?thesis by simp
  next
    case True
    show ?thesis
    proof (cases "syncFile_v1 rt sid f s")
      case (Inl err)
      with True Cons.prems show ?thesis by simp
    next
      case (Inr s1)
      with True Cons.prems
      have "fileLoop_v1 rt sid L (insert (playerfileid f) P) s1 = (e, P', s')" by simp
      from Cons.IH[OF this] Cons.prems(2) have "map_of (files s') g = map_of (files s1) g" by simp
      also from Cons.prems(2) have "\<dots> = map_of (files s) g"
        by (intro syncFile_v1_frame(2)[OF Inr]) auto
      finally show ?thesis .
    qed
  qed
qed

lemma fileLoop_v1_rows:
  "fileLoop_v1 rt sid L P s = (e, P', s')
     \<Longrightarrow> \<forall>g \<in> set L. endsWith g ''.json'' \<longrightarrow> playerfileid g \<noteq> k
     \<Longrightarrow> map_of (playerData s') k = map_of (playerData s) k"
proof (induction L arbitrary: P s)
  case Nil
  then show ?case by simp
next
  case (Cons f L)
  show ?case
  proof (cases "endsWith f ''.json''")
    case False
    with Cons show ?thesis by simp
  next
    case True
    show ?thesis
    proof (cases "syncFile_v1 rt sid f s")
      case (Inl err)
      with True Cons.prems show ?thesis by simp
    next
      case (Inr s1)
      with True Cons.prems
      have "fileLoop_v1 rt sid L (insert (playerfileid f) P) s1 = (e, P', s')" by simp
      from Cons.IH[OF this] Cons.prems(2)
      have "map_of (playerData s') k = map_of (playerData s1) k" by simp
      also from Cons.prems(2) True have "\<dots> = map_of (playerData s) k"
        by (intro syncFile_v1_frame(3)[OF Inr]) auto
      finally show ?thesis .
    qed
  qed
qed

lemma fileLoop_v1_processed_mono:
  "fileLoop_v1 rt sid L P s = (None, P', s') \<Longrightarrow> k \<in> P \<Longrightarrow> k \<in> P'"
proof (induction L arbitrary: P s)
  case Nil
  then show ?case by simp
next
  case (Cons f L)
  show ?case
  proof (cases "endsWith f ''.json''")
    case False
    with Cons show ?thesis by simp
  next
    case True
    with Cons.prems(1) obtain s1 where
      rest: "fileLoop_v1 rt sid L (insert (playerfileid f) P) s1 = (None, P', s')"
      by (auto split: sum.splits)
    from Cons.IH[OF rest] Cons.prems(2) show ?thesis by simp
  qed
qed

lemma fileLoop_v1_processed:
  "fileLoop_v1 rt sid L P s = (None, P', s') \<Longrightarrow> g \<in> set L \<Longrightarrow> endsWith g ''.json''
     \<Longrightarrow> playerfileid g \<in> P'"
proof (induction L arbitrary: P s)
  case Nil
  then show ?case by simp
next
  case (Cons f L)
  show ?case
  proof (cases "endsWith f ''.json''")
    case False
    with Cons show ?thesis by auto
  next
    case True
    with Cons.prems(1) obtain s1 where
      rest: "fileLoop_v1 rt sid L (insert (playerfileid f) P) s1 = (None, P', s')"
      by (auto split: sum.splits)
    show ?thesis
    proof (cases "g = f")
      case True
      with fileLoop_v1_processed_mono[OF rest, of "playerfileid f"] show ?thesis by simp
    next
      case False
      with Cons.prems Cons.IH[OF rest] show ?thesis by simp
    qed
  qed
qed

lemma fileLoop_v1_completes:
  "distinct L
     \<Longrightarrow> \<forall>g \<in> set L. endsWith g ''.json'' \<longrightarrow> playerfileid g @ ''.json'' = g
     \<Longrightarrow> \<forall>g \<in> set L. endsWith g ''.json'' \<longrightarrow>
           (\<exists>gl. map_of (files s) g = Some gl
              \<and> (fileWins gl (map_of (playerData s) (playerfileid g))
                   \<longrightarrow> jsonParse rt (content gl) \<noteq> None))
     \<Longrightarrow> fst (fileLoop_v1 rt sid L P s) = None"
proof (induction L arbitrary: P s)
  case Nil
  then show ?case by simp
next
  case (Cons f L)
  show ?case
  proof (cases "endsWith f ''.json''")
    case False
    with Cons show ?thesis by simp
  next
    case True
    with Cons.prems(3) obtain fl where "map_of (files s) f = Some fl"
      "fileWins fl (map_of (playerData s) (playerfileid f)) \<longrightarrow> jsonParse rt (content fl) \<noteq> None"
      by auto
    then obtain s1 where s1: "syncFile_v1 rt sid f s = Inr s1"
      using syncFile_v1_ok by blast
    from True Cons.prems(2) have fname: "playerfileid f @ ''.json'' = f" by simp
    have "\<forall>g \<in> set L. endsWith g ''.json'' \<longrightarrow>
           (\<exists>gl. map_of (files s1) g = Some gl
              \<and> (fileWins gl (map_of (playerData s1) (playerfileid g))
                   \<longrightarrow> jsonParse rt (content gl) \<noteq> None))"
    proof (intro ballI impI)
      fix g assume g: "g \<in> set L" "endsWith g ''.json''"
      with Cons.prems(1) have ne: "g \<noteq> f" by auto
      from g Cons.prems(2) have "playerfileid g @ ''.json'' = g" by simp
      with fname ne have "playerfileid g \<noteq> playerfileid f" by auto
      then have r: "map_of (playerData s1) (playerfileid g) = map_of (playerData s) (playerfileid g)"
        by (rule syncFile_v1_frame(3)[OF s1])
      from ne have "map_of (files s1) g = map_of (files s) g" by (rule syncFile_v1_frame(2)[OF s1])
      with r Cons.prems(3) g
      show "\<exists>gl. map_of (files s1) g = Some gl
              \<and> (fileWins gl (map_of (playerData s1) (playerfileid g))
                   \<longrightarrow> jsonParse rt (content gl) \<noteq> None)"
        by simp
    qed
    with Cons.IH[of s1 "insert (playerfileid f) P"] Cons.prems(1,2)
    have "fst (fileLoop_v1 rt sid L (insert (playerfileid f) P) s1) = None" by simp
    with True s1 show ?thesis by simp
  qed
qed

lemma fileLoop_v1_file:
  assumes "distinct L"
    and "\<forall>g \<in> set L. endsWith g ''.json'' \<longrightarrow> playerfileid g @ ''.json'' = g"
    and "fileLoop_v1 rt sid L P s = (None, P', s')"
    and "f \<in> set L" "endsWith f ''.json''" "map_of (files s) f = Some fl"
  shows "if fileWins fl (map_of (playerData s) (playerfileid f))
         then \<exists>doc. jsonParse rt (content fl) = Some doc
                \<and> map_of (playerData s') (playerfileid f)
                    = Some \<lparr>lastsave = now s, serversave = sid, playerdata = doc\<rparr>
                \<and> map_of (files s') f = Some fl
         else \<exists>row. map_of (playerData s) (playerfileid f) = Some row
                \<and> map_of (playerData s') (playerfileid f) = Some row
                \<and> map_of (files s') f
                    = Some \<lparr>content = jsonStringify rt (playerdata row), mtime = now s\<rparr>"
  using assms
proof (induction L arbitrary: P s)
  case Nil
  then show ?case by simp
next
  case (Cons g L)
  have other: "playerfileid h \<noteq> playerfileid f"
    if "h \<in> set (g # L)" "endsWith h ''.json''" "h \<noteq> f" for h
  proof
    assume "playerfileid h = playerfileid f"
    moreover from that Cons.prems(2) have "playerfileid h @ ''.json'' = h" by blast
    moreover from Cons.prems(2,4,5) have "playerfileid f @ ''.json'' = f" by blast
    ultimately show False using that(3) by simp
  qed
  show ?case
  proof (cases "g = f")
    case True
    with Cons.prems obtain s1 where s1: "syncFile_v1 rt sid f s = Inr s1"
      and rest: "fileLoop_v1 rt sid L (insert (playerfileid f) P) s1 = (None, P', s')"
      by (auto split: sum.splits)
    from True Cons.prems(1) have notin: "f \<notin> set L" by simp
    have keep_f: "map_of (files s') f = map_of (files s1) f"
      by (rule fileLoop_v1_files[OF rest notin])
    have "\<forall>h \<in> set L. endsWith h ''.json'' \<longrightarrow> playerfileid h \<noteq> playerfileid f"
      using other notin by auto
    then have keep_r: "map_of (playerData s') (playerfileid f) = map_of (playerData s1) (playerfileid f)"
      by (rule fileLoop_v1_rows[OF rest])
    from syncFile_v1_result[OF s1 Cons.prems(6)] keep_f keep_r show ?thesis by simp
  next
    case False
    with Cons.prems(4) have fL: "f \<in> set L" by simp
    from Cons.prems(1) have dL: "distinct L" by simp
    from Cons.prems(2) have nL: "\<forall>g \<in> set L. endsWith g ''.json'' \<longrightarrow> playerfileid g @ ''.json'' = g"
      by simp
    show ?thesis
    proof (cases "endsWith g ''.json''")
      case nojson: False
      with Cons.prems(3) have "fileLoop_v1 rt sid L P s = (None, P', s')" by simp
      from Cons.IH[OF dL nL this fL Cons.prems(5,6)] show ?thesis .
    next
      case json: True
      with Cons.prems(3) obtain s1 where s1: "syncFile_v1 rt sid g s = Inr s1"
        and rest: "fileLoop_v1 rt sid L (insert (playerfileid g) P) s1 = (None, P', s')"
        by (auto split: sum.splits)
      from False have f1: "map_of (files s1) f = map_of (files s) f"
        by (intro syncFile_v1_frame(2)[OF s1]) simp
      from other[of g] json False
      have r1: "map_of (playerData s1) (playerfileid f) = map_of (playerData s) (playerfileid f)"
        by (intro syncFile_v1_frame(3)[OF s1]) auto
      have n1: "now s1 = now s" by (rule syncFile_v1_frame(1)[OF s1])
      from Cons.prems(6) f1 have "map_of (files s1) f = Some fl" by simp
      from Cons.IH[OF dL nL rest fL Cons.prems(5) this] show ?thesis
        by (simp only: r1 n1)
    qed
  qed
qed

lemma catchup_v1_frame:
  "playerData (catchup_v1 rt rows P s) = playerData s"
  "now (catchup_v1 rt rows P s) = now s"
  by (induction rows arbitrary: s) (auto simp: writeFile_simps)

lemma catchup_v1_files:
  "\<forall>k. k \<notin> P \<longrightarrow> k @ ''.json'' \<noteq> f
     \<Longrightarrow> map_of (files (catchup_v1 rt rows P s)) f = map_of (files s) f"
  by (induction rows arbitrary: s) (auto simp: writeFile_simps)


text \<open>
  Claim C1, as amended. Take a folder in which no entity file's name holds \<^verbatim>\<open>.json\<close>
  before its extension (the name is its identifier followed by \<^verbatim>\<open>.json\<close>) and every
  entity file that is due to be pushed parses. Then the sweep runs to its end, and for
  every entity file: if there was no
  row for its identifier, or the file was strictly newer than the row's \<open>lastsave\<close>, the
  row now holds the parsed file with \<open>lastsave\<close> the time of the sweep and the file is
  as it was; otherwise (ties included) the row is as it was and the file holds the
  printed payload. Either way the file parses to the payload of the row afterwards
  (given that the runtime reads back what it printed for that payload).
\<close>

theorem sweep_v1_reconciles:
  assumes "distinct (map fst (files s))"
    and "\<forall>(g, gl) \<in> set (files s). endsWith g ''.json'' \<longrightarrow>
           playerfileid g @ ''.json'' = g
         \<and> (fileWins gl (map_of (playerData s) (playerfileid g))
              \<longrightarrow> jsonParse rt (content gl) \<noteq> None)"
    and "map_of (files s) playerfile = Some fl" and "endsWith playerfile ''.json''"
    and "\<forall>row. map_of (playerData s) (playerfileid playerfile) = Some row \<longrightarrow>
           jsonParse rt (jsonStringify rt (playerdata row)) = Some (playerdata row)"
  shows "\<exists>s'. syncKothFiles_v1 rt sid s = (None, s')
     \<and> (if fileWins fl (map_of (playerData s) (playerfileid playerfile))
        then \<exists>doc. jsonParse rt (content fl) = Some doc
               \<and> map_of (playerData s') (playerfileid playerfile)
                   = Some \<lparr>lastsave = now s, serversave = sid, playerdata = doc\<rparr>
               \<and> map_of (files s') playerfile = Some fl
        else \<exists>row. map_of (playerData s) (playerfileid playerfile) = Some row
               \<and> map_of (playerData s') (playerfileid playerfile) = Some row
               \<and> map_of (files s') playerfile
                   = Some \<lparr>content = jsonStringify rt (playerdata row), mtime = now s\<rparr>)
     \<and> (\<exists>row' fl'. map_of (playerData s') (playerfileid playerfile) = Some row'
           \<and> map_of (files s') playerfile = Some fl'
           \<and> jsonParse rt (content fl') = Some (playerdata row'))"
proof -
  let ?L = "readdir s"
  let ?pid = "playerfileid playerfile"
  have dL: "distinct ?L" using assms(1) by (simp add: readdir_def)
  have entry: "\<exists>gl. (g, gl) \<in> set (files s) \<and> map_of (files s) g = Some gl" if "g \<in> set ?L" for g
    using that assms(1) by (auto simp: readdir_def)
  have names: "\<forall>g \<in> set ?L. endsWith g ''.json'' \<longrightarrow> playerfileid g @ ''.json'' = g"
    using entry assms(2) by fastforce
  have parses: "\<forall>g \<in> set ?L. endsWith g ''.json'' \<longrightarrow>
           (\<exists>gl. map_of (files s) g = Some gl
              \<and> (fileWins gl (map_of (playerData s) (playerfileid g))
                   \<longrightarrow> jsonParse rt (content gl) \<noteq> None))"
    using entry assms(2) by fastforce
  have inL: "playerfile \<in> set ?L"
    using assms(3) by (auto simp: readdir_def dest: map_of_SomeD intro: rev_image_eqI)
  from fileLoop_v1_completes[OF dL names parses, of sid "{}"]
  obtain P' s1 where loop: "fileLoop_v1 rt sid ?L {} s = (None, P', s1)"
    by (cases "fileLoop_v1 rt sid ?L {} s") auto
  let ?s' = "catchup_v1 rt (playerData s1) P' s1"
  have run: "syncKothFiles_v1 rt sid s = (None, ?s')"
    by (simp add: syncKothFiles_v1_def loop)
  note at_s1 = fileLoop_v1_file[OF dL names loop inL assms(4) assms(3)]
  have pidP: "?pid \<in> P'" by (rule fileLoop_v1_processed[OF loop inL assms(4)])
  from names inL assms(4) have name: "?pid @ ''.json'' = playerfile" by blast
  have "\<forall>k. k \<notin> P' \<longrightarrow> k @ ''.json'' \<noteq> playerfile"
    using pidP name by auto
  then have keep_f: "map_of (files ?s') playerfile = map_of (files s1) playerfile"
    by (rule catchup_v1_files)
  have keep_r: "playerData ?s' = playerData s1" by (rule catchup_v1_frame)
  have outcome: "if fileWins fl (map_of (playerData s) ?pid)
        then \<exists>doc. jsonParse rt (content fl) = Some doc
               \<and> map_of (playerData ?s') ?pid
                   = Some \<lparr>lastsave = now s, serversave = sid, playerdata = doc\<rparr>
               \<and> map_of (files ?s') playerfile = Some fl
        else \<exists>row. map_of (playerData s) ?pid = Some row
               \<and> map_of (playerData ?s') ?pid = Some row
               \<and> map_of (files ?s') playerfile
                   = Some \<lparr>content = jsonStringify rt (playerdata row), mtime = now s\<rparr>"
    using at_s1 by (simp only: keep_f keep_r)
  have agree: "\<exists>row' fl'. map_of (playerData ?s') ?pid = Some row'
           \<and> map_of (files ?s') playerfile = Some fl'
           \<and> jsonParse rt (content fl') = Some (playerdata row')"
  proof (cases "fileWins fl (map_of (playerData s) ?pid)")
    case True
    with outcome show ?thesis by auto
  next
    case False
    with outcome obtain row where row: "map_of (playerData s) ?pid = Some row"
      "map_of (playerData ?s') ?pid = Some row"
      "map_of (files ?s') playerfile
         = Some \<lparr>content = jsonStringify rt (playerdata row), mtime = now s\<rparr>"
      by auto
    from assms(5) row(1) have "jsonParse rt (jsonStringify rt (playerdata row)) = Some (playerdata row)"
      by blast
    with row show ?thesis by simp
  qed
  from run outcome agree show ?thesis by blast
qed

text \<open>As stated, without the condition on the names, the claim fails: \<^verbatim>\<open>a.json\<close> and
  \<^verbatim>\<open>a.json.json\<close> are both processed under the identifier \<^verbatim>\<open>a\<close>. The first is older
  than the row and is overwritten from it; the second is newer and replaces the row.
  After the sweep \<^verbatim>\<open>a.json\<close> holds the old payload and the row holds the number 7.\<close>

theorem sweep_v1_colliding_names_counterexample:
  \<open>syncKothFiles_v1 sampleRuntime 1
      (emptyWorld\<lparr>files := [(''a.json'', \<lparr>content = ''{"hp":100}'', mtime = 40\<rparr>),
                            (''a.json.json'', \<lparr>content = ''7'', mtime = 60\<rparr>)],
                  playerData := [(''a'', \<lparr>lastsave = 50, serversave = 2,
                                          playerdata = JObj [(''score'', JNum 5)]\<rparr>)]\<rparr>)
    = (None,
       emptyWorld\<lparr>files := [(''a.json'', \<lparr>content = ''{"score":5}'', mtime = 1000\<rparr>),
                            (''a.json.json'', \<lparr>content = ''7'', mtime = 60\<rparr>)],
                  playerData := [(''a'', \<lparr>lastsave = 1000, serversave = 1, playerdata = JNum 7\<rparr>)]\<rparr>)
   \<and> sampleParse ''{"score":5}'' = Some (JObj [(''score'', JNum 5)])
   \<and> JObj [(''score'', JNum 5)] \<noteq> JNum 7\<close>
  by (simp add: syncKothFiles_v1_def readdir_def emptyWorld_def endsWith_def suffix_def
        syncFile_v1_def playerfileid_def fileWins_def Let_def writeFile_def upsertPlayerData_def
        sampleRuntime_def sampleParse_def sampleDocs_def fiftyPlayers_def)


theorem sweep_v1_reconciles_witness:
  \<open>fst (syncKothFiles_v1 sampleRuntime 1
      (emptyWorld\<lparr>files := [(''alice.json'', \<lparr>content = ''{"hp":100}'', mtime = 5\<rparr>),
                            (''bob.json'', \<lparr>content = ''7'', mtime = 5\<rparr>)],
                  playerData := [(''bob'', \<lparr>lastsave = 900, serversave = 2,
                                            playerdata = JObj [(''score'', JNum 5)]\<rparr>)]\<rparr>)) = None
   \<and> map_of (playerData (snd (syncKothFiles_v1 sampleRuntime 1
      (emptyWorld\<lparr>files := [(''alice.json'', \<lparr>content = ''{"hp":100}'', mtime = 5\<rparr>),
                            (''bob.json'', \<lparr>content = ''7'', mtime = 5\<rparr>)],
                  playerData := [(''bob'', \<lparr>lastsave = 900, serversave = 2,
                                            playerdata = JObj [(''score'', JNum 5)]\<rparr>)]\<rparr>)))) ''alice''
     = Some \<lparr>lastsave = 1000, serversave = 1, playerdata = JObj [(''hp'', JNum 100)]\<rparr>
   \<and> map_of (files (snd (syncKothFiles_v1 sampleRuntime 1
      (emptyWorld\<lparr>files := [(''alice.json'', \<lparr>content = ''{"hp":100}'', mtime = 5\<rparr>),
                            (''bob.json'', \<lparr>content = ''7'', mtime = 5\<rparr>)],
                  playerData := [(''bob'', \<lparr>lastsave = 900, serversave = 2,
                                            playerdata = JObj [(''score'', JNum 5)]\<rparr>)]\<rparr>)))) ''bob.json''
     = Some \<lparr>content = ''{"score":5}'', mtime = 1000\<rparr>\<close>
proof -
  let ?w = \<open>emptyWorld\<lparr>files := [(''alice.json'', \<lparr>content = ''{"hp":100}'', mtime = 5\<rparr>),
                            (''bob.json'', \<lparr>content = ''7'', mtime = 5\<rparr>)],
                  playerData := [(''bob'', \<lparr>lastsave = 900, serversave = 2,
                                            playerdata = JObj [(''score'', JNum 5)]\<rparr>)]\<rparr>\<close>
  have ids: "playerfileid ''alice.json'' = ''alice''" "playerfileid ''bob.json'' = ''bob''"
    by (simp_all add: playerfileid_def)
  have ends: "endsWith ''alice.json'' ''.json''" "endsWith ''bob.json'' ''.json''"
    by (simp_all add: endsWith_def suffix_def)
  have h1: "distinct (map fst (files ?w))" by simp
  have h2: "\<forall>(g, gl) \<in> set (files ?w). endsWith g ''.json'' \<longrightarrow>
           playerfileid g @ ''.json'' = g
         \<and> (fileWins gl (map_of (playerData ?w) (playerfileid g))
              \<longrightarrow> jsonParse sampleRuntime (content gl) \<noteq> None)"
    by (simp add: ids sampleRuntime_def sampleParse_def sampleDocs_def)
  have a3: \<open>map_of (files ?w) ''alice.json'' = Some \<lparr>content = ''{"hp":100}'', mtime = 5\<rparr>\<close> by simp
  have b3: "map_of (files ?w) ''bob.json'' = Some \<lparr>content = ''7'', mtime = 5\<rparr>" by simp
  have a5: "\<forall>row. map_of (playerData ?w) (playerfileid ''alice.json'') = Some row \<longrightarrow>
           jsonParse sampleRuntime (jsonStringify sampleRuntime (playerdata row)) = Some (playerdata row)"
    by (simp add: ids)
  have b5: "\<forall>row. map_of (playerData ?w) (playerfileid ''bob.json'') = Some row \<longrightarrow>
           jsonParse sampleRuntime (jsonStringify sampleRuntime (playerdata row)) = Some (playerdata row)"
    by (simp add: ids sampleRuntime_def sampleParse_def sampleDocs_def)
  have aw: \<open>fileWins \<lparr>content = ''{"hp":100}'', mtime = 5\<rparr> (map_of (playerData ?w) (playerfileid ''alice.json''))\<close>
    by (simp add: ids fileWins_def)
  have bw: "\<not> fileWins \<lparr>content = ''7'', mtime = 5\<rparr> (map_of (playerData ?w) (playerfileid ''bob.json''))"
    by (simp add: ids fileWins_def)
  from sweep_v1_reconciles[OF h1 h2 a3 ends(1) a5, of 1] aw
  obtain s' where a: "syncKothFiles_v1 sampleRuntime 1 ?w = (None, s')"
    \<open>\<exists>doc. jsonParse sampleRuntime (content \<lparr>content = ''{"hp":100}'', mtime = 5\<rparr>) = Some doc
       \<and> map_of (playerData s') (playerfileid ''alice.json'')
           = Some \<lparr>lastsave = now ?w, serversave = 1, playerdata = doc\<rparr>\<close>
    by (auto simp: ids)
  from sweep_v1_reconciles[OF h1 h2 b3 ends(2) b5, of 1] bw a(1)
  have b: "\<exists>row. map_of (playerData ?w) (playerfileid ''bob.json'') = Some row
       \<and> map_of (files s') ''bob.json''
           = Some \<lparr>content = jsonStringify sampleRuntime (playerdata row), mtime = now ?w\<rparr>"
    by (auto simp: ids)
  from a have 1: "fst (syncKothFiles_v1 sampleRuntime 1 ?w) = None"
    and 2: "map_of (playerData (snd (syncKothFiles_v1 sampleRuntime 1 ?w))) ''alice''
     = Some \<lparr>lastsave = 1000, serversave = 1, playerdata = JObj [(''hp'', JNum 100)]\<rparr>"
    by (auto simp: ids sampleRuntime_def sampleParse_def sampleDocs_def emptyWorld_def)
  from a(1) b have 3: \<open>map_of (files (snd (syncKothFiles_v1 sampleRuntime 1 ?w))) ''bob.json''
     = Some \<lparr>content = ''{"score":5}'', mtime = 1000\<rparr>\<close>
    by (auto simp: ids sampleRuntime_def emptyWorld_def)
  from 1 2 3 show ?thesis by simp
qed

section \<open>The second loop and the identifiers it passes over\<close>

lemma isSteamID_not_settings: "toLowerCase k = ''serversettings'' \<Longrightarrow> \<not> isSteamID k"
proof
  assume a: "toLowerCase k = ''serversettings''" and b: "isSteamID k"
  from a have "length (toLowerCase k) = 14" by simp
  then have "length k = 14" by (simp add: toLowerCase_def)
  with b show False by (simp add: isSteamID_def)
qed

lemma catchup_v2_files:
  "\<not> isSteamID steamID
     \<Longrightarrow> map_of (files (snd (catchup_v2 rt rows processed s))) (steamID @ ''.json'')
         = map_of (files s) (steamID @ ''.json'')"
proof (induction rows arbitrary: s)
  case Nil
  then show ?case by simp
next
  case (Cons row rows)
  obtain k r where row: "row = (k, r)" by (cases row)
  show ?case
  proof (cases "\<not> isSteamID k \<or> toLowerCase k = ''serversettings'' \<or> k \<in> processed")
    case True
    with Cons row show ?thesis by auto
  next
    case False
    with Cons.prems have ne: "k \<noteq> steamID" by auto
    show ?thesis
    proof (cases "fromDb rt (playerdata r)")
      case None
      with False row show ?thesis by simp
    next
      case (Some doc)
      with False row Cons.IH[OF Cons.prems, of "writeFile (k @ ''.json'') (jsonStringify2 rt doc) s"] ne
      show ?thesis by (simp add: writeFile_simps)
    qed
  qed
qed

lemma syncFile_v2_absent:
  "syncFile_v2 rt sid g s = Inr s' \<Longrightarrow> map_of (files s) f = None \<Longrightarrow> map_of (files s') f = None"
  by (auto simp: syncFile_v2_def Let_def writeFile_simps upsertPlayerData_simps
      split: option.splits if_splits)

lemma fileLoop_v2_absent:
  "fileLoop_v2 rt sid L P s = (e, P', s') \<Longrightarrow> map_of (files s) f = None
     \<Longrightarrow> map_of (files s') f = None"
proof (induction L arbitrary: P s)
  case Nil
  then show ?case by simp
next
  case (Cons g L)
  show ?case
  proof (cases "\<not> endsWith g ''.json'' \<or> isSettingsFile g")
    case True
    with Cons show ?thesis by auto
  next
    case False
    show ?thesis
    proof (cases "syncFile_v2 rt sid g s")
      case (Inl err)
      with False Cons.prems show ?thesis by auto
    next
      case (Inr s1)
      with False Cons.prems
      have "fileLoop_v2 rt sid L (insert (playerfileid g) P) s1 = (e, P', s')" by auto
      from Cons.IH[OF this syncFile_v2_absent[OF Inr Cons.prems(2)]] show ?thesis .
    qed
  qed
qed

lemma syncKothFiles_v2_absent:
  assumes "\<not> isSteamID steamID" and "map_of (files s) (steamID @ ''.json'') = None"
  shows "map_of (files (snd (syncKothFiles_v2 rt sid s))) (steamID @ ''.json'') = None"
proof -
  obtain e P' s1 where loop: "fileLoop_v2 rt sid (readdir s) {} s = (e, P', s1)"
    by (cases "fileLoop_v2 rt sid (readdir s) {} s") auto
  from fileLoop_v2_absent[OF loop assms(2)]
  have s1: "map_of (files s1) (steamID @ ''.json'') = None" .
  show ?thesis
  proof (cases e)
    case None
    with loop have "syncKothFiles_v2 rt sid s = catchup_v2 rt (playerData s1) P' s1"
      by (simp add: syncKothFiles_v2_def)
    with catchup_v2_files[OF assms(1), of rt "playerData s1" P' s1] s1 show ?thesis by simp
  next
    case (Some err)
    with loop s1 show ?thesis by (simp add: syncKothFiles_v2_def)
  qed
qed

lemma syncKothFiles_v3_absent:
  assumes "\<not> isSteamID steamID" and "map_of (files s) (steamID @ ''.json'') = None"
    and "steamID \<noteq> ''ServerSettings''"
  shows "map_of (files (snd (syncKothFiles_v3 rt sid s))) (steamID @ ''.json'') = None"
proof (cases "map_of (playerData s) ''ServerSettings''")
  case None
  with syncKothFiles_v2_absent[OF assms(1,2)] show ?thesis by (simp add: syncKothFiles_v3_def)
next
  case (Some serverSettings)
  show ?thesis
  proof (cases "fromDb rt (playerdata serverSettings)")
    case None
    with Some assms(2) show ?thesis by (simp add: syncKothFiles_v3_def)
  next
    case (Some serverData)
    let ?s2 = "writeFile ''ServerSettings.json'' (jsonStringify2 rt serverData) s"
    from assms(3) have "steamID @ ''.json'' \<noteq> ''ServerSettings.json''" by auto
    with assms(2) have "map_of (files ?s2) (steamID @ ''.json'') = None"
      by (simp add: writeFile_simps)
    from syncKothFiles_v2_absent[OF assms(1) this, of rt sid]
      \<open>map_of (playerData s) ''ServerSettings'' = Some serverSettings\<close> Some
    show ?thesis by (simp add: syncKothFiles_v3_def)
  qed
qed

text \<open>
  Claim C3, as amended. In the variants whose second loop carries the filter (\<^verbatim>\<open>part_001\<close>
  and \<^verbatim>\<open>part_002\<close>), a row whose \<^verbatim>\<open>player_id\<close> is the settings sentinel in any
  letter case, or is not seventeen digits, never has its file written by that loop: the
  entry \<^verbatim>\<open><player_id>.json\<close> of the folder is after the loop what it was before. So when
  there was no such file, the whole sweep of \<^verbatim>\<open>part_001\<close> ends without one, and so does
  the sweep of \<^verbatim>\<open>part_002\<close> for every such identifier but \<^verbatim>\<open>ServerSettings\<close> itself,
  whose file is the target of the settings push.
\<close>

theorem catchup_v2_skips_invalid_ids:
  assumes "toLowerCase steamID = ''serversettings'' \<or> \<not> isSteamID steamID"
  shows "map_of (files (snd (catchup_v2 rt rows processed s))) (steamID @ ''.json'')
           = map_of (files s) (steamID @ ''.json'')
       \<and> (map_of (files s) (steamID @ ''.json'') = None \<longrightarrow>
            map_of (files (snd (syncKothFiles_v2 rt sid s))) (steamID @ ''.json'') = None)
       \<and> (map_of (files s) (steamID @ ''.json'') = None \<and> steamID \<noteq> ''ServerSettings'' \<longrightarrow>
            map_of (files (snd (syncKothFiles_v3 rt sid s))) (steamID @ ''.json'') = None)"
proof -
  from assms have inv: "\<not> isSteamID steamID" using isSteamID_not_settings by blast
  have 1: "map_of (files (snd (catchup_v2 rt rows processed s))) (steamID @ ''.json'')
           = map_of (files s) (steamID @ ''.json'')"
    by (rule catchup_v2_files[OF inv])
  from 1 syncKothFiles_v2_absent[OF inv] syncKothFiles_v3_absent[OF inv] show ?thesis by blast
qed

text \<open>The second loop of \<^verbatim>\<open>src/DBKoth.js\<close> has no filter: for a settings row and a row
  keyed \<^verbatim>\<open>bob\<close>, neither with a file, it writes \<^verbatim>\<open>ServerSettings.json\<close> and \<^verbatim>\<open>bob.json\<close>.\<close>

theorem catchup_v1_settings_counterexample:
  "toLowerCase ''ServerSettings'' = ''serversettings''
   \<and> \<not> isSteamID ''bob''
   \<and> files (catchup_v1 sampleRuntime
        [(''ServerSettings'', \<lparr>lastsave = 0, serversave = 2, playerdata = JNum 100\<rparr>),
         (''bob'', \<lparr>lastsave = 0, serversave = 2, playerdata = JNum 7\<rparr>)] {} emptyWorld)
     = [(''ServerSettings.json'', \<lparr>content = ''100'', mtime = 1000\<rparr>),
        (''bob.json'', \<lparr>content = ''7'', mtime = 1000\<rparr>)]
   \<and> files (snd (syncKothFiles_v1 sampleRuntime 1
        (emptyWorld\<lparr>playerData :=
           [(''ServerSettings'', \<lparr>lastsave = 0, serversave = 2, playerdata = JNum 100\<rparr>),
            (''bob'', \<lparr>lastsave = 0, serversave = 2, playerdata = JNum 7\<rparr>)]\<rparr>)))
     = [(''ServerSettings.json'', \<lparr>content = ''100'', mtime = 1000\<rparr>),
        (''bob.json'', \<lparr>content = ''7'', mtime = 1000\<rparr>)]"
  by (simp add: toLowerCase_def lowerChar_def isSteamID_def syncKothFiles_v1_def readdir_def
        emptyWorld_def writeFile_def sampleRuntime_def)

theorem catchup_v2_skips_invalid_ids_witness:
  "toLowerCase ''ServerSettings'' = ''serversettings''
   \<and> \<not> isSteamID ''bob''
   \<and> isSteamID ''76561198000000003''
   \<and> catchup_v2 sampleRuntime
        [(''ServerSettings'', \<lparr>lastsave = 0, serversave = 2, playerdata = JNum 100\<rparr>),
         (''bob'', \<lparr>lastsave = 0, serversave = 2, playerdata = JNum 7\<rparr>),
         (''76561198000000003'', \<lparr>lastsave = 0, serversave = 2, playerdata = JNum 7\<rparr>)] {} emptyWorld
     = (None, emptyWorld\<lparr>files := [(''76561198000000003.json'', \<lparr>content = ''7'', mtime = 1000\<rparr>)]\<rparr>)
   \<and> map_of (files (snd (syncKothFiles_v2 sampleRuntime 1
        (emptyWorld\<lparr>playerData :=
           [(''ServerSettings'', \<lparr>lastsave = 0, serversave = 2, playerdata = JNum 100\<rparr>),
            (''bob'', \<lparr>lastsave = 0, serversave = 2, playerdata = JNum 7\<rparr>),
            (''76561198000000003'', \<lparr>lastsave = 0, serversave = 2, playerdata = JNum 7\<rparr>)]\<rparr>))))
       ''ServerSettings.json'' = None"
proof -
  let ?rows = "[(''ServerSettings'', \<lparr>lastsave = 0, serversave = 2, playerdata = JNum 100\<rparr>),
         (''bob'', \<lparr>lastsave = 0, serversave = 2, playerdata = JNum 7\<rparr>),
         (''76561198000000003'', \<lparr>lastsave = 0, serversave = 2, playerdata = JNum 7\<rparr>)]"
  have low: "toLowerCase ''ServerSettings'' = ''serversettings''"
    by (simp add: toLowerCase_def lowerChar_def)
  have bob: "\<not> isSteamID ''bob''" and ok: "isSteamID ''76561198000000003''"
    by (simp_all add: isSteamID_def)
  from ok have nl: "toLowerCase ''76561198000000003'' \<noteq> ''serversettings''"
    using isSteamID_not_settings by blast
  have run: "catchup_v2 sampleRuntime ?rows {} emptyWorld
     = (None, emptyWorld\<lparr>files := [(''76561198000000003.json'', \<lparr>content = ''7'', mtime = 1000\<rparr>)]\<rparr>)"
    by (simp add: low bob ok nl fromDb_def writeFile_def sampleRuntime_def emptyWorld_def)
  have none: "map_of (files (emptyWorld\<lparr>playerData := ?rows\<rparr>)) (''ServerSettings'' @ ''.json'') = None"
    by (simp add: emptyWorld_def)
  from catchup_v2_skips_invalid_ids[where steamID="''ServerSettings''" and rt=sampleRuntime
      and s="emptyWorld\<lparr>playerData := ?rows\<rparr>" and sid=1] low none
  have "map_of (files (snd (syncKothFiles_v2 sampleRuntime 1 (emptyWorld\<lparr>playerData := ?rows\<rparr>))))
       ''ServerSettings.json'' = None"
    by simp
  then show ?thesis using low bob ok run by simp
qed

section \<open>Malformed files in the guarded sweep\<close>

lemma update_member_other:
  "(k, v) \<in> set (AList.update k' v' al) \<Longrightarrow> k \<noteq> k' \<Longrightarrow> (k, v) \<in> set al"
  by (induction al) (auto split: if_splits)

lemma readable_lookup:
  "readable rt rows \<Longrightarrow> map_of rows k = Some row \<Longrightarrow> fromDb rt (playerdata row) \<noteq> None"
  by (auto simp: readable_def list_all_iff dest!: map_of_SomeD)

lemma readable_member:
  "readable rt rows \<Longrightarrow> (k, row) \<in> set rows \<Longrightarrow> fromDb rt (playerdata row) \<noteq> None"
  by (auto simp: readable_def list_all_iff)

text \<open>One turn of the guarded loop changes the file it looks at or the row of its
  identifier, and nothing else; it fails only on a row whose payload cannot be read.\<close>

lemma syncFile_v2_frame:
  assumes "syncFile_v2 rt sid f s = Inr s'"
  shows "now s' = now s"
    and "g \<noteq> f \<Longrightarrow> map_of (files s') g = map_of (files s) g"
    and "k \<noteq> playerfileid f \<Longrightarrow> map_of (playerData s') k = map_of (playerData s) k"
  using assms
  by (auto simp: syncFile_v2_def Let_def writeFile_simps upsertPlayerData_simps
      split: option.splits if_splits)

lemma syncFile_v2_rows:
  assumes "syncFile_v2 rt sid f s = Inr s'"
  shows "distinct (map fst (playerData s)) \<Longrightarrow> distinct (map fst (playerData s'))"
    and "(k, row) \<in> set (playerData s') \<Longrightarrow> k \<noteq> playerfileid f \<Longrightarrow> (k, row) \<in> set (playerData s)"
  using assms
  by (auto simp: syncFile_v2_def Let_def writeFile_def upsertPlayerData_def distinct_update
      split: option.splits if_splits dest: update_member_other)

lemma syncFile_v2_result:
  assumes "syncFile_v2 rt sid f s = Inr s'" "map_of (files s) f = Some fl"
  shows
"(fileWins fl (map_of (playerData s) (playerfileid f)) \<and> jsonParse rt (content fl) = None
      \<longrightarrow> map_of (playerData s') (playerfileid f)
            = map_of (playerData s) (playerfileid f)
          \<and> map_of (files s') f = Some fl)
   \<and> (fileWins fl (map_of (playerData s) (playerfileid f)) \<and> jsonParse rt (content fl) = Some doc
      \<longrightarrow> map_of (playerData s') (playerfileid f)
            = Some \<lparr>lastsave = now s, serversave = sid, playerdata = doc\<rparr>
          \<and> map_of (files s') f = Some fl)
   \<and> (\<not> fileWins fl (map_of (playerData s) (playerfileid f))
      \<longrightarrow> (\<exists>dbdata d. map_of (playerData s) (playerfileid f) = Some dbdata
             \<and> fromDb rt (playerdata dbdata) = Some d
             \<and> map_of (playerData s') (playerfileid f) = Some dbdata
             \<and> map_of (files s') f
                 = Some \<lparr>content = jsonStringify2 rt d, mtime = now s\<rparr>))"
  using assms
  by (auto simp: syncFile_v2_def Let_def writeFile_simps upsertPlayerData_simps fileWins_def
      split: option.splits if_splits)

lemma syncFile_v2_ok:
  assumes "map_of (files s) f = Some fl"
    and "\<forall>row. map_of (playerData s) (playerfileid f) = Some row
           \<longrightarrow> fromDb rt (playerdata row) \<noteq> None"
  shows "\<exists>s'. syncFile_v2 rt sid f s = Inr s'"
  using assms by (auto simp: syncFile_v2_def Let_def fileWins_def split: option.splits)

text \<open>The guarded loop: what it leaves alone, what it marks as processed, and when it
  reaches the end of the folder.\<close>

lemma fileLoop_v2_now:
  "fileLoop_v2 rt sid L P s = (e, P', s') \<Longrightarrow> now s' = now s"
proof (induction L arbitrary: P s)
  case Nil
  then show ?case by simp
next
  case (Cons f L)
  then show ?case
    by (auto split: if_splits sum.splits dest: syncFile_v2_frame(1))
qed

lemma fileLoop_v2_files:
  "fileLoop_v2 rt sid L P s = (e, P', s') \<Longrightarrow> g \<notin> set L
     \<Longrightarrow> map_of (files s') g = map_of (files s) g"
proof (induction L arbitrary: P s)
  case Nil
  then show ?case by simp
next
  case (Cons f L)
  show ?case
  proof (cases "\<not> endsWith f ''.json'' \<or> isSettingsFile f")
    case True
    with Cons show ?thesis by auto
  next
    case False
    show ?thesis
    proof (cases "syncFile_v2 rt sid f s")
      case (Inl err)
      with False Cons.prems show ?thesis by auto
    next
      case (Inr s1)
      with False Cons.prems
      have "fileLoop_v2 rt sid L (insert (playerfileid f) P) s1 = (e, P', s')" by auto
      from Cons.IH[OF this] Cons.prems(2) have "map_of (files s') g = map_of (files s1) g" by simp
      also from Cons.prems(2) have "\<dots> = map_of (files s) g"
        by (intro syncFile_v2_frame(2)[OF Inr]) auto
      finally show ?thesis .
    qed
  qed
qed

lemma fileLoop_v2_rows:
  "fileLoop_v2 rt sid L P s = (e, P', s')
     \<Longrightarrow> \<forall>g \<in> set L. endsWith g ''.json'' \<and> \<not> isSettingsFile g \<longrightarrow> playerfileid g \<noteq> k
     \<Longrightarrow> map_of (playerData s') k = map_of (playerData s) k"
proof (induction L arbitrary: P s)
  case Nil
  then show ?case by simp
next
  case (Cons f L)
  show ?case
  proof (cases "\<not> endsWith f ''.json'' \<or> isSettingsFile f")
    case True
    with Cons show ?thesis by auto
  next
    case False
    show ?thesis
    proof (cases "syncFile_v2 rt sid f s")
      case (Inl err)
      with False Cons.prems show ?thesis by auto
    next
      case (Inr s1)
      with False Cons.prems
      have "fileLoop_v2 rt sid L (insert (playerfileid f) P) s1 = (e, P', s')" by auto
      from Cons.IH[OF this] Cons.prems(2)
      have "map_of (playerData s') k = map_of (playerData s1) k" by simp
      also from Cons.prems(2) False have "\<dots> = map_of (playerData s) k"
        by (intro syncFile_v2_frame(3)[OF Inr]) auto
      finally show ?thesis .
    qed
  qed
qed

lemma fileLoop_v2_processed:
  "fileLoop_v2 rt sid L P s = (None, P', s')
     \<Longrightarrow> P' = P \<union> playerfileid ` {g \<in> set L. endsWith g ''.json'' \<and> \<not> isSettingsFile g}"
proof (induction L arbitrary: P s)
  case Nil
  then show ?case by simp
next
  case (Cons f L)
  show ?case
  proof (cases "\<not> endsWith f ''.json'' \<or> isSettingsFile f")
    case True
    with Cons.prems have "fileLoop_v2 rt sid L P s = (None, P', s')" by auto
    from Cons.IH[OF this] True show ?thesis by auto
  next
    case False
    with Cons.prems obtain s1 where
      rest: "fileLoop_v2 rt sid L (insert (playerfileid f) P) s1 = (None, P', s')"
      by (auto split: sum.splits)
    from Cons.IH[OF rest] False show ?thesis by auto
  qed
qed

lemma fileLoop_v2_table:
  "fileLoop_v2 rt sid L P s = (None, P', s')
     \<Longrightarrow> (distinct (map fst (playerData s)) \<longrightarrow> distinct (map fst (playerData s')))
       \<and> ((k, row) \<in> set (playerData s') \<and> k \<notin> P' \<longrightarrow> (k, row) \<in> set (playerData s))"
proof (induction L arbitrary: P s)
  case Nil
  then show ?case by simp
next
  case (Cons f L)
  show ?case
  proof (cases "\<not> endsWith f ''.json'' \<or> isSettingsFile f")
    case True
    with Cons.prems have "fileLoop_v2 rt sid L P s = (None, P', s')" by auto
    from Cons.IH[OF this] show ?thesis .
  next
    case False
    with Cons.prems obtain s1 where s1: "syncFile_v2 rt sid f s = Inr s1"
      and rest: "fileLoop_v2 rt sid L (insert (playerfileid f) P) s1 = (None, P', s')"
      by (auto split: sum.splits)
    from fileLoop_v2_processed[OF rest] have "playerfileid f \<in> P'" by simp
    with Cons.IH[OF rest] syncFile_v2_rows[OF s1] show ?thesis by blast
  qed
qed

lemma fileLoop_v2_completes:
  "distinct L
     \<Longrightarrow> \<forall>g \<in> set L. endsWith g ''.json'' \<and> \<not> isSettingsFile g \<longrightarrow> playerfileid g @ ''.json'' = g
     \<Longrightarrow> \<forall>g \<in> set L. endsWith g ''.json'' \<and> \<not> isSettingsFile g \<longrightarrow>
           (\<exists>gl. map_of (files s) g = Some gl)
           \<and> (\<forall>row. map_of (playerData s) (playerfileid g) = Some row
                 \<longrightarrow> fromDb rt (playerdata row) \<noteq> None)
     \<Longrightarrow> fst (fileLoop_v2 rt sid L P s) = None"
proof (induction L arbitrary: P s)
  case Nil
  then show ?case by simp
next
  case (Cons f L)
  show ?case
  proof (cases "\<not> endsWith f ''.json'' \<or> isSettingsFile f")
    case True
    with Cons show ?thesis by auto
  next
    case False
    with Cons.prems(3) obtain fl where "map_of (files s) f = Some fl"
      "\<forall>row. map_of (playerData s) (playerfileid f) = Some row
          \<longrightarrow> fromDb rt (playerdata row) \<noteq> None"
      by auto
    then obtain s1 where s1: "syncFile_v2 rt sid f s = Inr s1"
      using syncFile_v2_ok by blast
    from False Cons.prems(2) have fname: "playerfileid f @ ''.json'' = f" by simp
    have "\<forall>g \<in> set L. endsWith g ''.json'' \<and> \<not> isSettingsFile g \<longrightarrow>
           (\<exists>gl. map_of (files s1) g = Some gl)
           \<and> (\<forall>row. map_of (playerData s1) (playerfileid g) = Some row
                 \<longrightarrow> fromDb rt (playerdata row) \<noteq> None)"
    proof (intro ballI impI)
      fix g assume g: "g \<in> set L" "endsWith g ''.json'' \<and> \<not> isSettingsFile g"
      with Cons.prems(1) have ne: "g \<noteq> f" by auto
      from g Cons.prems(2) have "playerfileid g @ ''.json'' = g" by simp
      with fname ne have "playerfileid g \<noteq> playerfileid f" by auto
      then have r: "map_of (playerData s1) (playerfileid g) = map_of (playerData s) (playerfileid g)"
        by (rule syncFile_v2_frame(3)[OF s1])
      from ne have "map_of (files s1) g = map_of (files s) g" by (rule syncFile_v2_frame(2)[OF s1])
      with r Cons.prems(3) g
      show "(\<exists>gl. map_of (files s1) g = Some gl)
           \<and> (\<forall>row. map_of (playerData s1) (playerfileid g) = Some row
                 \<longrightarrow> fromDb rt (playerdata row) \<noteq> None)"
        by simp
    qed
    with Cons.IH[of s1 "insert (playerfileid f) P"] Cons.prems(1,2)
    have "fst (fileLoop_v2 rt sid L (insert (playerfileid f) P) s1) = None" by simp
    with False s1 show ?thesis by simp
  qed
qed

lemma fileLoop_v2_file:
  assumes "distinct L"
    and "\<forall>g \<in> set L. endsWith g ''.json'' \<and> \<not> isSettingsFile g \<longrightarrow> playerfileid g @ ''.json'' = g"
    and "fileLoop_v2 rt sid L P s = (None, P', s')"
    and "f \<in> set L" "endsWith f ''.json'' \<and> \<not> isSettingsFile f" "map_of (files s) f = Some fl"
  shows
"(fileWins fl (map_of (playerData s) (playerfileid f)) \<and> jsonParse rt (content fl) = None
      \<longrightarrow> map_of (playerData s') (playerfileid f)
            = map_of (playerData s) (playerfileid f)
          \<and> map_of (files s') f = Some fl)
   \<and> (fileWins fl (map_of (playerData s) (playerfileid f)) \<and> jsonParse rt (content fl) = Some doc
      \<longrightarrow> map_of (playerData s') (playerfileid f)
            = Some \<lparr>lastsave = now s, serversave = sid, playerdata = doc\<rparr>
          \<and> map_of (files s') f = Some fl)
   \<and> (\<not> fileWins fl (map_of (playerData s) (playerfileid f))
      \<longrightarrow> (\<exists>dbdata d. map_of (playerData s) (playerfileid f) = Some dbdata
             \<and> fromDb rt (playerdata dbdata) = Some d
             \<and> map_of (playerData s') (playerfileid f) = Some dbdata
             \<and> map_of (files s') f
                 = Some \<lparr>content = jsonStringify2 rt d, mtime = now s\<rparr>))"
  using assms
proof (induction L arbitrary: P s)
  case Nil
  then show ?case by simp
next
  case (Cons g L)
  have other: "playerfileid h \<noteq> playerfileid f"
    if "h \<in> set (g # L)" "endsWith h ''.json'' \<and> \<not> isSettingsFile h" "h \<noteq> f" for h
  proof
    assume "playerfileid h = playerfileid f"
    moreover from that Cons.prems(2) have "playerfileid h @ ''.json'' = h" by blast
    moreover from Cons.prems(2,4,5) have "playerfileid f @ ''.json'' = f" by blast
    ultimately show False using that(3) by simp
  qed
  show ?case
  proof (cases "g = f")
    case True
    with Cons.prems obtain s1 where s1: "syncFile_v2 rt sid f s = Inr s1"
      and rest: "fileLoop_v2 rt sid L (insert (playerfileid f) P) s1 = (None, P', s')"
      by (auto split: sum.splits)
    from True Cons.prems(1) have notin: "f \<notin> set L" by simp
    have keep_f: "map_of (files s') f = map_of (files s1) f"
      by (rule fileLoop_v2_files[OF rest notin])
    have "\<forall>h \<in> set L. endsWith h ''.json'' \<and> \<not> isSettingsFile h \<longrightarrow> playerfileid h \<noteq> playerfileid f"
      using other notin by auto
    then have keep_r: "map_of (playerData s') (playerfileid f) = map_of (playerData s1) (playerfileid f)"
      by (rule fileLoop_v2_rows[OF rest])
    from syncFile_v2_result[OF s1 Cons.prems(6), of doc] show ?thesis
      by (simp only: keep_f keep_r)
  next
    case False
    with Cons.prems(4) have fL: "f \<in> set L" by simp
    from Cons.prems(1) have dL: "distinct L" by simp
    from Cons.prems(2)
    have nL: "\<forall>g \<in> set L. endsWith g ''.json'' \<and> \<not> isSettingsFile g \<longrightarrow> playerfileid g @ ''.json'' = g"
      by simp
    show ?thesis
    proof (cases "\<not> endsWith g ''.json'' \<or> isSettingsFile g")
      case nojson: True
      with Cons.prems(3) have "fileLoop_v2 rt sid L P s = (None, P', s')" by auto
      from Cons.IH[OF dL nL this fL Cons.prems(5,6)] show ?thesis .
    next
      case json: False
      with Cons.prems(3) obtain s1 where s1: "syncFile_v2 rt sid g s = Inr s1"
        and rest: "fileLoop_v2 rt sid L (insert (playerfileid g) P) s1 = (None, P', s')"
        by (auto split: sum.splits)
      from False have f1: "map_of (files s1) f = map_of (files s) f"
        by (intro syncFile_v2_frame(2)[OF s1]) simp
      from other[of g] json False
      have r1: "map_of (playerData s1) (playerfileid f) = map_of (playerData s) (playerfileid f)"
        by (intro syncFile_v2_frame(3)[OF s1]) auto
      have n1: "now s1 = now s" by (rule syncFile_v2_frame(1)[OF s1])
      from Cons.prems(6) f1 have "map_of (files s1) f = Some fl" by simp
      from Cons.IH[OF dL nL rest fL Cons.prems(5) this] show ?thesis
        by (simp only: r1 n1)
    qed
  qed
qed

text \<open>The second loop: it leaves the table alone, writes only the files of rows it does not
  pass over, ends on a payload it cannot read, and otherwise writes the file of every row
  it does not pass over.\<close>

lemma catchup_v2_frame:
  "playerData (snd (catchup_v2 rt rows P s)) = playerData s
   \<and> now (snd (catchup_v2 rt rows P s)) = now s"
proof (induction rows arbitrary: s)
  case Nil
  then show ?case by simp
next
  case (Cons r rows)
  obtain k r' where r: "r = (k, r')" by (cases r)
  show ?case
  proof (cases "\<not> isSteamID k \<or> toLowerCase k = ''serversettings'' \<or> k \<in> P")
    case True
    with Cons r show ?thesis by auto
  next
    case False
    show ?thesis
    proof (cases "fromDb rt (playerdata r')")
      case None
      with False r show ?thesis by simp
    next
      case (Some doc)
      with False r Cons.IH[of "writeFile (k @ ''.json'') (jsonStringify2 rt doc) s"]
      show ?thesis by (simp add: writeFile_simps)
    qed
  qed
qed

lemma catchup_v2_other:
  "\<forall>k \<in> fst ` set rows. isSteamID k \<and> k \<notin> P \<longrightarrow> k @ ''.json'' \<noteq> f
     \<Longrightarrow> map_of (files (snd (catchup_v2 rt rows P s))) f = map_of (files s) f"
proof (induction rows arbitrary: s)
  case Nil
  then show ?case by simp
next
  case (Cons r rows)
  obtain k r' where r: "r = (k, r')" by (cases r)
  from Cons.prems have rest: "\<forall>k \<in> fst ` set rows. isSteamID k \<and> k \<notin> P \<longrightarrow> k @ ''.json'' \<noteq> f"
    by simp
  show ?case
  proof (cases "\<not> isSteamID k \<or> toLowerCase k = ''serversettings'' \<or> k \<in> P")
    case True
    with Cons.IH[OF rest] r show ?thesis by auto
  next
    case False
    with Cons.prems r have ne: "k @ ''.json'' \<noteq> f" by simp
    show ?thesis
    proof (cases "fromDb rt (playerdata r')")
      case None
      with False r show ?thesis by simp
    next
      case (Some doc)
      with False r Cons.IH[OF rest, of "writeFile (k @ ''.json'') (jsonStringify2 rt doc) s"] ne
      show ?thesis by (simp add: writeFile_simps)
    qed
  qed
qed

lemma catchup_v2_completes:
  "\<forall>(k, row) \<in> set rows. isSteamID k \<and> k \<notin> P \<longrightarrow> fromDb rt (playerdata row) \<noteq> None
     \<Longrightarrow> fst (catchup_v2 rt rows P s) = None"
proof (induction rows arbitrary: s)
  case Nil
  then show ?case by simp
next
  case (Cons r rows)
  obtain k r' where r: "r = (k, r')" by (cases r)
  from Cons.prems
  have rest: "\<forall>(k, row) \<in> set rows. isSteamID k \<and> k \<notin> P \<longrightarrow> fromDb rt (playerdata row) \<noteq> None"
    by simp
  show ?case
  proof (cases "\<not> isSteamID k \<or> toLowerCase k = ''serversettings'' \<or> k \<in> P")
    case True
    with Cons.IH[OF rest] r show ?thesis by auto
  next
    case False
    with Cons.prems r obtain doc where "fromDb rt (playerdata r') = Some doc" by auto
    with False r Cons.IH[OF rest, of "writeFile (k @ ''.json'') (jsonStringify2 rt doc) s"]
    show ?thesis by simp
  qed
qed

lemma catchup_v2_writes:
  "distinct (map fst rows) \<Longrightarrow> (k, row) \<in> set rows \<Longrightarrow> isSteamID k \<Longrightarrow> k \<notin> P
     \<Longrightarrow> fromDb rt (playerdata row) = Some d
     \<Longrightarrow> fst (catchup_v2 rt rows P s) = None
     \<Longrightarrow> map_of (files (snd (catchup_v2 rt rows P s))) (k @ ''.json'')
         = Some \<lparr>content = jsonStringify2 rt d, mtime = now s\<rparr>"
proof (induction rows arbitrary: s)
  case Nil
  then show ?case by simp
next
  case (Cons r rows)
  obtain k' row' where r: "r = (k', row')" by (cases r)
  show ?case
  proof (cases "k' = k")
    case True
    with Cons.prems(1,2) r have same: "row' = row" and notin: "k \<notin> fst ` set rows"
      by (auto simp: image_iff)
    from Cons.prems(3) have ns: "toLowerCase k \<noteq> ''serversettings''"
      using isSteamID_not_settings by blast
    let ?s1 = "writeFile (k @ ''.json'') (jsonStringify2 rt d) s"
    from notin have "\<forall>j \<in> fst ` set rows. isSteamID j \<and> j \<notin> P \<longrightarrow> j @ ''.json'' \<noteq> k @ ''.json''"
      by auto
    from catchup_v2_other[OF this, of rt ?s1]
    have "map_of (files (snd (catchup_v2 rt rows P ?s1))) (k @ ''.json'')
            = Some \<lparr>content = jsonStringify2 rt d, mtime = now s\<rparr>"
      by (simp add: writeFile_simps)
    with True same r Cons.prems(3,4,5) ns show ?thesis by simp
  next
    case False
    with Cons.prems(2) r have mem: "(k, row) \<in> set rows" by simp
    from Cons.prems(1) have dr: "distinct (map fst rows)" by simp
    show ?thesis
    proof (cases "\<not> isSteamID k' \<or> toLowerCase k' = ''serversettings'' \<or> k' \<in> P")
      case True
      with r Cons.prems(6) have "fst (catchup_v2 rt rows P s) = None"
        by (auto split: if_splits)
      from Cons.IH[OF dr mem Cons.prems(3,4,5) this] True r show ?thesis by auto
    next
      case skip: False
      with r Cons.prems(6) obtain d' where d': "fromDb rt (playerdata row') = Some d'"
        by (cases "fromDb rt (playerdata row')") auto
      let ?s1 = "writeFile (k' @ ''.json'') (jsonStringify2 rt d') s"
      from skip r d' Cons.prems(6) have "fst (catchup_v2 rt rows P ?s1) = None" by simp
      from Cons.IH[OF dr mem Cons.prems(3,4,5) this] skip r d' show ?thesis
        by (simp add: writeFile_simps)
    qed
  qed
qed

text \<open>The whole sweep of \<^verbatim>\<open>part_001\<close> on a folder whose entity files are named by their
  identifiers.\<close>

lemma sweep_v2_core:
  assumes dF: "distinct (map fst (files s))" and dR: "distinct (map fst (playerData s))"
    and names: "\<forall>g \<in> set (readdir s). endsWith g ''.json'' \<and> \<not> isSettingsFile g \<longrightarrow> playerfileid g @ ''.json'' = g"
    and rd: "readable rt (playerData s)"
  shows "fst (syncKothFiles_v2 rt sid s) = None"
    and "endsWith f ''.json'' \<and> \<not> isSettingsFile f \<Longrightarrow> map_of (files s) f = Some fl \<Longrightarrow>
     (fileWins fl (map_of (playerData s) (playerfileid f)) \<and> jsonParse rt (content fl) = None
        \<longrightarrow> map_of (playerData (snd (syncKothFiles_v2 rt sid s))) (playerfileid f)
              = map_of (playerData s) (playerfileid f)
            \<and> map_of (files (snd (syncKothFiles_v2 rt sid s))) f = Some fl)
     \<and> (fileWins fl (map_of (playerData s) (playerfileid f)) \<and> jsonParse rt (content fl) = Some doc
        \<longrightarrow> map_of (playerData (snd (syncKothFiles_v2 rt sid s))) (playerfileid f)
              = Some \<lparr>lastsave = now s, serversave = sid, playerdata = doc\<rparr>
            \<and> map_of (files (snd (syncKothFiles_v2 rt sid s))) f = Some fl)
     \<and> (\<not> fileWins fl (map_of (playerData s) (playerfileid f))
        \<longrightarrow> (\<exists>dbdata d. map_of (playerData s) (playerfileid f) = Some dbdata
               \<and> fromDb rt (playerdata dbdata) = Some d
               \<and> map_of (playerData (snd (syncKothFiles_v2 rt sid s))) (playerfileid f) = Some dbdata
               \<and> map_of (files (snd (syncKothFiles_v2 rt sid s))) f
                   = Some \<lparr>content = jsonStringify2 rt d, mtime = now s\<rparr>))"
    and "map_of (playerData s) k = Some row \<Longrightarrow> isSteamID k
         \<Longrightarrow> map_of (files s) (k @ ''.json'') = None \<Longrightarrow>
     (\<exists>d. fromDb rt (playerdata row) = Some d
        \<and> map_of (files (snd (syncKothFiles_v2 rt sid s))) (k @ ''.json'')
            = Some \<lparr>content = jsonStringify2 rt d, mtime = now s\<rparr>)"
proof -
  let ?L = "readdir s"
  have dL: "distinct ?L" using dF by (simp add: readdir_def)
  have ex: "\<forall>g \<in> set ?L. endsWith g ''.json'' \<and> \<not> isSettingsFile g \<longrightarrow>
           (\<exists>gl. map_of (files s) g = Some gl)
           \<and> (\<forall>row. map_of (playerData s) (playerfileid g) = Some row
                 \<longrightarrow> fromDb rt (playerdata row) \<noteq> None)"
  proof (intro ballI impI conjI allI)
    fix g assume "g \<in> set ?L"
    then have "map_of (files s) g \<noteq> None"
      by (simp add: readdir_def map_of_eq_None_iff)
    then show "\<exists>gl. map_of (files s) g = Some gl" by auto
  next
    fix g row assume "map_of (playerData s) (playerfileid g) = Some row"
    with rd show "fromDb rt (playerdata row) \<noteq> None" by (rule readable_lookup)
  qed
  from fileLoop_v2_completes[OF dL names ex, of sid "{}"]
  obtain P' s1 where loop: "fileLoop_v2 rt sid ?L {} s = (None, P', s1)"
    by (cases "fileLoop_v2 rt sid ?L {} s") auto
  from fileLoop_v2_processed[OF loop]
  have P': "P' = playerfileid ` {g \<in> set ?L. endsWith g ''.json'' \<and> \<not> isSettingsFile g}" by simp
  have n1: "now s1 = now s" by (rule fileLoop_v2_now[OF loop])
  have d1: "distinct (map fst (playerData s1))"
    using fileLoop_v2_table[OF loop] dR by blast
  have old: "(j, r) \<in> set (playerData s)" if "(j, r) \<in> set (playerData s1)" "j \<notin> P'" for j r
    using fileLoop_v2_table[OF loop, of j r] that by blast
  have "\<forall>(j, r) \<in> set (playerData s1). isSteamID j \<and> j \<notin> P' \<longrightarrow> fromDb rt (playerdata r) \<noteq> None"
    using old readable_member[OF rd] by blast
  then have fin: "fst (catchup_v2 rt (playerData s1) P' s1) = None"
    by (rule catchup_v2_completes)
  have sweep: "syncKothFiles_v2 rt sid s = catchup_v2 rt (playerData s1) P' s1"
    by (simp add: syncKothFiles_v2_def loop)
  from fin sweep show "fst (syncKothFiles_v2 rt sid s) = None" by simp
  have rows': "playerData (snd (syncKothFiles_v2 rt sid s)) = playerData s1"
    by (simp add: sweep catchup_v2_frame)
  {
    assume f: "endsWith f ''.json'' \<and> \<not> isSettingsFile f" and fl: "map_of (files s) f = Some fl"
    from fl have fL: "f \<in> set ?L"
      by (auto simp: readdir_def dest: map_of_SomeD intro: rev_image_eqI)
    with names f have fname: "playerfileid f @ ''.json'' = f" by blast
    from fL f have inP: "playerfileid f \<in> P'" by (auto simp: P')
    have "\<forall>j \<in> fst ` set (playerData s1). isSteamID j \<and> j \<notin> P' \<longrightarrow> j @ ''.json'' \<noteq> f"
      using fname inP by auto
    then have files': "map_of (files (snd (syncKothFiles_v2 rt sid s))) f = map_of (files s1) f"
      by (simp add: sweep catchup_v2_other)
    from fileLoop_v2_file[OF dL names loop fL f fl, of doc]
    show
"     (fileWins fl (map_of (playerData s) (playerfileid f)) \<and> jsonParse rt (content fl) = None
        \<longrightarrow> map_of (playerData (snd (syncKothFiles_v2 rt sid s))) (playerfileid f)
              = map_of (playerData s) (playerfileid f)
            \<and> map_of (files (snd (syncKothFiles_v2 rt sid s))) f = Some fl)
     \<and> (fileWins fl (map_of (playerData s) (playerfileid f)) \<and> jsonParse rt (content fl) = Some doc
        \<longrightarrow> map_of (playerData (snd (syncKothFiles_v2 rt sid s))) (playerfileid f)
              = Some \<lparr>lastsave = now s, serversave = sid, playerdata = doc\<rparr>
            \<and> map_of (files (snd (syncKothFiles_v2 rt sid s))) f = Some fl)
     \<and> (\<not> fileWins fl (map_of (playerData s) (playerfileid f))
        \<longrightarrow> (\<exists>dbdata d. map_of (playerData s) (playerfileid f) = Some dbdata
               \<and> fromDb rt (playerdata dbdata) = Some d
               \<and> map_of (playerData (snd (syncKothFiles_v2 rt sid s))) (playerfileid f) = Some dbdata
               \<and> map_of (files (snd (syncKothFiles_v2 rt sid s))) f
                   = Some \<lparr>content = jsonStringify2 rt d, mtime = now s\<rparr>))"
      by (simp only: rows' files')
  }
  {
    assume row: "map_of (playerData s) k = Some row" and id: "isSteamID k"
      and nofile: "map_of (files s) (k @ ''.json'') = None"
    have notP: "k \<notin> P'"
    proof
      assume "k \<in> P'"
      then obtain g where g: "g \<in> set ?L" "endsWith g ''.json'' \<and> \<not> isSettingsFile g" "playerfileid g = k"
        by (auto simp: P')
      with names have "k @ ''.json'' = g" by auto
      with g(1) have "map_of (files s) (k @ ''.json'') \<noteq> None"
        by (simp add: readdir_def map_of_eq_None_iff)
      with nofile show False by simp
    qed
    then have "\<forall>g \<in> set ?L. endsWith g ''.json'' \<and> \<not> isSettingsFile g \<longrightarrow> playerfileid g \<noteq> k"
      by (auto simp: P')
    from fileLoop_v2_rows[OF loop this] row have "map_of (playerData s1) k = Some row" by simp
    then have mem: "(k, row) \<in> set (playerData s1)" by (rule map_of_SomeD)
    from rd row obtain d where d: "fromDb rt (playerdata row) = Some d"
      using readable_lookup by fastforce
    from catchup_v2_writes[OF d1 mem id notP d fin] d
    show
"     (\<exists>d. fromDb rt (playerdata row) = Some d
        \<and> map_of (files (snd (syncKothFiles_v2 rt sid s))) (k @ ''.json'')
            = Some \<lparr>content = jsonStringify2 rt d, mtime = now s\<rparr>)"
      by (simp add: sweep n1)
  }
qed

text \<open>
  Claim C2, as amended. In the variants that guard the parse of each file (\<^verbatim>\<open>part_001\<close>
  and \<^verbatim>\<open>part_002\<close>), take a folder whose entity files are named by their identifiers and
  a table whose payloads can be read back. Whatever the files hold, malformed text
  included, the sweep runs through both loops to its end, and
  \<^item> an entity file that is due to be pushed and does not parse is passed over: its row
    (or its absence) and the file are after the sweep what they were before;
  \<^item> every entity file that is due to be pushed and parses has its document in its row,
    with \<open>lastsave\<close> the time of the sweep, and is itself unchanged;
  \<^item> every entity file that is not due to be pushed holds the printed payload of its row,
    which is unchanged;
  \<^item> every row with a seventeen-digit identifier and no file has its file written from
    its payload.
\<close>

theorem sweep_v2_survives_malformed_files:
  assumes sweep: "sweep = syncKothFiles_v2 \<or> sweep = syncKothFiles_v3"
    and dF: "distinct (map fst (files s))" and dR: "distinct (map fst (playerData s))"
    and names: "\<forall>g \<in> set (readdir s). endsWith g ''.json'' \<and> \<not> isSettingsFile g \<longrightarrow> playerfileid g @ ''.json'' = g"
    and rd: "readable rt (playerData s)"
  shows "fst (sweep rt sid s) = None
   \<and> (endsWith f ''.json'' \<and> \<not> isSettingsFile f \<and> map_of (files s) f = Some fl \<longrightarrow>
       (fileWins fl (map_of (playerData s) (playerfileid f)) \<and> jsonParse rt (content fl) = None
          \<longrightarrow> map_of (playerData (snd (sweep rt sid s))) (playerfileid f)
                = map_of (playerData s) (playerfileid f)
              \<and> map_of (files (snd (sweep rt sid s))) f = Some fl)
       \<and> (fileWins fl (map_of (playerData s) (playerfileid f)) \<and> jsonParse rt (content fl) = Some doc
          \<longrightarrow> map_of (playerData (snd (sweep rt sid s))) (playerfileid f)
                = Some \<lparr>lastsave = now s, serversave = sid, playerdata = doc\<rparr>
              \<and> map_of (files (snd (sweep rt sid s))) f = Some fl)
       \<and> (\<not> fileWins fl (map_of (playerData s) (playerfileid f))
          \<longrightarrow> (\<exists>dbdata d. map_of (playerData s) (playerfileid f) = Some dbdata
                 \<and> fromDb rt (playerdata dbdata) = Some d
                 \<and> map_of (playerData (snd (sweep rt sid s))) (playerfileid f) = Some dbdata
                 \<and> map_of (files (snd (sweep rt sid s))) f
                     = Some \<lparr>content = jsonStringify2 rt d, mtime = now s\<rparr>)))
   \<and> (map_of (playerData s) k = Some row \<and> isSteamID k \<and> map_of (files s) (k @ ''.json'') = None \<longrightarrow>
       (\<exists>d. fromDb rt (playerdata row) = Some d
          \<and> map_of (files (snd (sweep rt sid s))) (k @ ''.json'')
              = Some \<lparr>content = jsonStringify2 rt d, mtime = now s\<rparr>))"
proof -
  have v2: "fst (syncKothFiles_v2 rt sid s0) = None
   \<and> (endsWith f ''.json'' \<and> \<not> isSettingsFile f \<and> map_of (files s0) f = Some fl \<longrightarrow>
       (fileWins fl (map_of (playerData s0) (playerfileid f)) \<and> jsonParse rt (content fl) = None
          \<longrightarrow> map_of (playerData (snd (syncKothFiles_v2 rt sid s0))) (playerfileid f)
                = map_of (playerData s0) (playerfileid f)
              \<and> map_of (files (snd (syncKothFiles_v2 rt sid s0))) f = Some fl)
       \<and> (fileWins fl (map_of (playerData s0) (playerfileid f)) \<and> jsonParse rt (content fl) = Some doc
          \<longrightarrow> map_of (playerData (snd (syncKothFiles_v2 rt sid s0))) (playerfileid f)
                = Some \<lparr>lastsave = now s0, serversave = sid, playerdata = doc\<rparr>
              \<and> map_of (files (snd (syncKothFiles_v2 rt sid s0))) f = Some fl)
       \<and> (\<not> fileWins fl (map_of (playerData s0) (playerfileid f))
          \<longrightarrow> (\<exists>dbdata d. map_of (playerData s0) (playerfileid f) = Some dbdata
                 \<and> fromDb rt (playerdata dbdata) = Some d
                 \<and> map_of (playerData (snd (syncKothFiles_v2 rt sid s0))) (playerfileid f) = Some dbdata
                 \<and> map_of (files (snd (syncKothFiles_v2 rt sid s0))) f
                     = Some \<lparr>content = jsonStringify2 rt d, mtime = now s0\<rparr>)))
   \<and> (map_of (playerData s0) k = Some row \<and> isSteamID k \<and> map_of (files s0) (k @ ''.json'') = None \<longrightarrow>
       (\<exists>d. fromDb rt (playerdata row) = Some d
          \<and> map_of (files (snd (syncKothFiles_v2 rt sid s0))) (k @ ''.json'')
              = Some \<lparr>content = jsonStringify2 rt d, mtime = now s0\<rparr>))"
    if h: "distinct (map fst (files s0))" "distinct (map fst (playerData s0))"
      "\<forall>g \<in> set (readdir s0). endsWith g ''.json'' \<and> \<not> isSettingsFile g \<longrightarrow> playerfileid g @ ''.json'' = g"
      "readable rt (playerData s0)" for s0
    using sweep_v2_core(1)[OF h, of sid] sweep_v2_core(2)[OF h, of f fl sid doc]
      sweep_v2_core(3)[OF h, of k row sid]
    by blast
  show ?thesis
  proof (cases "sweep = syncKothFiles_v2")
    case True
    with v2[OF dF dR names rd] show ?thesis by simp
  next
    case False
    with sweep have sw: "sweep = syncKothFiles_v3" by simp
    show ?thesis
    proof (cases "map_of (playerData s) ''ServerSettings''")
      case None
      then have "syncKothFiles_v3 rt sid s = syncKothFiles_v2 rt sid s"
        by (simp add: syncKothFiles_v3_def)
      with v2[OF dF dR names rd] sw show ?thesis by simp
    next
      case (Some serverSettings)
      with rd obtain serverData where sd: "fromDb rt (playerdata serverSettings) = Some serverData"
        using readable_lookup by fastforce
      define s0 where "s0 = writeFile ''ServerSettings.json'' (jsonStringify2 rt serverData) s"
      have eq: "sweep rt sid s = syncKothFiles_v2 rt sid s0"
        by (simp add: sw syncKothFiles_v3_def Some sd s0_def)
      have p0: "playerData s0 = playerData s" "now s0 = now s"
        by (simp_all add: s0_def writeFile_simps)
      have f0: "map_of (files s0) g = map_of (files s) g" if "g \<noteq> ''ServerSettings.json''" for g
        using that by (simp add: s0_def writeFile_simps)
      have dF0: "distinct (map fst (files s0))"
        using dF by (simp add: s0_def writeFile_def distinct_update)
      have dR0: "distinct (map fst (playerData s0))" using dR by (simp add: p0)
      have rd0: "readable rt (playerData s0)" using rd by (simp add: p0)
      have names0: "\<forall>g \<in> set (readdir s0). endsWith g ''.json'' \<and> \<not> isSettingsFile g \<longrightarrow> playerfileid g @ ''.json'' = g"
      proof (intro ballI impI)
        fix g assume g: "g \<in> set (readdir s0)" "endsWith g ''.json'' \<and> \<not> isSettingsFile g"
        then have "g \<noteq> ''ServerSettings.json''" by (auto simp: isSettingsFile_def)
        with g(1) have "g \<in> set (readdir s)"
          by (auto simp: readdir_def s0_def writeFile_def dom_update)
        with names g(2) show "playerfileid g @ ''.json'' = g" by blast
      qed
      note core = v2[OF dF0 dR0 names0 rd0]
      have a: "fst (sweep rt sid s) = None" using core by (simp add: eq)
      have b: "endsWith f ''.json'' \<and> \<not> isSettingsFile f \<and> map_of (files s) f = Some fl \<longrightarrow>
       (fileWins fl (map_of (playerData s) (playerfileid f)) \<and> jsonParse rt (content fl) = None
          \<longrightarrow> map_of (playerData (snd (sweep rt sid s))) (playerfileid f)
                = map_of (playerData s) (playerfileid f)
              \<and> map_of (files (snd (sweep rt sid s))) f = Some fl)
       \<and> (fileWins fl (map_of (playerData s) (playerfileid f)) \<and> jsonParse rt (content fl) = Some doc
          \<longrightarrow> map_of (playerData (snd (sweep rt sid s))) (playerfileid f)
                = Some \<lparr>lastsave = now s, serversave = sid, playerdata = doc\<rparr>
              \<and> map_of (files (snd (sweep rt sid s))) f = Some fl)
       \<and> (\<not> fileWins fl (map_of (playerData s) (playerfileid f))
          \<longrightarrow> (\<exists>dbdata d. map_of (playerData s) (playerfileid f) = Some dbdata
                 \<and> fromDb rt (playerdata dbdata) = Some d
                 \<and> map_of (playerData (snd (sweep rt sid s))) (playerfileid f) = Some dbdata
                 \<and> map_of (files (snd (sweep rt sid s))) f
                     = Some \<lparr>content = jsonStringify2 rt d, mtime = now s\<rparr>))"
      proof
        assume f: "endsWith f ''.json'' \<and> \<not> isSettingsFile f \<and> map_of (files s) f = Some fl"
        then have "f \<noteq> ''ServerSettings.json''" by (auto simp: isSettingsFile_def)
        with f have "endsWith f ''.json'' \<and> \<not> isSettingsFile f \<and> map_of (files s0) f = Some fl" by (simp add: f0)
        with core have
"       (fileWins fl (map_of (playerData s0) (playerfileid f)) \<and> jsonParse rt (content fl) = None
          \<longrightarrow> map_of (playerData (snd (syncKothFiles_v2 rt sid s0))) (playerfileid f)
                = map_of (playerData s0) (playerfileid f)
              \<and> map_of (files (snd (syncKothFiles_v2 rt sid s0))) f = Some fl)
       \<and> (fileWins fl (map_of (playerData s0) (playerfileid f)) \<and> jsonParse rt (content fl) = Some doc
          \<longrightarrow> map_of (playerData (snd (syncKothFiles_v2 rt sid s0))) (playerfileid f)
                = Some \<lparr>lastsave = now s0, serversave = sid, playerdata = doc\<rparr>
              \<and> map_of (files (snd (syncKothFiles_v2 rt sid s0))) f = Some fl)
       \<and> (\<not> fileWins fl (map_of (playerData s0) (playerfileid f))
          \<longrightarrow> (\<exists>dbdata d. map_of (playerData s0) (playerfileid f) = Some dbdata
                 \<and> fromDb rt (playerdata dbdata) = Some d
                 \<and> map_of (playerData (snd (syncKothFiles_v2 rt sid s0))) (playerfileid f) = Some dbdata
                 \<and> map_of (files (snd (syncKothFiles_v2 rt sid s0))) f
                     = Some \<lparr>content = jsonStringify2 rt d, mtime = now s0\<rparr>))"
          by blast
        then show
"       (fileWins fl (map_of (playerData s) (playerfileid f)) \<and> jsonParse rt (content fl) = None
          \<longrightarrow> map_of (playerData (snd (sweep rt sid s))) (playerfileid f)
                = map_of (playerData s) (playerfileid f)
              \<and> map_of (files (snd (sweep rt sid s))) f = Some fl)
       \<and> (fileWins fl (map_of (playerData s) (playerfileid f)) \<and> jsonParse rt (content fl) = Some doc
          \<longrightarrow> map_of (playerData (snd (sweep rt sid s))) (playerfileid f)
                = Some \<lparr>lastsave = now s, serversave = sid, playerdata = doc\<rparr>
              \<and> map_of (files (snd (sweep rt sid s))) f = Some fl)
       \<and> (\<not> fileWins fl (map_of (playerData s) (playerfileid f))
          \<longrightarrow> (\<exists>dbdata d. map_of (playerData s) (playerfileid f) = Some dbdata
                 \<and> fromDb rt (playerdata dbdata) = Some d
                 \<and> map_of (playerData (snd (sweep rt sid s))) (playerfileid f) = Some dbdata
                 \<and> map_of (files (snd (sweep rt sid s))) f
                     = Some \<lparr>content = jsonStringify2 rt d, mtime = now s\<rparr>))"
          by (simp only: p0 eq)
      qed
      have c: "map_of (playerData s) k = Some row \<and> isSteamID k \<and> map_of (files s) (k @ ''.json'') = None \<longrightarrow>
       (\<exists>d. fromDb rt (playerdata row) = Some d
          \<and> map_of (files (snd (sweep rt sid s))) (k @ ''.json'')
              = Some \<lparr>content = jsonStringify2 rt d, mtime = now s\<rparr>)"
      proof
        assume k: "map_of (playerData s) k = Some row \<and> isSteamID k \<and> map_of (files s) (k @ ''.json'') = None"
        then have "k \<noteq> ''ServerSettings''" by (auto simp: isSteamID_def)
        then have "k @ ''.json'' \<noteq> ''ServerSettings.json''" by auto
        with k have "map_of (playerData s0) k = Some row \<and> isSteamID k \<and> map_of (files s0) (k @ ''.json'') = None"
          by (simp add: f0 p0)
        with core have
"       (\<exists>d. fromDb rt (playerdata row) = Some d
          \<and> map_of (files (snd (syncKothFiles_v2 rt sid s0))) (k @ ''.json'')
              = Some \<lparr>content = jsonStringify2 rt d, mtime = now s0\<rparr>)"
          by blast
        then show
"       (\<exists>d. fromDb rt (playerdata row) = Some d
          \<and> map_of (files (snd (sweep rt sid s))) (k @ ''.json'')
              = Some \<lparr>content = jsonStringify2 rt d, mtime = now s\<rparr>)"
          by (simp only: p0 eq)
      qed
      from a b c show ?thesis by (intro conjI)
    qed
  qed
qed

text \<open>The sweep of \<^verbatim>\<open>src/DBKoth.js\<close> has the handler around the whole pass only: on the
  same kind of folder the malformed first file ends it. The second file is not pushed and
  the row without a file gets none.\<close>

theorem sweep_v1_malformed_file_counterexample:
  \<open>sampleParse ''{"hp":'' = None
   \<and> syncKothFiles_v1 sampleRuntime 1
      (emptyWorld\<lparr>files := [(''76561198000000001.json'', \<lparr>content = ''{"hp":'', mtime = 5\<rparr>),
                            (''76561198000000002.json'', \<lparr>content = ''{"hp":100}'', mtime = 5\<rparr>)],
                  playerData := [(''76561198000000003'', \<lparr>lastsave = 0, serversave = 2,
                                    playerdata = JObj [(''score'', JNum 5)]\<rparr>)]\<rparr>)
    = (Some (BadFile ''76561198000000001.json''),
       emptyWorld\<lparr>files := [(''76561198000000001.json'', \<lparr>content = ''{"hp":'', mtime = 5\<rparr>),
                            (''76561198000000002.json'', \<lparr>content = ''{"hp":100}'', mtime = 5\<rparr>)],
                  playerData := [(''76561198000000003'', \<lparr>lastsave = 0, serversave = 2,
                                    playerdata = JObj [(''score'', JNum 5)]\<rparr>)]\<rparr>)\<close>
  by (simp add: syncKothFiles_v1_def readdir_def emptyWorld_def endsWith_def suffix_def
        syncFile_v1_def playerfileid_def fileWins_def Let_def)

theorem sweep_v2_survives_malformed_files_witness:
  \<open>fst (syncKothFiles_v2 sampleRuntime 1 (emptyWorld\<lparr>files :=
          [(''76561198000000001.json'', \<lparr>content = ''{"hp":'', mtime = 5\<rparr>),
           (''76561198000000002.json'', \<lparr>content = ''{"hp":100}'', mtime = 5\<rparr>),
           (''76561198000000004.json'', \<lparr>content = ''{"hp":100}'', mtime = 5\<rparr>)],
        playerData :=
          [(''ServerSettings'',
            \<lparr>lastsave = 0, serversave = 2, playerdata = JObj [(''score'', JNum 5)]\<rparr>),
           (''76561198000000003'',
            \<lparr>lastsave = 0, serversave = 2, playerdata = JObj [(''hp'', JNum 100)]\<rparr>),
           (''76561198000000004'',
            \<lparr>lastsave = 900, serversave = 2, playerdata = JObj [(''score'', JNum 5)]\<rparr>)]\<rparr>)) = None
   \<and> map_of (playerData (snd (syncKothFiles_v2 sampleRuntime 1 (emptyWorld\<lparr>files :=
          [(''76561198000000001.json'', \<lparr>content = ''{"hp":'', mtime = 5\<rparr>),
           (''76561198000000002.json'', \<lparr>content = ''{"hp":100}'', mtime = 5\<rparr>),
           (''76561198000000004.json'', \<lparr>content = ''{"hp":100}'', mtime = 5\<rparr>)],
        playerData :=
          [(''ServerSettings'',
            \<lparr>lastsave = 0, serversave = 2, playerdata = JObj [(''score'', JNum 5)]\<rparr>),
           (''76561198000000003'',
            \<lparr>lastsave = 0, serversave = 2, playerdata = JObj [(''hp'', JNum 100)]\<rparr>),
           (''76561198000000004'',
            \<lparr>lastsave = 900, serversave = 2, playerdata = JObj [(''score'', JNum 5)]\<rparr>)]\<rparr>)))) ''76561198000000001'' = None
   \<and> map_of (files (snd (syncKothFiles_v2 sampleRuntime 1 (emptyWorld\<lparr>files :=
          [(''76561198000000001.json'', \<lparr>content = ''{"hp":'', mtime = 5\<rparr>),
           (''76561198000000002.json'', \<lparr>content = ''{"hp":100}'', mtime = 5\<rparr>),
           (''76561198000000004.json'', \<lparr>content = ''{"hp":100}'', mtime = 5\<rparr>)],
        playerData :=
          [(''ServerSettings'',
            \<lparr>lastsave = 0, serversave = 2, playerdata = JObj [(''score'', JNum 5)]\<rparr>),
           (''76561198000000003'',
            \<lparr>lastsave = 0, serversave = 2, playerdata = JObj [(''hp'', JNum 100)]\<rparr>),
           (''76561198000000004'',
            \<lparr>lastsave = 900, serversave = 2, playerdata = JObj [(''score'', JNum 5)]\<rparr>)]\<rparr>)))) ''76561198000000001.json''
       = Some \<lparr>content = ''{"hp":'', mtime = 5\<rparr>
   \<and> map_of (playerData (snd (syncKothFiles_v2 sampleRuntime 1 (emptyWorld\<lparr>files :=
          [(''76561198000000001.json'', \<lparr>content = ''{"hp":'', mtime = 5\<rparr>),
           (''76561198000000002.json'', \<lparr>content = ''{"hp":100}'', mtime = 5\<rparr>),
           (''76561198000000004.json'', \<lparr>content = ''{"hp":100}'', mtime = 5\<rparr>)],
        playerData :=
          [(''ServerSettings'',
            \<lparr>lastsave = 0, serversave = 2, playerdata = JObj [(''score'', JNum 5)]\<rparr>),
           (''76561198000000003'',
            \<lparr>lastsave = 0, serversave = 2, playerdata = JObj [(''hp'', JNum 100)]\<rparr>),
           (''76561198000000004'',
            \<lparr>lastsave = 900, serversave = 2, playerdata = JObj [(''score'', JNum 5)]\<rparr>)]\<rparr>)))) ''76561198000000002''
       = Some \<lparr>lastsave = 1000, serversave = 1, playerdata = JObj [(''hp'', JNum 100)]\<rparr>
   \<and> map_of (files (snd (syncKothFiles_v2 sampleRuntime 1 (emptyWorld\<lparr>files :=
          [(''76561198000000001.json'', \<lparr>content = ''{"hp":'', mtime = 5\<rparr>),
           (''76561198000000002.json'', \<lparr>content = ''{"hp":100}'', mtime = 5\<rparr>),
           (''76561198000000004.json'', \<lparr>content = ''{"hp":100}'', mtime = 5\<rparr>)],
        playerData :=
          [(''ServerSettings'',
            \<lparr>lastsave = 0, serversave = 2, playerdata = JObj [(''score'', JNum 5)]\<rparr>),
           (''76561198000000003'',
            \<lparr>lastsave = 0, serversave = 2, playerdata = JObj [(''hp'', JNum 100)]\<rparr>),
           (''76561198000000004'',
            \<lparr>lastsave = 900, serversave = 2, playerdata = JObj [(''score'', JNum 5)]\<rparr>)]\<rparr>)))) ''76561198000000004.json''
       = Some \<lparr>content = ''{'' @ [CHR 0x0A] @ ''  "score": 5'' @ [CHR 0x0A] @ ''}'', mtime = 1000\<rparr>
   \<and> map_of (files (snd (syncKothFiles_v2 sampleRuntime 1 (emptyWorld\<lparr>files :=
          [(''76561198000000001.json'', \<lparr>content = ''{"hp":'', mtime = 5\<rparr>),
           (''76561198000000002.json'', \<lparr>content = ''{"hp":100}'', mtime = 5\<rparr>),
           (''76561198000000004.json'', \<lparr>content = ''{"hp":100}'', mtime = 5\<rparr>)],
        playerData :=
          [(''ServerSettings'',
            \<lparr>lastsave = 0, serversave = 2, playerdata = JObj [(''score'', JNum 5)]\<rparr>),
           (''76561198000000003'',
            \<lparr>lastsave = 0, serversave = 2, playerdata = JObj [(''hp'', JNum 100)]\<rparr>),
           (''76561198000000004'',
            \<lparr>lastsave = 900, serversave = 2, playerdata = JObj [(''score'', JNum 5)]\<rparr>)]\<rparr>)))) ''76561198000000003.json''
       = Some \<lparr>content = ''{'' @ [CHR 0x0A] @ ''  "hp": 100'' @ [CHR 0x0A] @ ''}'', mtime = 1000\<rparr>
   \<and> fst (syncKothFiles_v3 sampleRuntime 1 (emptyWorld\<lparr>files :=
          [(''76561198000000001.json'', \<lparr>content = ''{"hp":'', mtime = 5\<rparr>),
           (''76561198000000002.json'', \<lparr>content = ''{"hp":100}'', mtime = 5\<rparr>),
           (''76561198000000004.json'', \<lparr>content = ''{"hp":100}'', mtime = 5\<rparr>)],
        playerData :=
          [(''ServerSettings'',
            \<lparr>lastsave = 0, serversave = 2, playerdata = JObj [(''score'', JNum 5)]\<rparr>),
           (''76561198000000003'',
            \<lparr>lastsave = 0, serversave = 2, playerdata = JObj [(''hp'', JNum 100)]\<rparr>),
           (''76561198000000004'',
            \<lparr>lastsave = 900, serversave = 2, playerdata = JObj [(''score'', JNum 5)]\<rparr>)]\<rparr>)) = None
   \<and> map_of (files (snd (syncKothFiles_v3 sampleRuntime 1 (emptyWorld\<lparr>files :=
          [(''76561198000000001.json'', \<lparr>content = ''{"hp":'', mtime = 5\<rparr>),
           (''76561198000000002.json'', \<lparr>content = ''{"hp":100}'', mtime = 5\<rparr>),
           (''76561198000000004.json'', \<lparr>content = ''{"hp":100}'', mtime = 5\<rparr>)],
        playerData :=
          [(''ServerSettings'',
            \<lparr>lastsave = 0, serversave = 2, playerdata = JObj [(''score'', JNum 5)]\<rparr>),
           (''76561198000000003'',
            \<lparr>lastsave = 0, serversave = 2, playerdata = JObj [(''hp'', JNum 100)]\<rparr>),
           (''76561198000000004'',
            \<lparr>lastsave = 900, serversave = 2, playerdata = JObj [(''score'', JNum 5)]\<rparr>)]\<rparr>)))) ''76561198000000001.json''
       = Some \<lparr>content = ''{"hp":'', mtime = 5\<rparr>
   \<and> map_of (playerData (snd (syncKothFiles_v3 sampleRuntime 1 (emptyWorld\<lparr>files :=
          [(''76561198000000001.json'', \<lparr>content = ''{"hp":'', mtime = 5\<rparr>),
           (''76561198000000002.json'', \<lparr>content = ''{"hp":100}'', mtime = 5\<rparr>),
           (''76561198000000004.json'', \<lparr>content = ''{"hp":100}'', mtime = 5\<rparr>)],
        playerData :=
          [(''ServerSettings'',
            \<lparr>lastsave = 0, serversave = 2, playerdata = JObj [(''score'', JNum 5)]\<rparr>),
           (''76561198000000003'',
            \<lparr>lastsave = 0, serversave = 2, playerdata = JObj [(''hp'', JNum 100)]\<rparr>),
           (''76561198000000004'',
            \<lparr>lastsave = 900, serversave = 2, playerdata = JObj [(''score'', JNum 5)]\<rparr>)]\<rparr>)))) ''76561198000000002''
       = Some \<lparr>lastsave = 1000, serversave = 1, playerdata = JObj [(''hp'', JNum 100)]\<rparr>
   \<and> map_of (files (snd (syncKothFiles_v3 sampleRuntime 1 (emptyWorld\<lparr>files :=
          [(''76561198000000001.json'', \<lparr>content = ''{"hp":'', mtime = 5\<rparr>),
           (''76561198000000002.json'', \<lparr>content = ''{"hp":100}'', mtime = 5\<rparr>),
           (''76561198000000004.json'', \<lparr>content = ''{"hp":100}'', mtime = 5\<rparr>)],
        playerData :=
          [(''ServerSettings'',
            \<lparr>lastsave = 0, serversave = 2, playerdata = JObj [(''score'', JNum 5)]\<rparr>),
           (''76561198000000003'',
            \<lparr>lastsave = 0, serversave = 2, playerdata = JObj [(''hp'', JNum 100)]\<rparr>),
           (''76561198000000004'',
            \<lparr>lastsave = 900, serversave = 2, playerdata = JObj [(''score'', JNum 5)]\<rparr>)]\<rparr>)))) ''76561198000000003.json''
       = Some \<lparr>content = ''{'' @ [CHR 0x0A] @ ''  "hp": 100'' @ [CHR 0x0A] @ ''}'', mtime = 1000\<rparr>\<close>
proof -
  let ?w = \<open>(emptyWorld\<lparr>files :=
          [(''76561198000000001.json'', \<lparr>content = ''{"hp":'', mtime = 5\<rparr>),
           (''76561198000000002.json'', \<lparr>content = ''{"hp":100}'', mtime = 5\<rparr>),
           (''76561198000000004.json'', \<lparr>content = ''{"hp":100}'', mtime = 5\<rparr>)],
        playerData :=
          [(''ServerSettings'',
            \<lparr>lastsave = 0, serversave = 2, playerdata = JObj [(''score'', JNum 5)]\<rparr>),
           (''76561198000000003'',
            \<lparr>lastsave = 0, serversave = 2, playerdata = JObj [(''hp'', JNum 100)]\<rparr>),
           (''76561198000000004'',
            \<lparr>lastsave = 900, serversave = 2, playerdata = JObj [(''score'', JNum 5)]\<rparr>)]\<rparr>)\<close>
  have h1: "distinct (map fst (files ?w))" by simp
  have h2: "distinct (map fst (playerData ?w))" by simp
  have ids: "isSteamID ''76561198000000003''"
    "playerfileid ''76561198000000001.json'' = ''76561198000000001''"
    "playerfileid ''76561198000000002.json'' = ''76561198000000002''"
    "playerfileid ''76561198000000004.json'' = ''76561198000000004''"
    "endsWith ''76561198000000001.json'' ''.json''"
    "endsWith ''76561198000000002.json'' ''.json''"
    "endsWith ''76561198000000004.json'' ''.json''"
    "\<not> isSettingsFile ''76561198000000001.json''"
    "\<not> isSettingsFile ''76561198000000002.json''"
    "\<not> isSettingsFile ''76561198000000004.json''"
    by (simp_all add: isSteamID_def toLowerCase_def lowerChar_def playerfileid_def endsWith_def
          suffix_def isSettingsFile_def)
  have h3: "\<forall>g \<in> set (readdir ?w). endsWith g ''.json'' \<and> \<not> isSettingsFile g
              \<longrightarrow> playerfileid g @ ''.json'' = g"
    by (simp add: readdir_def ids)
  have h4: "readable sampleRuntime (playerData ?w)" by (simp add: readable_def fromDb_def)
  have v2: "syncKothFiles_v2 = syncKothFiles_v2 \<or> syncKothFiles_v2 = syncKothFiles_v3" by simp
  have v3: "syncKothFiles_v3 = syncKothFiles_v2 \<or> syncKothFiles_v3 = syncKothFiles_v3" by simp
  note a = sweep_v2_survives_malformed_files[OF v2 h1 h2 h3 h4, where sid = 1]
  note b = sweep_v2_survives_malformed_files[OF v3 h1 h2 h3 h4, where sid = 1]
  from a[THEN conjunct1]
  have 1: \<open>fst (syncKothFiles_v2 sampleRuntime 1 ?w) = None\<close> .
  from a[where f = "''76561198000000001.json''" and fl = \<open>\<lparr>content = ''{"hp":'', mtime = 5\<rparr>\<close>,
      THEN conjunct2, THEN conjunct1]
  have 2: \<open>map_of (playerData (snd (syncKothFiles_v2 sampleRuntime 1 ?w))) ''76561198000000001'' = None
    \<and> map_of (files (snd (syncKothFiles_v2 sampleRuntime 1 ?w))) ''76561198000000001.json''
       = Some \<lparr>content = ''{"hp":'', mtime = 5\<rparr>\<close>
    by (simp add: ids emptyWorld_def fileWins_def)
  from a[where f = "''76561198000000002.json''" and fl = \<open>\<lparr>content = ''{"hp":100}'', mtime = 5\<rparr>\<close>
      and doc = "JObj [(''hp'', JNum 100)]", THEN conjunct2, THEN conjunct1]
  have 3: \<open>map_of (playerData (snd (syncKothFiles_v2 sampleRuntime 1 ?w))) ''76561198000000002''
       = Some \<lparr>lastsave = 1000, serversave = 1, playerdata = JObj [(''hp'', JNum 100)]\<rparr>\<close>
    by (simp add: ids emptyWorld_def fileWins_def)
  from a[where f = "''76561198000000004.json''" and fl = \<open>\<lparr>content = ''{"hp":100}'', mtime = 5\<rparr>\<close>,
      THEN conjunct2, THEN conjunct1]
  have 4: \<open>map_of (files (snd (syncKothFiles_v2 sampleRuntime 1 ?w))) ''76561198000000004.json''
       = Some \<lparr>content = ''{'' @ [CHR 0x0A] @ ''  "score": 5'' @ [CHR 0x0A] @ ''}'', mtime = 1000\<rparr>\<close>
    by (simp add: ids emptyWorld_def fileWins_def fromDb_def)
  from a[where k = "''76561198000000003''"
      and row = "\<lparr>lastsave = 0, serversave = 2, playerdata = JObj [(''hp'', JNum 100)]\<rparr>",
      THEN conjunct2, THEN conjunct2]
  have 5: \<open>map_of (files (snd (syncKothFiles_v2 sampleRuntime 1 ?w))) ''76561198000000003.json''
       = Some \<lparr>content = ''{'' @ [CHR 0x0A] @ ''  "hp": 100'' @ [CHR 0x0A] @ ''}'', mtime = 1000\<rparr>\<close>
    by (simp add: ids emptyWorld_def fromDb_def)
  from b[THEN conjunct1]
  have 6: \<open>fst (syncKothFiles_v3 sampleRuntime 1 ?w) = None\<close> .
  from b[where f = "''76561198000000001.json''" and fl = \<open>\<lparr>content = ''{"hp":'', mtime = 5\<rparr>\<close>,
      THEN conjunct2, THEN conjunct1]
  have 7: \<open>map_of (files (snd (syncKothFiles_v3 sampleRuntime 1 ?w))) ''76561198000000001.json''
       = Some \<lparr>content = ''{"hp":'', mtime = 5\<rparr>\<close>
    by (simp add: ids emptyWorld_def fileWins_def)
  from b[where f = "''76561198000000002.json''" and fl = \<open>\<lparr>content = ''{"hp":100}'', mtime = 5\<rparr>\<close>
      and doc = "JObj [(''hp'', JNum 100)]", THEN conjunct2, THEN conjunct1]
  have 8: \<open>map_of (playerData (snd (syncKothFiles_v3 sampleRuntime 1 ?w))) ''76561198000000002''
       = Some \<lparr>lastsave = 1000, serversave = 1, playerdata = JObj [(''hp'', JNum 100)]\<rparr>\<close>
    by (simp add: ids emptyWorld_def fileWins_def)
  from b[where k = "''76561198000000003''"
      and row = "\<lparr>lastsave = 0, serversave = 2, playerdata = JObj [(''hp'', JNum 100)]\<rparr>",
      THEN conjunct2, THEN conjunct2]
  have 9: \<open>map_of (files (snd (syncKothFiles_v3 sampleRuntime 1 ?w))) ''76561198000000003.json''
       = Some \<lparr>content = ''{'' @ [CHR 0x0A] @ ''  "hp": 100'' @ [CHR 0x0A] @ ''}'', mtime = 1000\<rparr>\<close>
    by (simp add: ids emptyWorld_def fromDb_def)
  from 1 2 3 4 5 6 7 8 9 show ?thesis by (intro conjI) simp_all
qed

end
